theory Spec2Isabelle
  imports Main "HOL-Library.Word" "HOL-Library.Multiset" "HOL-Library.AList"
    "HOL-Library.Monad_Syntax"
begin

section \<open>Vulkan render graph: the copy-buffer-to-image node\<close>

text \<open>
  The node of \<^verbatim>\<open>vk_copy_buffer_to_image_node.hh\<close>. Vulkan handles are opaque
  numbers, flag words are 32 bits wide, and the image layouts are the core values of
  the \<^verbatim>\<open>VkImageLayout\<close> enumeration.
\<close>

type_synonym VkBuffer = nat
type_synonym VkImage = nat
type_synonym VkAccessFlags = "32 word"
type_synonym VkImageAspectFlags = "32 word"

datatype VkImageLayout =
    VK_IMAGE_LAYOUT_UNDEFINED
  | VK_IMAGE_LAYOUT_GENERAL
  | VK_IMAGE_LAYOUT_COLOR_ATTACHMENT_OPTIMAL
  | VK_IMAGE_LAYOUT_DEPTH_STENCIL_ATTACHMENT_OPTIMAL
  | VK_IMAGE_LAYOUT_DEPTH_STENCIL_READ_ONLY_OPTIMAL
  | VK_IMAGE_LAYOUT_SHADER_READ_ONLY_OPTIMAL
  | VK_IMAGE_LAYOUT_TRANSFER_SRC_OPTIMAL
  | VK_IMAGE_LAYOUT_TRANSFER_DST_OPTIMAL
  | VK_IMAGE_LAYOUT_PREINITIALIZED

definition VK_ACCESS_TRANSFER_READ_BIT :: VkAccessFlags where
  "VK_ACCESS_TRANSFER_READ_BIT = 0x800"

definition VK_ACCESS_TRANSFER_WRITE_BIT :: VkAccessFlags where
  "VK_ACCESS_TRANSFER_WRITE_BIT = 0x1000"

definition VK_IMAGE_ASPECT_NONE :: VkImageAspectFlags where
  "VK_IMAGE_ASPECT_NONE = 0"

record VkImageSubresourceLayers =
  aspectMask :: VkImageAspectFlags
  mipLevel :: "32 word"
  baseArrayLayer :: "32 word"
  layerCount :: "32 word"

record VkBufferImageCopy =
  bufferOffset :: "64 word"
  bufferRowLength :: "32 word"
  bufferImageHeight :: "32 word"
  imageSubresource :: VkImageSubresourceLayers
  imageOffset :: "int \<times> int \<times> int"
  imageExtent :: "32 word \<times> 32 word \<times> 32 word"

text \<open>\<^verbatim>\<open>struct VKCopyBufferToImageData\<close>; the node's \<^verbatim>\<open>CreateInfo\<close> and
  \<^verbatim>\<open>Data\<close> are both this type.\<close>

record VKCopyBufferToImageData =
  src_buffer :: VkBuffer
  dst_image :: VkImage
  region :: VkBufferImageCopy

subsection \<open>The resource state tracker and the node links\<close>

type_synonym ResourceHandle = nat

record ResourceWithStamp =
  handle :: ResourceHandle
  stamp :: "64 word"

text \<open>
  Modelled from the spec: \<^verbatim>\<open>VKResourceStateTracker\<close> is declared in
  \<^verbatim>\<open>vk_resource_state_tracker.hh\<close>, which is not among the sources. The tracker
  maps every registered buffer and image to a resource handle and keeps a version
  stamp per handle. \<^verbatim>\<open>get_buffer\<close> reads the buffer's handle with its current
  stamp; \<^verbatim>\<open>get_image_and_increase_stamp\<close> reads the image's handle with its
  current stamp and then increases the stored stamp by one. Looking up a resource that
  was never registered is an assertion failure, \<open>None\<close> here.
\<close>

record VKResourceStateTracker =
  buffer_resources :: "VkBuffer \<rightharpoonup> ResourceHandle"
  image_resources :: "VkImage \<rightharpoonup> ResourceHandle"
  resources :: "ResourceHandle \<rightharpoonup> 64 word"

definition get_stamp :: "VKResourceStateTracker \<Rightarrow> ResourceHandle \<Rightarrow> ResourceWithStamp option" where
  "get_stamp tracker h =
     (case resources tracker h of
        None \<Rightarrow> None
      | Some s \<Rightarrow> Some \<lparr>handle = h, stamp = s\<rparr>)"

definition get_buffer :: "VKResourceStateTracker \<Rightarrow> VkBuffer \<Rightarrow> ResourceWithStamp option" where
  "get_buffer tracker vk_buffer =
     (case buffer_resources tracker vk_buffer of
        None \<Rightarrow> None
      | Some h \<Rightarrow> get_stamp tracker h)"

definition get_image_and_increase_stamp ::
  "VKResourceStateTracker \<Rightarrow> VkImage \<Rightarrow> (ResourceWithStamp \<times> VKResourceStateTracker) option" where
  "get_image_and_increase_stamp tracker vk_image =
     (case image_resources tracker vk_image of
        None \<Rightarrow> None
      | Some h \<Rightarrow>
          (case get_stamp tracker h of
             None \<Rightarrow> None
           | Some r \<Rightarrow>
               Some (r, tracker\<lparr>resources := (resources tracker)(h \<mapsto> stamp r + 1)\<rparr>)))"

text \<open>
  Modelled from the spec: \<^verbatim>\<open>VKRenderGraphLink\<close> and \<^verbatim>\<open>VKRenderGraphNodeLinks\<close>
  come from \<^verbatim>\<open>vk_node_info.hh\<close>, which is not among the sources. A link is the
  aggregate that \<^verbatim>\<open>build_links\<close> initialises: the resource with its stamp, the access
  flags, the image layout and the image aspect, the last defaulting to
  \<^verbatim>\<open>VK_IMAGE_ASPECT_NONE\<close> when the initialiser list leaves it out.
\<close>

record VKRenderGraphLink =
  resource :: ResourceWithStamp
  vk_access_flags :: VkAccessFlags
  vk_image_layout :: VkImageLayout
  vk_image_aspect :: VkImageAspectFlags

record VKRenderGraphNodeLinks =
  inputs :: "VKRenderGraphLink list"
  outputs :: "VKRenderGraphLink list"

subsection \<open>The node's three operations\<close>

definition set_node_data :: "VKCopyBufferToImageData \<Rightarrow> VKCopyBufferToImageData" where
  "set_node_data create_info = create_info"

definition build_links ::
  "VKResourceStateTracker \<Rightarrow> VKRenderGraphNodeLinks \<Rightarrow> VKCopyBufferToImageData
     \<Rightarrow> (VKResourceStateTracker \<times> VKRenderGraphNodeLinks) option" where
  "build_links tracker node_links create_info =
     (case get_buffer tracker (src_buffer create_info) of
        None \<Rightarrow> None
      | Some src_resource \<Rightarrow>
          (case get_image_and_increase_stamp tracker (dst_image create_info) of
             None \<Rightarrow> None
           | Some (dst_resource, tracker') \<Rightarrow>
               Some (tracker',
                 node_links
                   \<lparr>inputs := inputs node_links @
                      [\<lparr>resource = src_resource,
                        vk_access_flags = VK_ACCESS_TRANSFER_READ_BIT,
                        vk_image_layout = VK_IMAGE_LAYOUT_UNDEFINED,
                        vk_image_aspect = VK_IMAGE_ASPECT_NONE\<rparr>],
                    outputs := outputs node_links @
                      [\<lparr>resource = dst_resource,
                        vk_access_flags = VK_ACCESS_TRANSFER_WRITE_BIT,
                        vk_image_layout = VK_IMAGE_LAYOUT_TRANSFER_DST_OPTIMAL,
                        vk_image_aspect = aspectMask (imageSubresource (region create_info))\<rparr>]\<rparr>)))"

text \<open>
  \<^verbatim>\<open>VKCommandBufferInterface\<close> is an abstract interface; a command buffer is the
  list of the commands recorded into it. \<^verbatim>\<open>copy_buffer_to_image\<close> takes the region
  count and a pointer to the first region: the regions read are the \<open>region_count\<close>
  elements from the pointer on, here the single \<^verbatim>\<open>data.region\<close>.
\<close>

datatype VKCommand =
  CopyBufferToImage VkBuffer VkImage VkImageLayout nat "VkBufferImageCopy list"

definition copy_buffer_to_image ::
  "VKCommand list \<Rightarrow> VkBuffer \<Rightarrow> VkImage \<Rightarrow> VkImageLayout \<Rightarrow> nat \<Rightarrow> VkBufferImageCopy list
     \<Rightarrow> VKCommand list" where
  "copy_buffer_to_image command_buffer src dst layout region_count regions =
     command_buffer @ [CopyBufferToImage src dst layout region_count regions]"

definition build_commands :: "VKCommand list \<Rightarrow> VKCopyBufferToImageData \<Rightarrow> VKCommand list" where
  "build_commands command_buffer data =
     copy_buffer_to_image command_buffer
       (src_buffer data) (dst_image data) VK_IMAGE_LAYOUT_TRANSFER_DST_OPTIMAL 1 [region data]"

fun command_layout :: "VKCommand \<Rightarrow> VkImageLayout" where
  "command_layout (CopyBufferToImage _ _ layout _ _) = layout"

fun command_region_count :: "VKCommand \<Rightarrow> nat" where
  "command_region_count (CopyBufferToImage _ _ _ n _) = n"

fun command_regions :: "VKCommand \<Rightarrow> VkBufferImageCopy list" where
  "command_regions (CopyBufferToImage _ _ _ _ rs) = rs"

section \<open>PLY export\<close>

text \<open>
  \<^verbatim>\<open>exporter_main\<close> of \<^verbatim>\<open>ply_export.cc\<close>. The file buffers and the four writers
  live in other files; a buffer is modelled by its class, its path and the sequence of
  write operations it received, each writer appending its own operation.
\<close>

datatype FileBufferClass = FileBufferAscii | FileBufferBinary

datatype 'ply FileOp =
    WriteHeader 'ply bool
  | WriteVertices 'ply
  | WriteFaces 'ply
  | WriteEdges 'ply
  | CloseFile

record 'ply FileBuffer =
  buffer_class :: FileBufferClass
  buffer_path :: string
  written :: "'ply FileOp list"

record PLYExportParams =
  filepath :: string
  ascii_format :: bool

definition make_buffer :: "FileBufferClass \<Rightarrow> string \<Rightarrow> 'ply FileBuffer" where
  "make_buffer c path = \<lparr>buffer_class = c, buffer_path = path, written = []\<rparr>"

definition write_header :: "'ply FileBuffer \<Rightarrow> 'ply \<Rightarrow> PLYExportParams \<Rightarrow> 'ply FileBuffer" where
  "write_header buffer ply_data export_params =
     buffer\<lparr>written := written buffer @ [WriteHeader ply_data (ascii_format export_params)]\<rparr>"

definition write_vertices :: "'ply FileBuffer \<Rightarrow> 'ply \<Rightarrow> 'ply FileBuffer" where
  "write_vertices buffer ply_data = buffer\<lparr>written := written buffer @ [WriteVertices ply_data]\<rparr>"

definition write_faces :: "'ply FileBuffer \<Rightarrow> 'ply \<Rightarrow> 'ply FileBuffer" where
  "write_faces buffer ply_data = buffer\<lparr>written := written buffer @ [WriteFaces ply_data]\<rparr>"

definition write_edges :: "'ply FileBuffer \<Rightarrow> 'ply \<Rightarrow> 'ply FileBuffer" where
  "write_edges buffer ply_data = buffer\<lparr>written := written buffer @ [WriteEdges ply_data]\<rparr>"

definition close_file :: "'ply FileBuffer \<Rightarrow> 'ply FileBuffer" where
  "close_file buffer = buffer\<lparr>written := written buffer @ [CloseFile]\<rparr>"

text \<open>\<open>load_plydata\<close> fills the mesh data from the evaluated dependency graph; it is
  a parameter, as is the graph.\<close>

definition exporter_main ::
  "('dg \<Rightarrow> PLYExportParams \<Rightarrow> 'ply) \<Rightarrow> 'dg \<Rightarrow> PLYExportParams \<Rightarrow> 'ply FileBuffer" where
  "exporter_main load_plydata depsgraph export_params =
     (let plyData = load_plydata depsgraph export_params;
          buffer = (if ascii_format export_params
                    then make_buffer FileBufferAscii (filepath export_params)
                    else make_buffer FileBufferBinary (filepath export_params));
          buffer = write_header buffer plyData export_params;
          buffer = write_vertices buffer plyData;
          buffer = write_faces buffer plyData;
          buffer = write_edges buffer plyData
      in close_file buffer)"

section \<open>Grease pencil editing: index containers\<close>

text \<open>
  Modelled from the spec: \<^verbatim>\<open>IndexRange\<close>, \<^verbatim>\<open>IndexMask\<close>, \<^verbatim>\<open>Span\<close> and
  \<^verbatim>\<open>array_utils\<close> belong to the container library (\<^verbatim>\<open>BLI_index_range.hh\<close>,
  \<^verbatim>\<open>BLI_index_mask.hh\<close>, \<^verbatim>\<open>BLI_span.hh\<close>, \<^verbatim>\<open>BLI_array_utils.hh\<close>), which is not
  among the sources. An index range is a start with a size. An index mask is the
  increasing list of the indices it holds. A mutable span is a window (offset and
  size) onto its array. Operations whose precondition fails (an index outside the
  array, a span of the wrong size) are \<open>None\<close>.
\<close>

record IndexRange =
  range_start :: nat
  range_size :: nat

definition range_first :: "IndexRange \<Rightarrow> int" where
  "range_first r = int (range_start r)"

text \<open>\<^verbatim>\<open>IndexRange::last(n)\<close>: the index \<open>n\<close> places before the last one.\<close>

definition range_last :: "IndexRange \<Rightarrow> nat \<Rightarrow> int" where
  "range_last r n = int (range_start r) + int (range_size r) - 1 - int n"

definition range_indices :: "IndexRange \<Rightarrow> nat list" where
  "range_indices r = [range_start r ..< range_start r + range_size r]"

definition range_shift :: "IndexRange \<Rightarrow> nat \<Rightarrow> IndexRange" where
  "range_shift r n = r\<lparr>range_start := range_start r + n\<rparr>"

type_synonym IndexMask = "nat list"

definition is_index_mask :: "IndexMask \<Rightarrow> bool" where
  "is_index_mask m = sorted_wrt (<) m"

definition mask_complement :: "IndexMask \<Rightarrow> IndexRange \<Rightarrow> IndexMask" where
  "mask_complement m universe = filter (\<lambda>i. i \<notin> set m) (range_indices universe)"

type_synonym span_window = "nat \<times> nat"

definition take_front :: "'a list \<Rightarrow> nat \<Rightarrow> span_window" where
  "take_front xs n = (0, min n (length xs))"

definition take_back :: "'a list \<Rightarrow> nat \<Rightarrow> span_window" where
  "take_back xs n = (length xs - min n (length xs), min n (length xs))"

text \<open>\<^verbatim>\<open>IndexMask::to_indices\<close> asserts that the span has the size of the mask.\<close>

definition to_indices :: "IndexMask \<Rightarrow> int list \<Rightarrow> span_window \<Rightarrow> int list option" where
  "to_indices m xs w =
     (case w of (off, sz) \<Rightarrow>
        if length m = sz then Some (take off xs @ map int m @ drop (off + sz) xs) else None)"

definition fill_index_range :: "int list \<Rightarrow> int list" where
  "fill_index_range xs = map int [0 ..< length xs]"

text \<open>\<^verbatim>\<open>std::swap(xs[i], xs[j])\<close>; an index outside the array is undefined behaviour.\<close>

definition swap_at :: "'a list \<Rightarrow> int \<Rightarrow> int \<Rightarrow> 'a list option" where
  "swap_at xs i j =
     (if 0 \<le> i \<and> i < int (length xs) \<and> 0 \<le> j \<and> j < int (length xs)
      then Some (xs[nat i := xs ! nat j, nat j := xs ! nat i])
      else None)"

text \<open>\<^verbatim>\<open>foreach_index_optimized\<close> visits the indices of the mask in increasing order,
  each with its position in the mask.\<close>

definition mask_with_positions :: "IndexMask \<Rightarrow> (nat \<times> nat) list" where
  "mask_with_positions m = zip m [0 ..< length m]"

section \<open>Grease pencil editing: the reorder operator's index array\<close>

datatype ReorderDirection = TOP | UP | DOWN | BOTTOM

text \<open>The loop of the \<^verbatim>\<open>DOWN\<close> branch, over the pairs of index and position.\<close>

fun reorder_down :: "(nat \<times> nat) list \<Rightarrow> int list \<Rightarrow> int list option" where
  "reorder_down [] indices = Some indices"
| "reorder_down ((curve_i, pos) # rest) indices =
     (if curve_i \<noteq> pos
      then (case swap_at indices (int curve_i) (int curve_i - 1) of
              None \<Rightarrow> None
            | Some indices' \<Rightarrow> reorder_down rest indices')
      else reorder_down rest indices)"

text \<open>The loop of the \<^verbatim>\<open>UP\<close> branch, over \<open>i\<close> in the index range of
  \<open>selected_indices\<close>.\<close>

fun reorder_up :: "IndexRange \<Rightarrow> int list \<Rightarrow> nat list \<Rightarrow> int list \<Rightarrow> int list option" where
  "reorder_up universe selected_indices [] indices = Some indices"
| "reorder_up universe selected_indices (i # rest) indices =
     (let pos = length selected_indices - 1 - i;
          curve_i = selected_indices ! pos
      in if curve_i \<noteq> range_last universe i
         then (case swap_at indices curve_i (curve_i + 1) of
                 None \<Rightarrow> None
               | Some indices' \<Rightarrow> reorder_up universe selected_indices rest indices')
         else reorder_up universe selected_indices rest indices)"

text \<open>
  \<^verbatim>\<open>get_reordered_indices\<close>. \<^verbatim>\<open>Array<int> indices(universe.size())\<close> leaves the
  elements indeterminate; \<open>garbage\<close> gives the indeterminate content of each position.
\<close>

definition get_reordered_indices ::
  "(nat \<Rightarrow> int) \<Rightarrow> IndexRange \<Rightarrow> IndexMask \<Rightarrow> ReorderDirection \<Rightarrow> int list option" where
  "get_reordered_indices garbage universe selected direction =
     (let indices = map garbage [0 ..< range_size universe];
          indices = (if direction = UP \<or> direction = DOWN
                     then fill_index_range indices else indices)
      in if direction = TOP \<or> direction = BOTTOM then
           (let unselected = mask_complement selected universe;
                A = (if direction = BOTTOM then selected else unselected);
                B = (if direction = BOTTOM then unselected else selected)
            in case to_indices A indices (take_front indices (length A)) of
                 None \<Rightarrow> None
               | Some indices' \<Rightarrow> to_indices B indices' (take_back indices' (length B)))
         else if direction = DOWN then
           reorder_down (mask_with_positions selected) indices
         else if direction = UP then
           (let selected_indices = map int selected
            in reorder_up universe selected_indices [0 ..< length selected_indices] indices)
         else Some indices)"

section \<open>Grease pencil editing: curves geometry\<close>

text \<open>
  Modelled from the spec: \<^verbatim>\<open>bke::CurvesGeometry\<close>, its attribute accessors,
  \<^verbatim>\<open>VArray\<close>, \<^verbatim>\<open>Vector\<close>, \<^verbatim>\<open>OffsetIndices\<close> and \<^verbatim>\<open>bke::gather_attributes\<close>
  are declared in headers that are not among the sources (\<^verbatim>\<open>BKE_curves.hh\<close>,
  \<^verbatim>\<open>BKE_attribute.hh\<close>, \<^verbatim>\<open>BLI_virtual_array.hh\<close>, \<^verbatim>\<open>BLI_vector.hh\<close>,
  \<^verbatim>\<open>BLI_offset_indices.hh\<close>). The glossary calls the curves geometry an indexed
  point/curve container with per-domain attributes. It is a point count, a curve count,
  the curve offsets into the points, and named attributes, each with its domain, its
  type and one value per element of the domain. The type \<open>'f\<close> stands for the floating
  point payloads, which no operation here computes with.
\<close>

datatype AttrDomain = Auto | Point | Edge | Face | Corner | Curve | Instance | Layer

datatype eCustomDataType = CD_PROP_FLOAT | CD_PROP_INT32 | CD_PROP_FLOAT3 | CD_PROP_BOOL | CD_PROP_INT8

datatype 'f attr_value = BoolV bool | IntV int | FloatV 'f | Float3V 'f 'f 'f

record 'f Attribute =
  attr_domain :: AttrDomain
  attr_type :: eCustomDataType
  attr_data :: "'f attr_value list"

type_synonym 'f AttributeList = "(string \<times> 'f Attribute) list"

record 'f CurvesGeometry =
  point_num :: nat
  curve_num :: nat
  curve_offsets :: "nat list"
  attributes :: "'f AttributeList"
  vertex_group_names :: "string list"

fun as_bool :: "'f attr_value \<Rightarrow> bool" where
  "as_bool (BoolV b) = b"
| "as_bool _ = False"

text \<open>A virtual array is a single value repeated or a span of stored values.\<close>

datatype 'a VArray = VSingle 'a nat | VSpan "'a list"

fun varray_size :: "'a VArray \<Rightarrow> nat" where
  "varray_size (VSingle _ n) = n"
| "varray_size (VSpan xs) = length xs"

fun varray_get :: "'a VArray \<Rightarrow> nat \<Rightarrow> 'a option" where
  "varray_get (VSingle v n) i = (if i < n then Some v else None)"
| "varray_get (VSpan xs) i = (if i < length xs then Some (xs ! i) else None)"

fun get_if_single :: "'a VArray \<Rightarrow> 'a option" where
  "get_if_single (VSingle v _) = Some v"
| "get_if_single (VSpan _) = None"

fun is_span :: "'a VArray \<Rightarrow> bool" where
  "is_span (VSpan _) = True"
| "is_span (VSingle _ _) = False"

fun is_single :: "'a VArray \<Rightarrow> bool" where
  "is_single (VSingle _ _) = True"
| "is_single (VSpan _) = False"

definition value_or :: "'a option \<Rightarrow> 'a \<Rightarrow> 'a" where
  "value_or x d = (case x of None \<Rightarrow> d | Some v \<Rightarrow> v)"

definition domain_size :: "'f CurvesGeometry \<Rightarrow> AttrDomain \<Rightarrow> nat" where
  "domain_size g d = (if d = Point then point_num g else if d = Curve then curve_num g else 0)"

text \<open>\<^verbatim>\<open>attributes().lookup_or_default<bool>(name, domain, default)\<close>: the stored
  boolean values when the attribute is stored on that domain, the default for every
  element otherwise.\<close>

definition lookup_or_default_bool ::
  "'f CurvesGeometry \<Rightarrow> string \<Rightarrow> AttrDomain \<Rightarrow> bool \<Rightarrow> bool VArray" where
  "lookup_or_default_bool g name domain default_value =
     (case map_of (attributes g) name of
        None \<Rightarrow> VSingle default_value (domain_size g domain)
      | Some a \<Rightarrow>
          if attr_domain a = domain \<and> attr_type a = CD_PROP_BOOL
          then VSpan (map as_bool (attr_data a))
          else VSingle default_value (domain_size g domain))"

text \<open>\<^verbatim>\<open>CurvesGeometry::cyclic()\<close>: the stored curve attribute, or false for every
  curve when it is not stored.\<close>

definition cyclic :: "'f CurvesGeometry \<Rightarrow> bool VArray" where
  "cyclic g = lookup_or_default_bool g ''cyclic'' Curve False"

text \<open>\<^verbatim>\<open>CurvesGeometry::cyclic_for_write()\<close> gives the stored booleans, adding the
  attribute with false for every curve first when it is not stored; \<open>set_cyclic\<close>
  stores the array after the caller has written to it.\<close>

definition cyclic_for_write :: "'f CurvesGeometry \<Rightarrow> bool list" where
  "cyclic_for_write g =
     (case cyclic g of VSpan xs \<Rightarrow> xs | VSingle _ _ \<Rightarrow> replicate (curve_num g) False)"

definition set_cyclic :: "'f CurvesGeometry \<Rightarrow> bool list \<Rightarrow> 'f CurvesGeometry" where
  "set_cyclic g xs =
     g\<lparr>attributes := AList.update ''cyclic''
         \<lparr>attr_domain = Curve, attr_type = CD_PROP_BOOL, attr_data = map BoolV xs\<rparr>
         (attributes g)\<rparr>"

text \<open>\<^verbatim>\<open>points_by_curve()[i]\<close>: the points of curve \<open>i\<close>, from its offset to the
  next.\<close>

definition points_by_curve :: "'f CurvesGeometry \<Rightarrow> nat \<Rightarrow> IndexRange" where
  "points_by_curve g i =
     \<lparr>range_start = curve_offsets g ! i,
      range_size = curve_offsets g ! (i + 1) - curve_offsets g ! i\<rparr>"

definition curves_range :: "'f CurvesGeometry \<Rightarrow> nat list" where
  "curves_range g = [0 ..< curve_num g]"

text \<open>The invariant of a curves geometry: attribute names are unique, every attribute
  has one value per element of its domain, and the offsets start at zero, increase and
  end at the point count.\<close>

definition curves_wf :: "'f CurvesGeometry \<Rightarrow> bool" where
  "curves_wf g =
     (distinct (map fst (attributes g))
      \<and> list_all (\<lambda>(name, a). (attr_domain a = Point \<or> attr_domain a = Curve)
                    \<and> length (attr_data a) = domain_size g (attr_domain a)) (attributes g)
      \<and> (if curve_num g = 0 then point_num g = 0 \<and> curve_offsets g = []
          else length (curve_offsets g) = curve_num g + 1
               \<and> curve_offsets g ! 0 = 0
               \<and> sorted (curve_offsets g)
               \<and> curve_offsets g ! curve_num g = point_num g))"

text \<open>The constructor \<^verbatim>\<open>CurvesGeometry(point_num, curve_num)\<close> adds the position
  attribute without initialising it (\<open>uninit\<close> is what its memory holds) and, when
  there are curves, allocates the offsets with the first at zero and the last at the
  point count. The default constructor is the geometry with no points and no curves.\<close>

definition new_curves_geometry :: "'f attr_value \<Rightarrow> nat \<Rightarrow> nat \<Rightarrow> 'f CurvesGeometry" where
  "new_curves_geometry uninit p c =
     \<lparr>point_num = p, curve_num = c,
      curve_offsets = (if c = 0 then [] else 0 # replicate (c - 1) 0 @ [p]),
      attributes = [(''position'',
         \<lparr>attr_domain = Point, attr_type = CD_PROP_FLOAT3, attr_data = replicate p uninit\<rparr>)],
      vertex_group_names = []\<rparr>"

definition empty_curves_geometry :: "'f CurvesGeometry" where
  "empty_curves_geometry =
     \<lparr>point_num = 0, curve_num = 0, curve_offsets = [],
      attributes = [(''position'',
         \<lparr>attr_domain = Point, attr_type = CD_PROP_FLOAT3, attr_data = []\<rparr>)],
      vertex_group_names = []\<rparr>"

text \<open>\<^verbatim>\<open>array_utils::copy(src, dst)\<close> asserts equal sizes. The offsets are written
  by copying the counts over all but the last element and accumulating:
  \<^verbatim>\<open>accumulate_counts_to_offsets\<close> replaces each count by the sum of the counts
  before it and writes the total into the last element, which an empty span does not
  have.\<close>

definition accumulate_counts_to_offsets :: "nat list \<Rightarrow> nat list option" where
  "accumulate_counts_to_offsets xs =
     (if xs = [] then None
      else Some (map (\<lambda>i. sum_list (take i xs)) [0 ..< length xs]))"

definition write_offsets :: "'f CurvesGeometry \<Rightarrow> nat list \<Rightarrow> 'f CurvesGeometry option" where
  "write_offsets g counts =
     (let offsets = curve_offsets g in
      if length counts = length offsets - 1
      then (case accumulate_counts_to_offsets (counts @ drop (length counts) offsets) of
              None \<Rightarrow> None
            | Some offsets' \<Rightarrow> Some (g\<lparr>curve_offsets := offsets'\<rparr>))
      else None)"

text \<open>\<^verbatim>\<open>gather_attributes(src, domain, {}, skip, indices, dst)\<close>: every attribute of
  the source on the domain and not skipped is stored in the destination with the values
  of the source elements the indices name. An index outside the source array is
  undefined behaviour.\<close>

definition gather_values :: "'a list \<Rightarrow> nat list \<Rightarrow> 'a list option" where
  "gather_values src indices =
     (if list_all (\<lambda>i. i < length src) indices then Some (map (\<lambda>i. src ! i) indices) else None)"

fun gather_attributes ::
  "'f AttributeList \<Rightarrow> AttrDomain \<Rightarrow> string list \<Rightarrow> nat list \<Rightarrow> 'f AttributeList
     \<Rightarrow> 'f AttributeList option" where
  "gather_attributes [] domain skip indices dst = Some dst"
| "gather_attributes ((name, a) # rest) domain skip indices dst =
     (if attr_domain a = domain \<and> name \<notin> set skip
      then (case gather_values (attr_data a) indices of
              None \<Rightarrow> None
            | Some vs \<Rightarrow>
                gather_attributes rest domain skip indices
                  (AList.update name (a\<lparr>attr_data := vs\<rparr>) dst))
      else gather_attributes rest domain skip indices dst)"

text \<open>\<^verbatim>\<open>lookup_or_add_for_write_only_span<bool>(name, domain)\<close> followed by a copy of
  \<open>xs\<close> into the span and \<^verbatim>\<open>finish()\<close>. An attribute of that name stored with another
  domain or type gives no span to write to, and a span of another size fails the
  assertion of the copy.\<close>

definition write_bool_attribute ::
  "'f AttributeList \<Rightarrow> string \<Rightarrow> AttrDomain \<Rightarrow> nat \<Rightarrow> bool list \<Rightarrow> 'f AttributeList option" where
  "write_bool_attribute attrs name domain n xs =
     (case map_of attrs name of
        None \<Rightarrow>
          if length xs = n
          then Some (AList.update name
                 \<lparr>attr_domain = domain, attr_type = CD_PROP_BOOL, attr_data = map BoolV xs\<rparr> attrs)
          else None
      | Some a \<Rightarrow>
          if attr_domain a = domain \<and> attr_type a = CD_PROP_BOOL \<and> length xs = length (attr_data a)
          then Some (AList.update name (a\<lparr>attr_data := map BoolV xs\<rparr>) attrs)
          else None)"

text \<open>\<^verbatim>\<open>Vector::insert(index, value)\<close> asserts that the index is at most the size;
  \<^verbatim>\<open>++xs[i]\<close> needs \<open>i\<close> inside the array.\<close>

definition insert_at :: "'a list \<Rightarrow> nat \<Rightarrow> 'a \<Rightarrow> 'a list option" where
  "insert_at xs i v = (if i \<le> length xs then Some (take i xs @ [v] @ drop i xs) else None)"

definition increment_at :: "nat list \<Rightarrow> nat \<Rightarrow> nat list option" where
  "increment_at xs i = (if i < length xs then Some (xs[i := xs ! i + 1]) else None)"

text \<open>\<^verbatim>\<open>IndexMask::slice_content(range)\<close>: the indices of the mask inside the range.\<close>

definition slice_content :: "IndexMask \<Rightarrow> IndexRange \<Rightarrow> IndexMask" where
  "slice_content m r =
     filter (\<lambda>i. range_start r \<le> i \<and> i < range_start r + range_size r) m"

section \<open>Grease pencil editing: extrude\<close>

record extrude_state =
  dst_to_src_points :: "nat list"
  dst_selected :: "bool list"
  dst_curve_counts :: "nat list"
  dst_to_src_curves :: "nat list"
  point_offset :: nat

text \<open>The body of the inner \<^verbatim>\<open>foreach_index\<close> of \<^verbatim>\<open>extrude_grease_pencil_curves\<close>,
  for one point to extrude.\<close>

definition extrude_point ::
  "IndexRange \<Rightarrow> bool \<Rightarrow> nat \<Rightarrow> nat \<Rightarrow> extrude_state \<Rightarrow> extrude_state option" where
  "extrude_point curve_points curve_cyclic curve_index src_point_index st =
     (if \<not> curve_cyclic \<and> int src_point_index = range_first curve_points then
        do {
          pts \<leftarrow> insert_at (dst_to_src_points st) (src_point_index + point_offset st) src_point_index;
          sel \<leftarrow> insert_at (dst_selected st) (src_point_index + point_offset st) True;
          counts \<leftarrow> increment_at (dst_curve_counts st) curve_index;
          Some (st\<lparr>dst_to_src_points := pts, dst_selected := sel, dst_curve_counts := counts,
                   point_offset := point_offset st + 1\<rparr>)
        }
      else if \<not> curve_cyclic \<and> int src_point_index = range_last curve_points 0 then
        do {
          pts \<leftarrow> insert_at (dst_to_src_points st) (src_point_index + point_offset st + 1)
                   src_point_index;
          sel \<leftarrow> insert_at (dst_selected st) (src_point_index + point_offset st + 1) True;
          counts \<leftarrow> increment_at (dst_curve_counts st) curve_index;
          Some (st\<lparr>dst_to_src_points := pts, dst_selected := sel, dst_curve_counts := counts,
                   point_offset := point_offset st + 1\<rparr>)
        }
      else
        Some (st\<lparr>dst_to_src_points := dst_to_src_points st @ [src_point_index, src_point_index],
                 dst_selected := dst_selected st @ [False, True],
                 dst_to_src_curves := dst_to_src_curves st @ [curve_index],
                 dst_curve_counts := dst_curve_counts st @ [2]\<rparr>))"

fun extrude_points ::
  "IndexRange \<Rightarrow> bool \<Rightarrow> nat \<Rightarrow> nat list \<Rightarrow> extrude_state \<Rightarrow> extrude_state option" where
  "extrude_points curve_points curve_cyclic curve_index [] st = Some st"
| "extrude_points curve_points curve_cyclic curve_index (p # ps) st =
     (case extrude_point curve_points curve_cyclic curve_index p st of
        None \<Rightarrow> None
      | Some st' \<Rightarrow> extrude_points curve_points curve_cyclic curve_index ps st')"

text \<open>The outer loop over the curves of the source.\<close>

fun extrude_curves ::
  "'f CurvesGeometry \<Rightarrow> IndexMask \<Rightarrow> bool VArray \<Rightarrow> nat list \<Rightarrow> extrude_state
     \<Rightarrow> extrude_state option" where
  "extrude_curves src points_to_extrude src_cyclic [] st = Some st"
| "extrude_curves src points_to_extrude src_cyclic (curve_index # rest) st =
     (let curve_points = points_by_curve src curve_index;
          curve_points_to_extrude = slice_content points_to_extrude curve_points
      in case varray_get src_cyclic curve_index of
           None \<Rightarrow> None
         | Some curve_cyclic \<Rightarrow>
             (case extrude_points curve_points curve_cyclic curve_index curve_points_to_extrude st of
                None \<Rightarrow> None
              | Some st' \<Rightarrow> extrude_curves src points_to_extrude src_cyclic rest st'))"

definition extrude_grease_pencil_curves ::
  "'f attr_value \<Rightarrow> 'f CurvesGeometry \<Rightarrow> IndexMask \<Rightarrow> 'f CurvesGeometry option" where
  "extrude_grease_pencil_curves uninit src points_to_extrude =
     (let old_curves_num = curve_num src;
          old_points_num = point_num src;
          st0 = \<lparr>dst_to_src_points = [0 ..< old_points_num],
                 dst_selected = replicate old_points_num False,
                 dst_curve_counts = map (\<lambda>i. range_size (points_by_curve src i)) (curves_range src),
                 dst_to_src_curves = [0 ..< old_curves_num],
                 point_offset = 0\<rparr>;
          src_cyclic = cyclic src
      in do {
        st \<leftarrow> extrude_curves src points_to_extrude src_cyclic (curves_range src) st0;
        let new_points_num = length (dst_to_src_points st);
        let new_curves_num = length (dst_to_src_curves st);
        let dst = new_curves_geometry uninit new_points_num new_curves_num;
        dst \<leftarrow> write_offsets dst (dst_curve_counts st);
        attrs \<leftarrow> gather_attributes (attributes src) Curve [] (dst_to_src_curves st) (attributes dst);
        attrs \<leftarrow> gather_attributes (attributes src) Point [] (dst_to_src_points st) attrs;
        attrs \<leftarrow> write_bool_attribute attrs ''.selection'' Point new_points_num (dst_selected st);
        let dst = dst\<lparr>attributes := attrs\<rparr>;
        let dst = (if value_or (get_if_single src_cyclic) True
                   then set_cyclic dst
                          (take old_curves_num (cyclic_for_write dst) @
                           replicate (length (cyclic_for_write dst) - old_curves_num) False)
                   else dst);
        Some dst
      })"


section \<open>Grease pencil editing: delete\<close>

text \<open>
  Modelled from the spec: \<^verbatim>\<open>IndexMask::to_bools\<close>, \<^verbatim>\<open>Span::slice\<close> and
  \<^verbatim>\<open>array_utils::find_all_ranges\<close> are container library functions that are not
  among the sources. \<open>to_bools\<close> sets the elements the mask names in a span of
  booleans; \<open>find_all_ranges\<close> gives the maximal runs of a value in a span, as index
  ranges relative to the span (the comment in \<^verbatim>\<open>remove_points_and_split\<close> says so).
\<close>

definition to_bools :: "IndexMask \<Rightarrow> nat \<Rightarrow> bool list option" where
  "to_bools m n =
     (if list_all (\<lambda>i. i < n) m then Some (map (\<lambda>i. i \<in> set m) [0 ..< n]) else None)"

definition slice_span :: "'a list \<Rightarrow> IndexRange \<Rightarrow> 'a list" where
  "slice_span xs r = take (range_size r) (drop (range_start r) xs)"

text \<open>The scan of \<open>find_all_ranges\<close>: \<open>i\<close> is the index of the next element and
  \<open>run\<close> the start of the run that is open, if one is.\<close>

fun find_ranges_from :: "bool list \<Rightarrow> bool \<Rightarrow> nat \<Rightarrow> nat option \<Rightarrow> IndexRange list" where
  "find_ranges_from [] v i None = []"
| "find_ranges_from [] v i (Some s) = [\<lparr>range_start = s, range_size = i - s\<rparr>]"
| "find_ranges_from (x # xs) v i None =
     (if x = v then find_ranges_from xs v (i + 1) (Some i)
      else find_ranges_from xs v (i + 1) None)"
| "find_ranges_from (x # xs) v i (Some s) =
     (if x = v then find_ranges_from xs v (i + 1) (Some s)
      else \<lparr>range_start = s, range_size = i - s\<rparr> # find_ranges_from xs v (i + 1) None)"

definition find_all_ranges :: "bool list \<Rightarrow> bool \<Rightarrow> IndexRange list" where
  "find_all_ranges span v = find_ranges_from span v 0 None"

record split_state =
  curr_dst_point_id :: nat
  dst_to_src_point :: "nat list"
  dst_counts :: "nat list"
  dst_to_src_curve :: "nat list"
  dst_cyclic :: "bool list"

text \<open>\<^verbatim>\<open>dst_to_src_point[curr_dst_point_id++] = src_point\<close> for the points of a range;
  a write past the end of the array is undefined behaviour.\<close>

fun write_points :: "nat list \<Rightarrow> split_state \<Rightarrow> split_state option" where
  "write_points [] st = Some st"
| "write_points (src_point # rest) st =
     (if curr_dst_point_id st < length (dst_to_src_point st)
      then write_points rest
             (st\<lparr>dst_to_src_point := (dst_to_src_point st)[curr_dst_point_id st := src_point],
                 curr_dst_point_id := curr_dst_point_id st + 1\<rparr>)
      else None)"

text \<open>The loop over the ranges to keep of one curve.\<close>

fun split_ranges ::
  "IndexRange \<Rightarrow> IndexRange list \<Rightarrow> bool \<Rightarrow> bool \<Rightarrow> nat \<Rightarrow> nat list \<Rightarrow> split_state
     \<Rightarrow> split_state option" where
  "split_ranges points ranges_to_keep is_curve_self_joined is_cyclic curve_i [] st = Some st"
| "split_ranges points ranges_to_keep is_curve_self_joined is_cyclic curve_i (range_i # rest) st =
     (let range = ranges_to_keep ! range_i;
          count = range_size range
      in case write_points (range_indices (range_shift range (range_start points))) st of
           None \<Rightarrow> None
         | Some st1 \<Rightarrow>
             (let first_range = ranges_to_keep ! 0;
                  joined = (is_curve_self_joined \<and> int range_i = int (length ranges_to_keep) - 1)
              in case (if joined
                       then write_points
                              (range_indices (range_shift first_range (range_start points))) st1
                       else Some st1) of
                   None \<Rightarrow> None
                 | Some st2 \<Rightarrow>
                     split_ranges points ranges_to_keep is_curve_self_joined is_cyclic curve_i rest
                       (st2\<lparr>dst_counts := dst_counts st2 @
                               [if joined then count + range_size first_range else count],
                            dst_to_src_curve := dst_to_src_curve st2 @ [curve_i],
                            dst_cyclic := dst_cyclic st2 @ [is_cyclic]\<rparr>)))"

text \<open>The body of the loop over the curves.\<close>

definition split_curve ::
  "'f CurvesGeometry \<Rightarrow> bool list \<Rightarrow> bool VArray \<Rightarrow> nat \<Rightarrow> split_state \<Rightarrow> split_state option" where
  "split_curve curves points_to_delete src_cyclic curve_i st =
     (let points = points_by_curve curves curve_i;
          curve_points_to_delete = slice_span points_to_delete points
      in case varray_get src_cyclic curve_i of
           None \<Rightarrow> None
         | Some curve_cyclic \<Rightarrow>
             (let ranges_to_keep = find_all_ranges curve_points_to_delete False
              in if ranges_to_keep = [] then Some st
                 else
                   (let is_last_segment_selected =
                          (curve_cyclic \<and> range_first (hd ranges_to_keep) = 0
                           \<and> range_last (last ranges_to_keep) 0 = int (range_size points) - 1);
                        is_curve_self_joined =
                          (is_last_segment_selected \<and> length ranges_to_keep \<noteq> 1);
                        is_cyclic = (length ranges_to_keep = 1 \<and> is_last_segment_selected)
                    in split_ranges points ranges_to_keep is_curve_self_joined is_cyclic curve_i
                         (drop (if is_curve_self_joined then 1 else 0)
                            [0 ..< length ranges_to_keep]) st)))"

fun split_curves ::
  "'f CurvesGeometry \<Rightarrow> bool list \<Rightarrow> bool VArray \<Rightarrow> nat list \<Rightarrow> split_state
     \<Rightarrow> split_state option" where
  "split_curves curves points_to_delete src_cyclic [] st = Some st"
| "split_curves curves points_to_delete src_cyclic (curve_i # rest) st =
     (case split_curve curves points_to_delete src_cyclic curve_i st of
        None \<Rightarrow> None
      | Some st' \<Rightarrow> split_curves curves points_to_delete src_cyclic rest st')"

text \<open>\<^verbatim>\<open>remove_attributes_based_on_types\<close> removes the attributes that no curve type
  of the geometry needs; \<open>unneeded\<close> names them. \<^verbatim>\<open>update_curve_types\<close> refreshes a
  cache and changes nothing that is modelled here.\<close>

definition remove_attributes_based_on_types ::
  "('f CurvesGeometry \<Rightarrow> string list) \<Rightarrow> 'f CurvesGeometry \<Rightarrow> 'f CurvesGeometry" where
  "remove_attributes_based_on_types unneeded g =
     g\<lparr>attributes := filter (\<lambda>(name, a). name \<notin> set (unneeded g)) (attributes g)\<rparr>"

text \<open>
  \<^verbatim>\<open>remove_points_and_split\<close>. \<^verbatim>\<open>Array<int> dst_to_src_point(total_points)\<close> starts
  with indeterminate elements, \<open>garbage\<close>; \<open>uninit\<close> is the indeterminate content of
  the position attribute of the new geometry.
\<close>

definition remove_points_and_split ::
  "(nat \<Rightarrow> nat) \<Rightarrow> 'f attr_value \<Rightarrow> ('f CurvesGeometry \<Rightarrow> string list)
     \<Rightarrow> 'f CurvesGeometry \<Rightarrow> IndexMask \<Rightarrow> 'f CurvesGeometry option" where
  "remove_points_and_split garbage uninit unneeded curves point_mask =
     (let src_cyclic = cyclic curves
      in do {
        points_to_delete \<leftarrow> to_bools point_mask (point_num curves);
        let total_points = length (filter (\<lambda>b. b = False) points_to_delete);
        if total_points = 0 then Some empty_curves_geometry
        else do {
          let st0 = \<lparr>curr_dst_point_id = 0,
                     dst_to_src_point = map garbage [0 ..< total_points],
                     dst_counts = [], dst_to_src_curve = [], dst_cyclic = []\<rparr>;
          st \<leftarrow> split_curves curves points_to_delete src_cyclic (curves_range curves) st0;
          let total_curves = length (dst_to_src_curve st);
          let dst_curves = new_curves_geometry uninit total_points total_curves;
          let dst_curves = dst_curves\<lparr>vertex_group_names := vertex_group_names curves\<rparr>;
          dst_curves \<leftarrow> write_offsets dst_curves (dst_counts st);
          attrs \<leftarrow> gather_attributes (attributes curves) Curve [''cyclic'']
                     (dst_to_src_curve st) (attributes dst_curves);
          let dst_curves = dst_curves\<lparr>attributes := attrs\<rparr>;
          dst_curves \<leftarrow> (if length (dst_cyclic st) = length (cyclic_for_write dst_curves)
                          then Some (set_cyclic dst_curves (dst_cyclic st)) else None);
          attrs \<leftarrow> gather_attributes (attributes curves) Point []
                     (dst_to_src_point st) (attributes dst_curves);
          let dst_curves = dst_curves\<lparr>attributes := attrs\<rparr>;
          Some (remove_attributes_based_on_types unneeded dst_curves)
        }
      })"

subsection \<open>Vocabulary of the proof about \<^verbatim>\<open>remove_points_and_split\<close>\<close>

text \<open>The positions of a value in a span, counted from \<open>i\<close>; the points of a curve that
  are kept; and the state of the destination array when exactly the list \<open>W\<close> has
  been written to its front.\<close>

fun positions_from :: "bool list \<Rightarrow> bool \<Rightarrow> nat \<Rightarrow> nat list" where
  "positions_from [] v i = []"
| "positions_from (x # xs) v i =
     (if x = v then i # positions_from xs v (i + 1) else positions_from xs v (i + 1))"

definition kept_points :: "'f CurvesGeometry \<Rightarrow> bool list \<Rightarrow> nat \<Rightarrow> nat list" where
  "kept_points g ptd c =
     positions_from (slice_span ptd (points_by_curve g c)) False
       (range_start (points_by_curve g c))"

definition written_prefix :: "split_state \<Rightarrow> nat list \<Rightarrow> bool" where
  "written_prefix st W =
     (curr_dst_point_id st = length W
      \<and> length W \<le> length (dst_to_src_point st)
      \<and> take (length W) (dst_to_src_point st) = W)"

section \<open>Grease pencil editing: the operators\<close>

text \<open>
  The operator callbacks of the editing file run on a context: the drawings of the
  active grease pencil object, and what the window manager and the dependency graph are
  told. A \<^verbatim>\<open>MutableDrawingInfo\<close> refers to its drawing; here the reference is the
  index of the drawing in the context. Every call that changes a drawing through such a
  reference is recorded in \<open>drawing_writes\<close>, next to the change itself, in the same
  way as the calls of \<^verbatim>\<open>WM_event_add_notifier\<close> and \<^verbatim>\<open>DEG_id_tag_update\<close> are
  recorded in \<open>notifiers\<close> and \<open>id_tags\<close>. The rest of the data-base (layers,
  frames, the drawings of other objects, materials, the clipboard, the 3D cursor) is
  the abstract \<open>world\<close>.
\<close>

datatype wmOperatorStatus = OPERATOR_FINISHED | OPERATOR_CANCELLED

datatype note_flag =
    NC_GEOM | NC_GPENCIL | NC_OBJECT | NC_SPACE
  | ND_DATA | ND_DRAW | ND_SPACE_VIEW3D
  | NA_EDITED

datatype recalc_flag = ID_RECALC_GEOMETRY | ID_RECALC_TRANSFORM | ID_RECALC_SYNC_TO_EVAL

datatype id_ref = GreasePencilID | ObjectID | SceneID | OtherGreasePencilID nat | NullRef

datatype drawing_write =
    AttributeWritten string "AttrDomain option"
  | StrokesChanged string
  | TopologyChanged

record 'f Drawing =
  strokes :: "'f CurvesGeometry"

record MutableDrawingInfo =
  drawing :: nat
  layer_index :: int
  frame_number :: int

text \<open>The material slots of an object: \<^verbatim>\<open>Object::actcol\<close> and \<^verbatim>\<open>Object::totcol\<close>.
  The active object is the one \<^verbatim>\<open>CTX_data_active_object\<close> returns; the others are the
  duplicates that the separate operator adds.\<close>

record Object =
  actcol :: int
  totcol :: int

datatype object_ref = ActiveObject | DuplicateObject nat

record ('f, 'w) bContext =
  drawings :: "'f Drawing list"
  drawing_writes :: "(nat \<times> drawing_write) list"
  notifiers :: "(note_flag list \<times> id_ref) list"
  id_tags :: "(id_ref \<times> recalc_flag list) list"
  reports :: "string list"
  selection_domain :: AttrDomain
  objects :: "object_ref \<Rightarrow> Object"
  cfra :: int
  world :: 'w

text \<open>The properties of an operator, read with \<^verbatim>\<open>RNA_int_get\<close> and its siblings.\<close>

record 'f wmOperator =
  rna_int :: "string \<Rightarrow> int"
  rna_float :: "string \<Rightarrow> 'f"
  rna_boolean :: "string \<Rightarrow> bool"
  rna_enum :: "string \<Rightarrow> int"
  rna_string :: "string \<Rightarrow> string"

definition RNA_int_get :: "'f wmOperator \<Rightarrow> string \<Rightarrow> int" where
  "RNA_int_get op name = rna_int op name"

definition RNA_float_get :: "'f wmOperator \<Rightarrow> string \<Rightarrow> 'f" where
  "RNA_float_get op name = rna_float op name"

definition RNA_boolean_get :: "'f wmOperator \<Rightarrow> string \<Rightarrow> bool" where
  "RNA_boolean_get op name = rna_boolean op name"

definition RNA_enum_get :: "'f wmOperator \<Rightarrow> string \<Rightarrow> int" where
  "RNA_enum_get op name = rna_enum op name"

definition RNA_string_get :: "'f wmOperator \<Rightarrow> string \<Rightarrow> string" where
  "RNA_string_get op name = rna_string op name"

definition DEG_id_tag_update ::
  "id_ref \<Rightarrow> recalc_flag list \<Rightarrow> ('f, 'w) bContext \<Rightarrow> ('f, 'w) bContext" where
  "DEG_id_tag_update ident flags C = C\<lparr>id_tags := id_tags C @ [(ident, flags)]\<rparr>"

definition WM_event_add_notifier ::
  "note_flag list \<Rightarrow> id_ref \<Rightarrow> ('f, 'w) bContext \<Rightarrow> ('f, 'w) bContext" where
  "WM_event_add_notifier type reference C = C\<lparr>notifiers := notifiers C @ [(type, reference)]\<rparr>"

definition BKE_report :: "string \<Rightarrow> ('f, 'w) bContext \<Rightarrow> ('f, 'w) bContext" where
  "BKE_report message C = C\<lparr>reports := reports C @ [message]\<rparr>"

text \<open>The drawing an info refers to, and a change of its strokes through the reference
  that \<^verbatim>\<open>strokes_for_write()\<close> returns; \<open>event\<close> names the call that makes the change.
  For a write to an attribute it holds the name and, when the call names one, the
  domain that the operator asks for.\<close>

definition drawing_of :: "('f, 'w) bContext \<Rightarrow> MutableDrawingInfo \<Rightarrow> 'f Drawing" where
  "drawing_of C info = drawings C ! drawing info"

definition write_strokes ::
  "MutableDrawingInfo \<Rightarrow> drawing_write \<Rightarrow> ('f CurvesGeometry \<Rightarrow> 'f CurvesGeometry)
     \<Rightarrow> ('f, 'w) bContext \<Rightarrow> ('f, 'w) bContext" where
  "write_strokes info event f C =
     C\<lparr>drawings := (drawings C)[drawing info :=
           (drawing_of C info)\<lparr>strokes := f (strokes (drawing_of C info))\<rparr>],
       drawing_writes := drawing_writes C @ [(drawing info, event)]\<rparr>"

definition tag_topology_changed ::
  "MutableDrawingInfo \<Rightarrow> ('f, 'w) bContext \<Rightarrow> ('f, 'w) bContext" where
  "tag_topology_changed info C =
     C\<lparr>drawing_writes := drawing_writes C @ [(drawing info, TopologyChanged)]\<rparr>"

text \<open>The tail that most operators share: tag the geometry and notify when a drawing
  changed.\<close>

definition notify_if_changed ::
  "bool \<Rightarrow> note_flag list \<Rightarrow> id_ref \<Rightarrow> ('f, 'w) bContext \<Rightarrow> ('f, 'w) bContext" where
  "notify_if_changed changed type reference C =
     (if changed
      then WM_event_add_notifier type reference
             (DEG_id_tag_update GreasePencilID [ID_RECALC_GEOMETRY] C)
      else C)"

text \<open>
  Modelled from the spec: the attribute writers and the accessors of
  \<^verbatim>\<open>bke::greasepencil::Drawing\<close> are declared in \<^verbatim>\<open>BKE_attribute.hh\<close> and
  \<^verbatim>\<open>BKE_grease_pencil.hh\<close>, which are not among the sources.
  \<^verbatim>\<open>lookup_for_write_span(name)\<close> gives the stored values of an attribute to write
  to, and \<^verbatim>\<open>finish()\<close> stores them; an attribute that is not stored gives no span
  and nothing is written. \<^verbatim>\<open>lookup_or_add_for_write_span<T>(name, domain)\<close> adds the
  attribute first, with the default value of the type for every element of the domain,
  when it is not stored. \<^verbatim>\<open>Drawing::radii()\<close> and \<^verbatim>\<open>Drawing::opacities()\<close> read
  the point attributes "radius" and "opacity", \<^verbatim>\<open>radii_for_write()\<close> and
  \<^verbatim>\<open>opacities_for_write()\<close> add them when they are not stored, and
  \<^verbatim>\<open>positions_for_write()\<close> gives the point attribute "position".
\<close>

definition has_attribute :: "'f CurvesGeometry \<Rightarrow> string \<Rightarrow> bool" where
  "has_attribute g name = (map_of (attributes g) name \<noteq> None)"

definition update_attribute_data ::
  "string \<Rightarrow> ('f attr_value list \<Rightarrow> 'f attr_value list) \<Rightarrow> 'f CurvesGeometry \<Rightarrow> 'f CurvesGeometry" where
  "update_attribute_data name f g =
     (case map_of (attributes g) name of
        None \<Rightarrow> g
      | Some a \<Rightarrow> g\<lparr>attributes := AList.update name (a\<lparr>attr_data := f (attr_data a)\<rparr>) (attributes g)\<rparr>)"

definition lookup_or_add ::
  "string \<Rightarrow> AttrDomain \<Rightarrow> eCustomDataType \<Rightarrow> 'f attr_value \<Rightarrow> 'f CurvesGeometry \<Rightarrow> 'f CurvesGeometry" where
  "lookup_or_add name domain type default_value g =
     (case map_of (attributes g) name of
        None \<Rightarrow>
          g\<lparr>attributes := AList.update name
               \<lparr>attr_domain = domain, attr_type = type,
                attr_data = replicate (domain_size g domain) default_value\<rparr> (attributes g)\<rparr>
      | Some a \<Rightarrow> g)"

definition lookup_or_default_float ::
  "'f CurvesGeometry \<Rightarrow> string \<Rightarrow> AttrDomain \<Rightarrow> 'f attr_value \<Rightarrow> 'f attr_value VArray" where
  "lookup_or_default_float g name domain default_value =
     (case map_of (attributes g) name of
        None \<Rightarrow> VSingle default_value (domain_size g domain)
      | Some a \<Rightarrow>
          if attr_domain a = domain \<and> attr_type a = CD_PROP_FLOAT
          then VSpan (attr_data a)
          else VSingle default_value (domain_size g domain))"

definition lookup_or_default_int ::
  "'f CurvesGeometry \<Rightarrow> string \<Rightarrow> AttrDomain \<Rightarrow> int \<Rightarrow> 'f attr_value VArray" where
  "lookup_or_default_int g name domain default_value =
     (case map_of (attributes g) name of
        None \<Rightarrow> VSingle (IntV default_value) (domain_size g domain)
      | Some a \<Rightarrow>
          if attr_domain a = domain \<and> attr_type a = CD_PROP_INT32
          then VSpan (attr_data a)
          else VSingle (IntV default_value) (domain_size g domain))"

text \<open>\<^verbatim>\<open>index_mask::masked_fill(span, value, mask)\<close>.\<close>

definition masked_fill :: "'a list \<Rightarrow> 'a \<Rightarrow> IndexMask \<Rightarrow> 'a list" where
  "masked_fill xs v m = map (\<lambda>i. if i \<in> set m then v else xs ! i) [0 ..< length xs]"

text \<open>\<^verbatim>\<open>bke::curves::fill_points(points_by_curve, curve_selection, value, dst)\<close>: the
  value for every point of the selected curves.\<close>

definition fill_points :: "nat list \<Rightarrow> IndexMask \<Rightarrow> 'a \<Rightarrow> 'a list \<Rightarrow> 'a list" where
  "fill_points offsets curve_selection v dst =
     map (\<lambda>p. if \<exists>c \<in> set curve_selection. offsets ! c \<le> p \<and> p < offsets ! (c + 1)
               then v else dst ! p) [0 ..< length dst]"

text \<open>
  The curve-geometry library, the selection queries of the editor and the floating
  point arithmetic are not in the editing file. They are the fields of \<open>lib\<close>, each
  named after the function it stands for. A query reads the context (scene, object and
  grease pencil) and the info of the drawing it is about. \<open>default_radius\<close> and
  \<open>default_opacity\<close> are the values \<^verbatim>\<open>Drawing::radii()\<close> and
  \<^verbatim>\<open>Drawing::opacities()\<close> give when the attribute is not stored;
  \<open>uninit_index\<close>, \<open>uninit_int\<close> and \<open>uninit_value\<close> are what uninitialised
  arrays hold.
\<close>

record ('f, 'w) gp_library =
  retrieve_editable_drawings :: "('f, 'w) bContext \<Rightarrow> MutableDrawingInfo list"
  retrieve_editable_and_selected_strokes :: "('f, 'w) bContext \<Rightarrow> MutableDrawingInfo \<Rightarrow> IndexMask"
  retrieve_editable_and_selected_points :: "('f, 'w) bContext \<Rightarrow> MutableDrawingInfo \<Rightarrow> IndexMask"
  retrieve_editable_and_selected_elements ::
    "('f, 'w) bContext \<Rightarrow> MutableDrawingInfo \<Rightarrow> AttrDomain \<Rightarrow> IndexMask"
  retrieve_editable_points :: "('f, 'w) bContext \<Rightarrow> MutableDrawingInfo \<Rightarrow> IndexMask"
  retrieve_editable_strokes :: "('f, 'w) bContext \<Rightarrow> MutableDrawingInfo \<Rightarrow> IndexMask"
  retrieve_editable_strokes_by_material ::
    "('f, 'w) bContext \<Rightarrow> MutableDrawingInfo \<Rightarrow> int \<Rightarrow> IndexMask"
  retrieve_selected_curves :: "'f CurvesGeometry \<Rightarrow> IndexMask"
  retrieve_selected_points :: "'f CurvesGeometry \<Rightarrow> IndexMask"
  has_anything_selected :: "'f CurvesGeometry \<Rightarrow> bool"
  smooth_curve_attribute ::
    "IndexMask \<Rightarrow> nat list \<Rightarrow> bool VArray \<Rightarrow> bool VArray \<Rightarrow> int \<Rightarrow> 'f \<Rightarrow> bool \<Rightarrow> bool
       \<Rightarrow> 'f attr_value list \<Rightarrow> 'f attr_value list"
  ramer_douglas_peucker_simplify ::
    "IndexRange \<Rightarrow> 'f \<Rightarrow> (nat \<Rightarrow> nat \<Rightarrow> nat \<Rightarrow> 'f) \<Rightarrow> bool list \<Rightarrow> nat \<times> bool list"
  dist_to_line_v3 :: "'f attr_value \<Rightarrow> 'f attr_value \<Rightarrow> 'f attr_value \<Rightarrow> 'f"
  distance_squared :: "'f attr_value \<Rightarrow> 'f attr_value \<Rightarrow> 'f"
  float_distance :: "'f attr_value \<Rightarrow> 'f attr_value \<Rightarrow> 'f"
  interpf :: "'f attr_value \<Rightarrow> 'f attr_value \<Rightarrow> 'f \<Rightarrow> 'f attr_value"
  float_zero :: 'f
  float_half :: 'f
  float_add :: "'f \<Rightarrow> 'f \<Rightarrow> 'f"
  float_mul :: "'f \<Rightarrow> 'f \<Rightarrow> 'f"
  float_div :: "'f \<Rightarrow> 'f \<Rightarrow> 'f"
  float_max :: "'f \<Rightarrow> 'f \<Rightarrow> 'f"
  float_less :: "'f \<Rightarrow> 'f \<Rightarrow> bool"
  float_less_eq :: "'f \<Rightarrow> 'f \<Rightarrow> bool"
  remove_points :: "'f CurvesGeometry \<Rightarrow> IndexMask \<Rightarrow> 'f CurvesGeometry"
  remove_curves :: "'f CurvesGeometry \<Rightarrow> IndexMask \<Rightarrow> 'f CurvesGeometry"
  reverse_curves :: "'f CurvesGeometry \<Rightarrow> IndexMask \<Rightarrow> 'f CurvesGeometry"
  subdivide_curves :: "'f CurvesGeometry \<Rightarrow> IndexMask \<Rightarrow> int VArray \<Rightarrow> 'f CurvesGeometry"
  reorder_curves_geometry :: "'f CurvesGeometry \<Rightarrow> int list \<Rightarrow> 'f CurvesGeometry"
  curves_merge_by_distance :: "'f CurvesGeometry \<Rightarrow> 'f \<Rightarrow> IndexMask \<Rightarrow> 'f CurvesGeometry"
  duplicate_curves :: "'f CurvesGeometry \<Rightarrow> IndexMask \<Rightarrow> 'f CurvesGeometry"
  duplicate_points :: "'f CurvesGeometry \<Rightarrow> IndexMask \<Rightarrow> 'f CurvesGeometry"
  convert_curves :: "'f CurvesGeometry \<Rightarrow> IndexMask \<Rightarrow> int \<Rightarrow> bool \<Rightarrow> 'f CurvesGeometry"
  curves_copy_curve_selection :: "'f CurvesGeometry \<Rightarrow> IndexMask \<Rightarrow> 'f CurvesGeometry"
  curves_copy_point_selection :: "'f CurvesGeometry \<Rightarrow> IndexMask \<Rightarrow> 'f CurvesGeometry"
  join_geometries :: "'f CurvesGeometry list \<Rightarrow> 'f CurvesGeometry"
  default_radius :: 'f
  default_opacity :: 'f
  uninit_index :: "nat \<Rightarrow> nat"
  uninit_int :: "nat \<Rightarrow> int"
  uninit_value :: "'f attr_value"
  unneeded_attributes :: "'f CurvesGeometry \<Rightarrow> string list"

text \<open>\<^verbatim>\<open>VArray::operator[]\<close> for an index the caller knows to be inside the array,
  \<^verbatim>\<open>Span::contains\<close>, \<^verbatim>\<open>IndexMask::from_bools\<close> and \<^verbatim>\<open>curves.positions()\<close>.\<close>

fun varray_at :: "'a VArray \<Rightarrow> nat \<Rightarrow> 'a" where
  "varray_at (VSingle v n) i = v"
| "varray_at (VSpan xs) i = xs ! i"

definition contains :: "'a list \<Rightarrow> 'a \<Rightarrow> bool" where
  "contains xs v = (v \<in> set xs)"

definition from_bools :: "bool list \<Rightarrow> IndexMask" where
  "from_bools bs = filter (\<lambda>i. bs ! i) [0 ..< length bs]"

definition positions :: "'f CurvesGeometry \<Rightarrow> 'f attr_value list" where
  "positions g = (case map_of (attributes g) ''position'' of None \<Rightarrow> [] | Some a \<Rightarrow> attr_data a)"

definition radii :: "'f Drawing \<Rightarrow> 'f attr_value \<Rightarrow> 'f attr_value VArray" where
  "radii d default_value = lookup_or_default_float (strokes d) ''radius'' Point default_value"

definition opacities :: "'f Drawing \<Rightarrow> 'f attr_value \<Rightarrow> 'f attr_value VArray" where
  "opacities d default_value = lookup_or_default_float (strokes d) ''opacity'' Point default_value"

subsection \<open>Smooth\<close>

text \<open>The body that \<^verbatim>\<open>grease_pencil_stroke_smooth_exec\<close> runs for each editable
  drawing; the state is the flag \<open>changed\<close> and the context.\<close>

definition smooth_drawing ::
  "('f, 'w) gp_library \<Rightarrow> int \<Rightarrow> 'f \<Rightarrow> bool \<Rightarrow> bool \<Rightarrow> bool \<Rightarrow> bool \<Rightarrow> bool
     \<Rightarrow> MutableDrawingInfo \<Rightarrow> bool \<times> ('f, 'w) bContext \<Rightarrow> bool \<times> ('f, 'w) bContext" where
  "smooth_drawing lib iterations influence keep_shape smooth_ends
       smooth_position smooth_radius smooth_opacity info st =
     (case st of (changed, C) \<Rightarrow>
        let curves = strokes (drawing_of C info) in
        if point_num curves = 0 then st
        else
          let stroke_mask = retrieve_editable_and_selected_strokes lib C info in
          if stroke_mask = [] then st
          else
            let points_by_curve_offsets = curve_offsets curves;
                cyclic_flags = cyclic curves;
                point_selection = lookup_or_default_bool curves ''.selection'' Point True;
                st1 = (if smooth_position
                       then (True, write_strokes info (AttributeWritten ''position'' None)
                               (update_attribute_data ''position''
                                  (smooth_curve_attribute lib stroke_mask points_by_curve_offsets
                                     point_selection cyclic_flags iterations influence
                                     smooth_ends keep_shape)) C)
                       else st);
                st2 = (if smooth_opacity
                          \<and> is_span (opacities (drawing_of (snd st1) info) (FloatV (default_opacity lib)))
                       then (True, write_strokes info (AttributeWritten ''opacity'' None)
                               (update_attribute_data ''opacity''
                                  (smooth_curve_attribute lib stroke_mask points_by_curve_offsets
                                     point_selection cyclic_flags iterations influence
                                     smooth_ends False)) (snd st1))
                       else st1);
                st3 = (if smooth_radius
                          \<and> is_span (radii (drawing_of (snd st2) info) (FloatV (default_radius lib)))
                       then (True, write_strokes info (AttributeWritten ''radius'' None)
                               (update_attribute_data ''radius''
                                  (smooth_curve_attribute lib stroke_mask points_by_curve_offsets
                                     point_selection cyclic_flags iterations influence
                                     smooth_ends False)) (snd st2))
                       else st2)
            in st3)"

definition grease_pencil_stroke_smooth_exec ::
  "('f, 'w) gp_library \<Rightarrow> ('f, 'w) bContext \<Rightarrow> 'f wmOperator
     \<Rightarrow> wmOperatorStatus \<times> ('f, 'w) bContext" where
  "grease_pencil_stroke_smooth_exec lib C op =
     (let iterations = RNA_int_get op ''iterations'';
          influence = RNA_float_get op ''factor'';
          keep_shape = RNA_boolean_get op ''keep_shape'';
          smooth_ends = RNA_boolean_get op ''smooth_ends'';
          smooth_position = RNA_boolean_get op ''smooth_position'';
          smooth_radius = RNA_boolean_get op ''smooth_radius'';
          smooth_opacity = RNA_boolean_get op ''smooth_opacity''
      in if \<not> (smooth_position \<or> smooth_radius \<or> smooth_opacity)
         then (OPERATOR_FINISHED, C)
         else
           (case fold (smooth_drawing lib iterations influence keep_shape smooth_ends
                         smooth_position smooth_radius smooth_opacity)
                   (retrieve_editable_drawings lib C) (False, C) of
              (changed, C') \<Rightarrow>
                (OPERATOR_FINISHED, notify_if_changed changed [NC_GEOM, ND_DATA] GreasePencilID C')))"

subsection \<open>Simplify\<close>

definition dist_to_interpolated ::
  "('f, 'w) gp_library \<Rightarrow> 'f attr_value \<Rightarrow> 'f attr_value \<Rightarrow> 'f attr_value
     \<Rightarrow> 'f attr_value \<Rightarrow> 'f attr_value \<Rightarrow> 'f attr_value \<Rightarrow> 'f" where
  "dist_to_interpolated lib pos posA posB val valA valB =
     (let dist1 = distance_squared lib posA pos;
          dist2 = distance_squared lib posB pos
      in if float_less lib (float_zero lib) (float_add lib dist1 dist2)
         then (let interpolated_val =
                     interpf lib valB valA (float_div lib dist1 (float_add lib dist1 dist2))
               in float_distance lib interpolated_val val)
         else float_zero lib)"

text \<open>The loop of \<^verbatim>\<open>stroke_simplify\<close> over the selected ranges; the count and the
  array of points to delete are the state.\<close>

fun simplify_ranges ::
  "('f, 'w) gp_library \<Rightarrow> IndexRange \<Rightarrow> 'f \<Rightarrow> (nat \<Rightarrow> nat \<Rightarrow> nat \<Rightarrow> 'f) \<Rightarrow> IndexRange list
     \<Rightarrow> nat \<times> bool list \<Rightarrow> nat \<times> bool list" where
  "simplify_ranges lib points epsilon dist_function [] st = st"
| "simplify_ranges lib points epsilon dist_function (r # rest) st =
     (case st of (total_points_to_delete, points_to_delete) \<Rightarrow>
        (case ramer_douglas_peucker_simplify lib (range_shift r (range_start points)) epsilon
                dist_function points_to_delete of
           (n, points_to_delete') \<Rightarrow>
             simplify_ranges lib points epsilon dist_function rest
               (total_points_to_delete + n, points_to_delete')))"

definition stroke_simplify ::
  "('f, 'w) gp_library \<Rightarrow> IndexRange \<Rightarrow> bool \<Rightarrow> 'f \<Rightarrow> (nat \<Rightarrow> nat \<Rightarrow> nat \<Rightarrow> 'f) \<Rightarrow> bool list
     \<Rightarrow> nat \<times> bool list" where
  "stroke_simplify lib points is_cyclic epsilon dist_function points_to_delete =
     (let curve_selection = slice_span points_to_delete points
      in if \<not> contains curve_selection True then (0, points_to_delete)
         else
           (let is_last_segment_selected = (hd curve_selection \<and> last curve_selection);
                selection_ranges = find_all_ranges curve_selection True
            in case simplify_ranges lib points epsilon dist_function selection_ranges
                      (0, points_to_delete) of
                 (total_points_to_delete, points_to_delete') \<Rightarrow>
                   if is_cyclic \<and> range_size points > 2 \<and> is_last_segment_selected
                   then (let dist = dist_function (nat (range_last points 1))
                                      (nat (range_first points)) (nat (range_last points 0))
                         in if float_less_eq lib dist epsilon
                            then (total_points_to_delete + 1,
                                  points_to_delete'[nat (range_last points 0) := True])
                            else (total_points_to_delete, points_to_delete'))
                   else (total_points_to_delete, points_to_delete')))"

text \<open>\<^verbatim>\<open>strokes.foreach_index\<close> of \<^verbatim>\<open>grease_pencil_stroke_simplify_exec\<close>.\<close>

fun simplify_strokes ::
  "('f, 'w) gp_library \<Rightarrow> 'f CurvesGeometry \<Rightarrow> 'f \<Rightarrow> (nat \<Rightarrow> nat \<Rightarrow> nat \<Rightarrow> 'f) \<Rightarrow> nat list
     \<Rightarrow> nat \<times> bool list \<Rightarrow> nat \<times> bool list" where
  "simplify_strokes lib curves epsilon dist_function [] st = st"
| "simplify_strokes lib curves epsilon dist_function (curve_i # rest) st =
     (case st of (total_points_to_delete, points_to_delete) \<Rightarrow>
        (case stroke_simplify lib (points_by_curve curves curve_i)
                (varray_at (cyclic curves) curve_i) epsilon dist_function points_to_delete of
           (n, points_to_delete') \<Rightarrow>
             simplify_strokes lib curves epsilon dist_function rest
               (total_points_to_delete + n, points_to_delete')))"

definition simplify_drawing ::
  "('f, 'w) gp_library \<Rightarrow> 'f \<Rightarrow> MutableDrawingInfo \<Rightarrow> bool \<times> ('f, 'w) bContext
     \<Rightarrow> bool \<times> ('f, 'w) bContext" where
  "simplify_drawing lib epsilon info st =
     (case st of (changed, C) \<Rightarrow>
        let curves = strokes (drawing_of C info) in
        if point_num curves = 0 then st
        else
          let stroke_mask = retrieve_editable_and_selected_strokes lib C info in
          if stroke_mask = [] then st
          else
            let pos = positions curves;
                rad = radii (drawing_of C info) (FloatV (default_radius lib));
                dist_function_positions =
                  (\<lambda>first_index last_index index.
                     dist_to_line_v3 lib (pos ! index) (pos ! first_index) (pos ! last_index));
                dist_function_positions_and_radii =
                  (\<lambda>first_index last_index index.
                     float_max lib
                       (dist_to_line_v3 lib (pos ! index) (pos ! first_index) (pos ! last_index))
                       (dist_to_interpolated lib (pos ! index) (pos ! first_index)
                          (pos ! last_index) (varray_at rad index) (varray_at rad first_index)
                          (varray_at rad last_index)));
                points_to_delete = fill_points (curve_offsets curves) stroke_mask True
                                     (replicate (point_num curves) False);
                result = (if is_single rad
                          then simplify_strokes lib curves epsilon dist_function_positions
                                 stroke_mask (0, points_to_delete)
                          else if is_span rad
                          then simplify_strokes lib curves epsilon
                                 dist_function_positions_and_radii stroke_mask (0, points_to_delete)
                          else (0, points_to_delete))
            in if fst result > 0
               then (True, tag_topology_changed info
                             (write_strokes info (StrokesChanged ''remove_points'')
                                (\<lambda>g. remove_points lib g (from_bools (snd result))) C))
               else st)"

definition grease_pencil_stroke_simplify_exec ::
  "('f, 'w) gp_library \<Rightarrow> ('f, 'w) bContext \<Rightarrow> 'f wmOperator
     \<Rightarrow> wmOperatorStatus \<times> ('f, 'w) bContext" where
  "grease_pencil_stroke_simplify_exec lib C op =
     (let epsilon = RNA_float_get op ''factor''
      in case fold (simplify_drawing lib epsilon) (retrieve_editable_drawings lib C) (False, C) of
           (changed, C') \<Rightarrow>
             (OPERATOR_FINISHED, notify_if_changed changed [NC_GEOM, ND_DATA] GreasePencilID C'))"

text \<open>An operator whose loop reaches undefined behaviour in one drawing (an array
  written outside its bounds) has no result.\<close>

fun fold_option :: "('a \<Rightarrow> 's \<Rightarrow> 's option) \<Rightarrow> 'a list \<Rightarrow> 's \<Rightarrow> 's option" where
  "fold_option f [] s = Some s"
| "fold_option f (x # xs) s = (case f x s of None \<Rightarrow> None | Some s' \<Rightarrow> fold_option f xs s')"

text \<open>The enumerations of the operators are cast from the \<^verbatim>\<open>int\<close> that
  \<^verbatim>\<open>RNA_enum_get\<close> returns to \<^verbatim>\<open>int8_t\<close>.\<close>

definition int8_cast :: "int \<Rightarrow> int" where
  "int8_cast i = (i + 128) mod 256 - 128"

text \<open>
  Modelled from the spec: \<^verbatim>\<open>lookup_or_add_for_write_span<T>(name, domain)\<close> followed
  by writes to the span and \<^verbatim>\<open>finish()\<close>. The attribute is added when it is not
  stored; a stored attribute of another domain or type gives no writer and nothing is
  written.
\<close>

definition lookup_or_add_for_write_span ::
  "string \<Rightarrow> AttrDomain \<Rightarrow> eCustomDataType \<Rightarrow> 'f attr_value
     \<Rightarrow> ('f attr_value list \<Rightarrow> 'f attr_value list) \<Rightarrow> 'f CurvesGeometry \<Rightarrow> 'f CurvesGeometry" where
  "lookup_or_add_for_write_span name domain type default_value f g =
     (let g' = lookup_or_add name domain type default_value g
      in case map_of (attributes g') name of
           None \<Rightarrow> g'
         | Some a \<Rightarrow>
             if attr_domain a = domain \<and> attr_type a = type
             then update_attribute_data name f g'
             else g')"

subsection \<open>Delete\<close>

definition delete_drawing ::
  "('f, 'w) gp_library \<Rightarrow> MutableDrawingInfo \<Rightarrow> bool \<times> ('f, 'w) bContext
     \<Rightarrow> (bool \<times> ('f, 'w) bContext) option" where
  "delete_drawing lib info st =
     (case st of (changed, C) \<Rightarrow>
        let elements = retrieve_editable_and_selected_elements lib C info (selection_domain C) in
        if elements = [] then Some st
        else if selection_domain C = Curve
        then Some (True, tag_topology_changed info
                     (write_strokes info (StrokesChanged ''remove_curves'')
                        (\<lambda>g. remove_curves lib g elements) C))
        else if selection_domain C = Point
        then (case remove_points_and_split (uninit_index lib) (uninit_value lib)
                     (unneeded_attributes lib) (strokes (drawing_of C info)) elements of
                None \<Rightarrow> None
              | Some dst \<Rightarrow>
                  Some (True, tag_topology_changed info
                          (write_strokes info (StrokesChanged ''remove_points_and_split'')
                             (\<lambda>g. dst) C)))
        else Some (True, tag_topology_changed info C))"

definition grease_pencil_delete_exec ::
  "('f, 'w) gp_library \<Rightarrow> ('f, 'w) bContext \<Rightarrow> 'f wmOperator
     \<Rightarrow> (wmOperatorStatus \<times> ('f, 'w) bContext) option" where
  "grease_pencil_delete_exec lib C op =
     (case fold_option (delete_drawing lib) (retrieve_editable_drawings lib C) (False, C) of
        None \<Rightarrow> None
      | Some (changed, C') \<Rightarrow>
          Some (OPERATOR_FINISHED, notify_if_changed changed [NC_GEOM, ND_DATA] GreasePencilID C'))"

subsection \<open>Dissolve\<close>

definition DissolveMode_POINTS :: int where "DissolveMode_POINTS = 0"
definition DissolveMode_BETWEEN :: int where "DissolveMode_BETWEEN = 1"
definition DissolveMode_UNSELECT :: int where "DissolveMode_UNSELECT = 2"

text \<open>\<^verbatim>\<open>VArray::materialize(mask, dst)\<close>, \<^verbatim>\<open>MutableSpan::slice(range).fill(value)\<close>
  and the two forms of \<^verbatim>\<open>array_utils::invert_booleans\<close>.\<close>

definition materialize :: "'a VArray \<Rightarrow> IndexMask \<Rightarrow> 'a list \<Rightarrow> 'a list" where
  "materialize v m dst = map (\<lambda>i. if i \<in> set m then varray_at v i else dst ! i) [0 ..< length dst]"

definition fill_range :: "'a list \<Rightarrow> IndexRange \<Rightarrow> 'a \<Rightarrow> 'a list" where
  "fill_range xs r v =
     map (\<lambda>i. if range_start r \<le> i \<and> i < range_start r + range_size r then v else xs ! i)
       [0 ..< length xs]"

definition invert_booleans :: "bool list \<Rightarrow> bool list" where
  "invert_booleans xs = map Not xs"

definition invert_booleans_masked :: "bool list \<Rightarrow> IndexMask \<Rightarrow> bool list" where
  "invert_booleans_masked xs m = map (\<lambda>i. if i \<in> set m then \<not> xs ! i else xs ! i) [0 ..< length xs]"

text \<open>The body of the loop over the curves in \<^verbatim>\<open>get_points_to_dissolve\<close>; the
  array is both \<^verbatim>\<open>points_to_dissolve\<close> and \<^verbatim>\<open>points_to_keep\<close>.\<close>

definition dissolve_curve :: "'f CurvesGeometry \<Rightarrow> int \<Rightarrow> nat \<Rightarrow> bool list \<Rightarrow> bool list" where
  "dissolve_curve curves mode curve_i points_to_keep =
     (let points = points_by_curve curves curve_i;
          curve_selection = slice_span points_to_keep points
      in if \<not> contains curve_selection True then fill_range points_to_keep points True
         else if mode \<noteq> DissolveMode_BETWEEN then points_to_keep
         else
           (let deselection_ranges = find_all_ranges curve_selection False
            in if length deselection_ranges \<noteq> 0
               then (let first_range = range_shift (hd deselection_ranges) (range_start points);
                         last_range = range_shift (last deselection_ranges) (range_start points);
                         keep1 = (if range_first first_range = range_first points
                                  then fill_range points_to_keep first_range True
                                  else points_to_keep)
                     in if range_last last_range 0 = range_last points 0
                        then fill_range keep1 last_range True
                        else keep1)
               else points_to_keep))"

definition get_points_to_dissolve :: "'f CurvesGeometry \<Rightarrow> IndexMask \<Rightarrow> int \<Rightarrow> bool list" where
  "get_points_to_dissolve curves point_mask mode =
     (let selection = lookup_or_default_bool curves ''.selection'' Point True;
          points_to_dissolve = materialize selection point_mask (replicate (point_num curves) False)
      in if mode = DissolveMode_POINTS then points_to_dissolve
         else invert_booleans
                (fold (dissolve_curve curves mode) (curves_range curves) points_to_dissolve))"

definition dissolve_drawing ::
  "('f, 'w) gp_library \<Rightarrow> int \<Rightarrow> MutableDrawingInfo \<Rightarrow> bool \<times> ('f, 'w) bContext
     \<Rightarrow> bool \<times> ('f, 'w) bContext" where
  "dissolve_drawing lib mode info st =
     (case st of (changed, C) \<Rightarrow>
        let curves = strokes (drawing_of C info) in
        if point_num curves = 0 then st
        else
          let points = retrieve_editable_and_selected_points lib C info in
          if points = [] then st
          else
            let points_to_dissolve = get_points_to_dissolve curves points mode in
            if contains points_to_dissolve True
            then (True, tag_topology_changed info
                          (write_strokes info (StrokesChanged ''remove_points'')
                             (\<lambda>g. remove_points lib g (from_bools points_to_dissolve)) C))
            else st)"

definition grease_pencil_dissolve_exec ::
  "('f, 'w) gp_library \<Rightarrow> ('f, 'w) bContext \<Rightarrow> 'f wmOperator
     \<Rightarrow> wmOperatorStatus \<times> ('f, 'w) bContext" where
  "grease_pencil_dissolve_exec lib C op =
     (let mode = int8_cast (RNA_enum_get op ''type'')
      in case fold (dissolve_drawing lib mode) (retrieve_editable_drawings lib C) (False, C) of
           (changed, C') \<Rightarrow>
             (OPERATOR_FINISHED, notify_if_changed changed [NC_GEOM, ND_DATA] GreasePencilID C'))"

subsection \<open>Cyclical set\<close>

definition CyclicalMode_CLOSE :: int where "CyclicalMode_CLOSE = 0"
definition CyclicalMode_OPEN :: int where "CyclicalMode_OPEN = 1"
definition CyclicalMode_TOGGLE :: int where "CyclicalMode_TOGGLE = 2"

text \<open>\<^verbatim>\<open>booleans_mix_calc(varray) == BooleanMix::AllFalse\<close> and
  \<^verbatim>\<open>attributes_for_write().remove(name)\<close>.\<close>

fun booleans_all_false :: "bool VArray \<Rightarrow> bool" where
  "booleans_all_false (VSingle b n) = (0 < n \<and> \<not> b)"
| "booleans_all_false (VSpan xs) = (xs \<noteq> [] \<and> list_all Not xs)"

definition remove_attribute :: "string \<Rightarrow> 'f CurvesGeometry \<Rightarrow> 'f CurvesGeometry" where
  "remove_attribute name g = g\<lparr>attributes := AList.delete name (attributes g)\<rparr>"

definition cyclical_set_strokes :: "int \<Rightarrow> IndexMask \<Rightarrow> 'f CurvesGeometry \<Rightarrow> 'f CurvesGeometry" where
  "cyclical_set_strokes mode stroke_mask curves =
     (let flags = cyclic_for_write curves;
          flags' = (if mode = CyclicalMode_CLOSE then masked_fill flags True stroke_mask
                    else if mode = CyclicalMode_OPEN then masked_fill flags False stroke_mask
                    else if mode = CyclicalMode_TOGGLE then invert_booleans_masked flags stroke_mask
                    else flags);
          curves' = set_cyclic curves flags'
      in if mode \<noteq> CyclicalMode_CLOSE \<and> booleans_all_false (cyclic curves')
         then remove_attribute ''cyclic'' curves'
         else curves')"

definition cyclical_set_drawing ::
  "('f, 'w) gp_library \<Rightarrow> int \<Rightarrow> MutableDrawingInfo \<Rightarrow> bool \<times> ('f, 'w) bContext
     \<Rightarrow> bool \<times> ('f, 'w) bContext" where
  "cyclical_set_drawing lib mode info st =
     (case st of (changed, C) \<Rightarrow>
        let curves = strokes (drawing_of C info) in
        if mode = CyclicalMode_OPEN \<and> \<not> has_attribute curves ''cyclic'' then st
        else
          let stroke_mask = retrieve_editable_and_selected_strokes lib C info in
          if stroke_mask = [] then st
          else (True, write_strokes info (AttributeWritten ''cyclic'' None)
                        (cyclical_set_strokes mode stroke_mask) C))"

definition grease_pencil_cyclical_set_exec ::
  "('f, 'w) gp_library \<Rightarrow> ('f, 'w) bContext \<Rightarrow> 'f wmOperator
     \<Rightarrow> wmOperatorStatus \<times> ('f, 'w) bContext" where
  "grease_pencil_cyclical_set_exec lib C op =
     (let mode = int8_cast (RNA_enum_get op ''type'')
      in case fold (cyclical_set_drawing lib mode) (retrieve_editable_drawings lib C) (False, C) of
           (changed, C') \<Rightarrow>
             (OPERATOR_FINISHED, notify_if_changed changed [NC_GEOM, ND_DATA] GreasePencilID C'))"

subsection \<open>Uniform thickness and opacity, switch direction\<close>

definition uniform_thickness_drawing ::
  "('f, 'w) gp_library \<Rightarrow> 'f \<Rightarrow> MutableDrawingInfo \<Rightarrow> bool \<times> ('f, 'w) bContext
     \<Rightarrow> bool \<times> ('f, 'w) bContext" where
  "uniform_thickness_drawing lib radius info st =
     (case st of (changed, C) \<Rightarrow>
        let stroke_mask = retrieve_editable_and_selected_strokes lib C info in
        if stroke_mask = [] then st
        else
          let points_by_curve_offsets = curve_offsets (strokes (drawing_of C info))
          in (True, write_strokes info (AttributeWritten ''radius'' None)
                      (lookup_or_add_for_write_span ''radius'' Point CD_PROP_FLOAT
                         (FloatV (default_radius lib))
                         (fill_points points_by_curve_offsets stroke_mask (FloatV radius))) C))"

definition grease_pencil_set_uniform_thickness_exec ::
  "('f, 'w) gp_library \<Rightarrow> ('f, 'w) bContext \<Rightarrow> 'f wmOperator
     \<Rightarrow> wmOperatorStatus \<times> ('f, 'w) bContext" where
  "grease_pencil_set_uniform_thickness_exec lib C op =
     (let radius = float_mul lib (RNA_float_get op ''thickness'') (float_half lib)
      in case fold (uniform_thickness_drawing lib radius) (retrieve_editable_drawings lib C)
                (False, C) of
           (changed, C') \<Rightarrow>
             (OPERATOR_FINISHED, notify_if_changed changed [NC_GEOM, ND_DATA] GreasePencilID C'))"

definition uniform_opacity_drawing ::
  "('f, 'w) gp_library \<Rightarrow> 'f \<Rightarrow> MutableDrawingInfo \<Rightarrow> bool \<times> ('f, 'w) bContext
     \<Rightarrow> bool \<times> ('f, 'w) bContext" where
  "uniform_opacity_drawing lib opacity info st =
     (case st of (changed, C) \<Rightarrow>
        let stroke_mask = retrieve_editable_and_selected_strokes lib C info in
        if stroke_mask = [] then st
        else
          let points_by_curve_offsets = curve_offsets (strokes (drawing_of C info))
          in (True, write_strokes info (AttributeWritten ''opacity'' None)
                      (lookup_or_add_for_write_span ''opacity'' Point CD_PROP_FLOAT
                         (FloatV (default_opacity lib))
                         (fill_points points_by_curve_offsets stroke_mask (FloatV opacity))) C))"

definition grease_pencil_set_uniform_opacity_exec ::
  "('f, 'w) gp_library \<Rightarrow> ('f, 'w) bContext \<Rightarrow> 'f wmOperator
     \<Rightarrow> wmOperatorStatus \<times> ('f, 'w) bContext" where
  "grease_pencil_set_uniform_opacity_exec lib C op =
     (let opacity = RNA_float_get op ''opacity''
      in case fold (uniform_opacity_drawing lib opacity) (retrieve_editable_drawings lib C)
                (False, C) of
           (changed, C') \<Rightarrow>
             (OPERATOR_FINISHED, notify_if_changed changed [NC_GEOM, ND_DATA] GreasePencilID C'))"

definition switch_direction_drawing ::
  "('f, 'w) gp_library \<Rightarrow> MutableDrawingInfo \<Rightarrow> bool \<times> ('f, 'w) bContext
     \<Rightarrow> bool \<times> ('f, 'w) bContext" where
  "switch_direction_drawing lib info st =
     (case st of (changed, C) \<Rightarrow>
        let stroke_mask = retrieve_editable_and_selected_strokes lib C info in
        if stroke_mask = [] then st
        else (True, write_strokes info (StrokesChanged ''reverse_curves'')
                      (\<lambda>g. reverse_curves lib g stroke_mask) C))"

definition grease_pencil_stroke_switch_direction_exec ::
  "('f, 'w) gp_library \<Rightarrow> ('f, 'w) bContext \<Rightarrow> 'f wmOperator
     \<Rightarrow> wmOperatorStatus \<times> ('f, 'w) bContext" where
  "grease_pencil_stroke_switch_direction_exec lib C op =
     (case fold (switch_direction_drawing lib) (retrieve_editable_drawings lib C) (False, C) of
        (changed, C') \<Rightarrow>
          (OPERATOR_FINISHED, notify_if_changed changed [NC_GEOM, ND_DATA] GreasePencilID C'))"

text \<open>
  The data-base outside the drawings of the active object: the layer tree and the frames
  of the grease pencil, the objects and materials of \<^verbatim>\<open>Main\<close>, the view and the 3D
  cursor. Its functions are declared in \<^verbatim>\<open>BKE_grease_pencil.hh\<close>,
  \<^verbatim>\<open>BKE_material.hh\<close>, \<^verbatim>\<open>BKE_lib_id.hh\<close> and \<^verbatim>\<open>ED_view3d.hh\<close>; they are the
  fields of \<open>db\<close> and act on the \<open>world\<close> of the context. A layer is referred to by
  its index, a material by a number, a duplicated object and its grease pencil by the
  number \<^verbatim>\<open>add_duplicate\<close> returns. A function that changes the material slots of an
  object takes the slots and returns them. The clipboard of the copy and paste
  operators is a global of the editing file: its curves, the session uid and index of
  each material, and the number of materials of the source. The constants of the cap
  types come from \<^verbatim>\<open>DNA_grease_pencil_types.h\<close> and \<^verbatim>\<open>DNA_gpencil_legacy_types.h\<close>;
  \<open>V3D_AROUND_OTHER\<close> is a pivot point that is none of the five enumerators.
\<close>

datatype V3D_AROUND =
    V3D_AROUND_CENTER_BOUNDS | V3D_AROUND_CENTER_MEDIAN | V3D_AROUND_CURSOR
  | V3D_AROUND_LOCAL_ORIGINS | V3D_AROUND_ACTIVE | V3D_AROUND_OTHER

record ('f, 'w) gp_database =
  has_active_layer :: "'w \<Rightarrow> bool"
  get_active_layer :: "'w \<Rightarrow> nat"
  layers_for_write :: "'w \<Rightarrow> nat list"
  layer_is_editable :: "'w \<Rightarrow> nat \<Rightarrow> bool"
  layer_is_locked :: "'w \<Rightarrow> nat \<Rightarrow> bool"
  layer_is_selected :: "'w \<Rightarrow> nat \<Rightarrow> bool"
  layer_name :: "'w \<Rightarrow> nat \<Rightarrow> string"
  start_frame_at :: "'w \<Rightarrow> nat \<Rightarrow> int \<Rightarrow> int option"
  remove_frames :: "nat \<Rightarrow> int list \<Rightarrow> 'w \<Rightarrow> bool \<times> 'w"
  add_layer :: "string \<Rightarrow> 'w \<Rightarrow> 'w"
  find_node_by_name :: "'w \<Rightarrow> string \<Rightarrow> nat option"
  node_is_layer :: "'w \<Rightarrow> nat \<Rightarrow> bool"
  has_drawing_at :: "'w \<Rightarrow> nat \<Rightarrow> int \<Rightarrow> bool"
  insert_frame :: "nat \<Rightarrow> int \<Rightarrow> nat \<Rightarrow> 'w \<Rightarrow> 'w"
  get_editable_drawing_at :: "'w \<Rightarrow> nat \<Rightarrow> int \<Rightarrow> nat option"
  ensure_active_keyframe :: "('f, 'w) bContext \<Rightarrow> bool \<times> bool \<times> 'f Drawing option \<times> 'w"
  retrieve_editable_drawings_from_layer :: "('f, 'w) bContext \<Rightarrow> nat \<Rightarrow> MutableDrawingInfo list"
  retrieve_visible_drawings :: "('f, 'w) bContext \<Rightarrow> MutableDrawingInfo list"
  BKE_libblock_find_name :: "'w \<Rightarrow> string \<Rightarrow> nat option"
  BKE_object_material_index_get :: "'w \<Rightarrow> nat \<Rightarrow> int"
  BKE_object_material_slot_used :: "'w \<Rightarrow> object_ref \<Rightarrow> Object \<Rightarrow> int \<Rightarrow> bool"
  BKE_object_material_slot_remove :: "object_ref \<Rightarrow> Object \<Rightarrow> 'w \<Rightarrow> bool \<times> Object \<times> 'w"
  BKE_object_material_array_assign :: "object_ref \<Rightarrow> Object \<Rightarrow> 'w \<Rightarrow> Object \<times> 'w"
  add_duplicate :: "'w \<Rightarrow> nat \<times> 'w"
  BKE_grease_pencil_add :: "nat \<Rightarrow> 'w \<Rightarrow> 'w"
  dst_find_node_by_name :: "'w \<Rightarrow> nat \<Rightarrow> string \<Rightarrow> nat option"
  dst_add_layer :: "nat \<Rightarrow> string \<Rightarrow> 'w \<Rightarrow> nat \<times> 'w"
  dst_gather_layer_attributes :: "nat \<Rightarrow> nat \<Rightarrow> 'w \<Rightarrow> 'w"
  dst_insert_frame :: "nat \<Rightarrow> nat \<Rightarrow> int \<Rightarrow> 'w \<Rightarrow> 'w"
  dst_set_strokes :: "nat \<Rightarrow> nat \<Rightarrow> int \<Rightarrow> 'f CurvesGeometry \<Rightarrow> 'w \<Rightarrow> 'w"
  dst_tag_topology_changed :: "nat \<Rightarrow> nat \<Rightarrow> int \<Rightarrow> 'w \<Rightarrow> 'w"
  dst_set_active_layer_none :: "nat \<Rightarrow> 'w \<Rightarrow> 'w"
  layers_size :: "'w \<Rightarrow> nat"
  material_array_num :: "'w \<Rightarrow> nat"
  material_session_uid :: "'w \<Rightarrow> nat \<Rightarrow> nat"
  scene_materials :: "'w \<Rightarrow> nat \<Rightarrow> nat option"
  BKE_grease_pencil_object_material_new :: "Object \<Rightarrow> 'w \<Rightarrow> int \<times> Object \<times> 'w"
  BKE_object_material_ensure :: "nat \<Rightarrow> Object \<Rightarrow> 'w \<Rightarrow> int \<times> Object \<times> 'w"
  get_clipboard :: "'w \<Rightarrow> 'f CurvesGeometry \<times> (nat \<times> int) list \<times> int"
  set_clipboard :: "'f CurvesGeometry \<times> (nat \<times> int) list \<times> int \<Rightarrow> 'w \<Rightarrow> 'w"
  resize_geometry :: "'f CurvesGeometry \<Rightarrow> nat \<Rightarrow> nat \<Rightarrow> 'f CurvesGeometry"
  ED_view3d_grid_view_scale :: "'w \<Rightarrow> 'f"
  transform_to_world :: "'w \<Rightarrow> int \<Rightarrow> 'f attr_value \<Rightarrow> 'f attr_value"
  transform_to_layer :: "'w \<Rightarrow> int \<Rightarrow> 'f attr_value \<Rightarrow> 'f attr_value"
  snap_to_grid_size :: "'f \<Rightarrow> 'f attr_value \<Rightarrow> 'f attr_value"
  float3_add :: "'f attr_value \<Rightarrow> 'f attr_value \<Rightarrow> 'f attr_value"
  float3_sub :: "'f attr_value \<Rightarrow> 'f attr_value \<Rightarrow> 'f attr_value"
  float3_div :: "'f attr_value \<Rightarrow> nat \<Rightarrow> 'f attr_value"
  float3_zero :: "'f attr_value"
  float3_max :: "'f attr_value"
  float3_lowest :: "'f attr_value"
  float3_min_max :: "'f attr_value \<Rightarrow> 'f attr_value \<times> 'f attr_value \<Rightarrow> 'f attr_value \<times> 'f attr_value"
  float3_midpoint :: "'f attr_value \<Rightarrow> 'f attr_value \<Rightarrow> 'f attr_value"
  cursor_location :: "'w \<Rightarrow> 'f attr_value"
  set_cursor_location :: "'f attr_value \<Rightarrow> 'w \<Rightarrow> 'w"
  transform_pivot_point :: "'w \<Rightarrow> V3D_AROUND"
  GP_STROKE_CAP_ROUND :: int
  GP_STROKE_CAP_FLAT :: int
  GP_STROKE_CAP_TYPE_ROUND :: int
  GP_STROKE_CAP_TYPE_FLAT :: int

subsection \<open>Delete frame\<close>

definition DeleteFrameMode_ACTIVE_FRAME :: int where "DeleteFrameMode_ACTIVE_FRAME = 0"
definition DeleteFrameMode_ALL_FRAMES :: int where "DeleteFrameMode_ALL_FRAMES = 1"

text \<open>The frames of a layer and the order of the drawings belong to the world;
  \<^verbatim>\<open>remove_frames\<close> leaves the strokes of every drawing as they are.\<close>

definition delete_frame_layer ::
  "('f, 'w) gp_database \<Rightarrow> int \<Rightarrow> nat \<Rightarrow> bool \<times> 'w \<Rightarrow> bool \<times> 'w" where
  "delete_frame_layer db current_frame layer st =
     (case st of (changed, w) \<Rightarrow>
        if layer_is_editable db w layer
        then (case start_frame_at db w layer current_frame of
                None \<Rightarrow> st
              | Some frame \<Rightarrow>
                  (case remove_frames db layer [frame] w of
                     (removed, w') \<Rightarrow> (changed \<or> removed, w')))
        else st)"

definition grease_pencil_delete_frame_exec ::
  "('f, 'w) gp_database \<Rightarrow> ('f, 'w) bContext \<Rightarrow> 'f wmOperator
     \<Rightarrow> wmOperatorStatus \<times> ('f, 'w) bContext" where
  "grease_pencil_delete_frame_exec db C op =
     (let current_frame = cfra C;
          mode = int8_cast (RNA_enum_get op ''type'');
          result =
            (if mode = DeleteFrameMode_ACTIVE_FRAME \<and> has_active_layer db (world C)
             then delete_frame_layer db current_frame (get_active_layer db (world C))
                    (False, world C)
             else if mode = DeleteFrameMode_ALL_FRAMES
             then fold (delete_frame_layer db current_frame) (layers_for_write db (world C))
                    (False, world C)
             else (False, world C))
      in case result of
           (changed, w) \<Rightarrow>
             (OPERATOR_FINISHED,
              if changed
              then WM_event_add_notifier [NC_GPENCIL, NA_EDITED] NullRef
                     (WM_event_add_notifier [NC_GEOM, ND_DATA, NA_EDITED] GreasePencilID
                        (DEG_id_tag_update GreasePencilID [ID_RECALC_GEOMETRY] (C\<lparr>world := w\<rparr>)))
              else C\<lparr>world := w\<rparr>))"

subsection \<open>Materials\<close>

definition material_set_drawing ::
  "('f, 'w) gp_library \<Rightarrow> int \<Rightarrow> MutableDrawingInfo \<Rightarrow> ('f, 'w) bContext \<Rightarrow> ('f, 'w) bContext" where
  "material_set_drawing lib material_index info C =
     (let stroke_mask = retrieve_editable_and_selected_strokes lib C info in
      if stroke_mask = [] then C
      else write_strokes info (AttributeWritten ''material_index'' (Some Curve))
             (lookup_or_add_for_write_span ''material_index'' Curve CD_PROP_INT32 (IntV 0)
                (\<lambda>materials. masked_fill materials (IntV material_index) stroke_mask)) C)"

definition grease_pencil_stroke_material_set_exec ::
  "('f, 'w) gp_library \<Rightarrow> ('f, 'w) gp_database \<Rightarrow> ('f, 'w) bContext \<Rightarrow> 'f wmOperator
     \<Rightarrow> wmOperatorStatus \<times> ('f, 'w) bContext" where
  "grease_pencil_stroke_material_set_exec lib db C op =
     (let name = RNA_string_get op ''material'';
          material_index = actcol (objects C ActiveObject) - 1;
          found = (if name \<noteq> []
                   then (case BKE_libblock_find_name db (world C) name of
                           None \<Rightarrow> None
                         | Some ma \<Rightarrow> Some (BKE_object_material_index_get db (world C) ma))
                   else Some material_index)
      in case found of
           None \<Rightarrow> (OPERATOR_CANCELLED, BKE_report ''Material could not be found'' C)
         | Some material_index \<Rightarrow>
             if material_index = - 1 then (OPERATOR_CANCELLED, C)
             else
               (let C' = fold (material_set_drawing lib material_index)
                           (retrieve_editable_drawings lib C) C
                in (OPERATOR_FINISHED,
                    WM_event_add_notifier [NC_GEOM, ND_DATA, NA_EDITED] GreasePencilID
                      (DEG_id_tag_update GreasePencilID [ID_RECALC_GEOMETRY] C'))))"

text \<open>The loop of \<^verbatim>\<open>grease_pencil_set_active_material_exec\<close> stops at the first
  drawing that has a selected stroke.\<close>

fun set_active_material_drawings ::
  "('f, 'w) gp_library \<Rightarrow> MutableDrawingInfo list \<Rightarrow> ('f, 'w) bContext \<Rightarrow> ('f, 'w) bContext" where
  "set_active_material_drawings lib [] C = C"
| "set_active_material_drawings lib (info # rest) C =
     (let stroke_mask = retrieve_editable_and_selected_strokes lib C info in
      if stroke_mask = [] then set_active_material_drawings lib rest C
      else
        (let materials = lookup_or_default_int (strokes (drawing_of C info))
                           ''material_index'' Curve 0
         in case varray_at materials (hd stroke_mask) of
              IntV m \<Rightarrow>
                C\<lparr>objects := (objects C)(ActiveObject :=
                     (objects C ActiveObject)\<lparr>actcol := m + 1\<rparr>)\<rparr>
            | _ \<Rightarrow> C))"

definition grease_pencil_set_active_material_exec ::
  "('f, 'w) gp_library \<Rightarrow> ('f, 'w) bContext \<Rightarrow> 'f wmOperator
     \<Rightarrow> wmOperatorStatus \<times> ('f, 'w) bContext" where
  "grease_pencil_set_active_material_exec lib C op =
     (if totcol (objects C ActiveObject) = 0 then (OPERATOR_CANCELLED, C)
      else (OPERATOR_FINISHED,
            WM_event_add_notifier [NC_GEOM, ND_DATA, NA_EDITED] GreasePencilID
              (set_active_material_drawings lib (retrieve_editable_drawings lib C) C)))"

definition grease_pencil_set_material_exec ::
  "('f, 'w) bContext \<Rightarrow> 'f wmOperator \<Rightarrow> wmOperatorStatus \<times> ('f, 'w) bContext" where
  "grease_pencil_set_material_exec C op =
     (let slot = RNA_enum_get op ''slot''
      in if slot < 1 \<or> slot > totcol (objects C ActiveObject) then (OPERATOR_CANCELLED, C)
         else (OPERATOR_FINISHED,
               WM_event_add_notifier [NC_GEOM, ND_DATA, NA_EDITED] GreasePencilID
                 (C\<lparr>objects := (objects C)(ActiveObject :=
                      (objects C ActiveObject)\<lparr>actcol := slot\<rparr>)\<rparr>)))"

subsection \<open>Caps\<close>

definition CapsMode_FLAT :: int where "CapsMode_FLAT = 0"
definition CapsMode_START :: int where "CapsMode_START = 1"
definition CapsMode_END :: int where "CapsMode_END = 2"
definition CapsMode_ROUND :: int where "CapsMode_ROUND = 3"

definition toggle_caps ::
  "('f, 'w) gp_database \<Rightarrow> IndexMask \<Rightarrow> 'f attr_value list \<Rightarrow> 'f attr_value list" where
  "toggle_caps db stroke_mask caps =
     fold (\<lambda>stroke_i caps.
             if caps ! stroke_i = IntV (GP_STROKE_CAP_FLAT db)
             then caps[stroke_i := IntV (GP_STROKE_CAP_ROUND db)]
             else caps[stroke_i := IntV (GP_STROKE_CAP_FLAT db)]) stroke_mask caps"

definition caps_set_strokes ::
  "('f, 'w) gp_database \<Rightarrow> int \<Rightarrow> IndexMask \<Rightarrow> 'f CurvesGeometry \<Rightarrow> 'f CurvesGeometry" where
  "caps_set_strokes db mode stroke_mask curves =
     (if mode = CapsMode_ROUND \<or> mode = CapsMode_FLAT
      then (let flag_set = (if mode = CapsMode_ROUND then GP_STROKE_CAP_TYPE_ROUND db
                            else GP_STROKE_CAP_TYPE_FLAT db);
                with_start = lookup_or_add ''start_cap'' Curve CD_PROP_INT8 (IntV 0) curves;
                with_end = lookup_or_add ''end_cap'' Curve CD_PROP_INT8 (IntV 0) with_start
            in lookup_or_add_for_write_span ''end_cap'' Curve CD_PROP_INT8 (IntV 0)
                 (\<lambda>caps. masked_fill caps (IntV flag_set) stroke_mask)
                 (lookup_or_add_for_write_span ''start_cap'' Curve CD_PROP_INT8 (IntV 0)
                    (\<lambda>caps. masked_fill caps (IntV flag_set) stroke_mask) with_end))
      else if mode = CapsMode_START
      then lookup_or_add_for_write_span ''start_cap'' Curve CD_PROP_INT8 (IntV 0)
             (toggle_caps db stroke_mask) curves
      else if mode = CapsMode_END
      then lookup_or_add_for_write_span ''end_cap'' Curve CD_PROP_INT8 (IntV 0)
             (toggle_caps db stroke_mask) curves
      else curves)"

definition caps_set_drawing ::
  "('f, 'w) gp_library \<Rightarrow> ('f, 'w) gp_database \<Rightarrow> int \<Rightarrow> MutableDrawingInfo
     \<Rightarrow> bool \<times> ('f, 'w) bContext \<Rightarrow> bool \<times> ('f, 'w) bContext" where
  "caps_set_drawing lib db mode info st =
     (case st of (changed, C) \<Rightarrow>
        let stroke_mask = retrieve_editable_and_selected_strokes lib C info in
        if stroke_mask = [] then st
        else (True, write_strokes info (AttributeWritten ''caps'' (Some Curve))
                      (caps_set_strokes db mode stroke_mask) C))"

definition grease_pencil_caps_set_exec ::
  "('f, 'w) gp_library \<Rightarrow> ('f, 'w) gp_database \<Rightarrow> ('f, 'w) bContext \<Rightarrow> 'f wmOperator
     \<Rightarrow> wmOperatorStatus \<times> ('f, 'w) bContext" where
  "grease_pencil_caps_set_exec lib db C op =
     (let mode = int8_cast (RNA_enum_get op ''type'')
      in case fold (caps_set_drawing lib db mode) (retrieve_editable_drawings lib C) (False, C) of
           (changed, C') \<Rightarrow>
             (OPERATOR_FINISHED, notify_if_changed changed [NC_GEOM, ND_DATA] GreasePencilID C'))"

subsection \<open>Duplicate, clean loose points, subdivide\<close>

definition duplicate_drawing ::
  "('f, 'w) gp_library \<Rightarrow> MutableDrawingInfo \<Rightarrow> bool \<times> ('f, 'w) bContext
     \<Rightarrow> bool \<times> ('f, 'w) bContext" where
  "duplicate_drawing lib info st =
     (case st of (changed, C) \<Rightarrow>
        let elements = retrieve_editable_and_selected_elements lib C info (selection_domain C) in
        if elements = [] then st
        else if selection_domain C = Curve
        then (True, tag_topology_changed info
                      (write_strokes info (StrokesChanged ''duplicate_curves'')
                         (\<lambda>g. duplicate_curves lib g elements) C))
        else if selection_domain C = Point
        then (True, tag_topology_changed info
                      (write_strokes info (StrokesChanged ''duplicate_points'')
                         (\<lambda>g. duplicate_points lib g elements) C))
        else (True, tag_topology_changed info C))"

definition grease_pencil_duplicate_exec ::
  "('f, 'w) gp_library \<Rightarrow> ('f, 'w) bContext \<Rightarrow> 'f wmOperator
     \<Rightarrow> wmOperatorStatus \<times> ('f, 'w) bContext" where
  "grease_pencil_duplicate_exec lib C op =
     (case fold (duplicate_drawing lib) (retrieve_editable_drawings lib C) (False, C) of
        (changed, C') \<Rightarrow>
          (OPERATOR_FINISHED, notify_if_changed changed [NC_GEOM, ND_DATA] GreasePencilID C'))"

definition clean_loose_drawing ::
  "('f, 'w) gp_library \<Rightarrow> int \<Rightarrow> MutableDrawingInfo \<Rightarrow> ('f, 'w) bContext \<Rightarrow> ('f, 'w) bContext" where
  "clean_loose_drawing lib limit info C =
     (let curves = strokes (drawing_of C info);
          editable_strokes = retrieve_editable_strokes lib C info;
          curves_to_delete =
            filter (\<lambda>i. int (range_size (points_by_curve curves i)) \<le> limit) editable_strokes
      in write_strokes info (StrokesChanged ''remove_curves'')
           (\<lambda>g. remove_curves lib g curves_to_delete) C)"

definition grease_pencil_clean_loose_exec ::
  "('f, 'w) gp_library \<Rightarrow> ('f, 'w) bContext \<Rightarrow> 'f wmOperator
     \<Rightarrow> wmOperatorStatus \<times> ('f, 'w) bContext" where
  "grease_pencil_clean_loose_exec lib C op =
     (let limit = RNA_int_get op ''limit'';
          C' = fold (clean_loose_drawing lib limit) (retrieve_editable_drawings lib C) C
      in (OPERATOR_FINISHED,
          WM_event_add_notifier [NC_GEOM, ND_DATA] GreasePencilID
            (DEG_id_tag_update GreasePencilID [ID_RECALC_GEOMETRY] C')))"

text \<open>The cuts of the subdivide operator for the point selection mode: a cut after each
  selected point whose successor in the curve is selected, and after the last point of
  a cyclic curve whose first and last points are selected.\<close>

definition IndexRange_drop_back :: "IndexRange \<Rightarrow> nat \<Rightarrow> IndexRange" where
  "IndexRange_drop_back r n = r\<lparr>range_size := range_size r - n\<rparr>"

definition subdivide_curve_cuts ::
  "'f CurvesGeometry \<Rightarrow> int \<Rightarrow> bool VArray \<Rightarrow> nat \<Rightarrow> int list \<Rightarrow> int list" where
  "subdivide_curve_cuts curves cuts selection curve use_cuts =
     (let use_cuts1 =
            fold (\<lambda>point use_cuts.
                    if \<not> varray_at selection point then use_cuts
                    else if varray_at selection (point + 1) then use_cuts[point := cuts]
                    else use_cuts)
              (range_indices (IndexRange_drop_back (points_by_curve curves curve) 1)) use_cuts
      in if varray_at (cyclic curves) curve
         then (let first_point = nat (range_first (points_by_curve curves curve));
                   last_point = nat (range_last (points_by_curve curves curve) 0)
               in if varray_at selection first_point \<and> varray_at selection last_point
                  then use_cuts1[last_point := cuts]
                  else use_cuts1)
         else use_cuts1)"

definition subdivide_vcuts :: "'f CurvesGeometry \<Rightarrow> AttrDomain \<Rightarrow> int \<Rightarrow> bool \<Rightarrow> int VArray" where
  "subdivide_vcuts curves domain cuts only_selected =
     (if domain = Curve \<or> \<not> only_selected then VSingle cuts (point_num curves)
      else if domain = Point
      then (let selection = lookup_or_default_bool curves ''.selection'' Point True
            in VSpan (fold (subdivide_curve_cuts curves cuts selection) (curves_range curves)
                        (replicate (point_num curves) 0)))
      else VSpan [])"

definition subdivide_drawing ::
  "('f, 'w) gp_library \<Rightarrow> int \<Rightarrow> bool \<Rightarrow> MutableDrawingInfo \<Rightarrow> bool \<times> ('f, 'w) bContext
     \<Rightarrow> bool \<times> ('f, 'w) bContext" where
  "subdivide_drawing lib cuts only_selected info st =
     (case st of (changed, C) \<Rightarrow>
        let stroke_mask = retrieve_editable_and_selected_strokes lib C info in
        if stroke_mask = [] then st
        else
          let vcuts = subdivide_vcuts (strokes (drawing_of C info)) (selection_domain C)
                        cuts only_selected
          in (True, tag_topology_changed info
                      (write_strokes info (StrokesChanged ''subdivide_curves'')
                         (\<lambda>g. subdivide_curves lib g stroke_mask vcuts) C)))"

definition gpencil_stroke_subdivide_exec ::
  "('f, 'w) gp_library \<Rightarrow> ('f, 'w) bContext \<Rightarrow> 'f wmOperator
     \<Rightarrow> wmOperatorStatus \<times> ('f, 'w) bContext" where
  "gpencil_stroke_subdivide_exec lib C op =
     (let cuts = RNA_int_get op ''number_cuts'';
          only_selected = RNA_boolean_get op ''only_selected''
      in case fold (subdivide_drawing lib cuts only_selected) (retrieve_editable_drawings lib C)
                (False, C) of
           (changed, C') \<Rightarrow>
             (OPERATOR_FINISHED,
              notify_if_changed changed [NC_GPENCIL, ND_DATA, NA_EDITED] NullRef C'))"

subsection \<open>Reorder, merge by distance, extrude, set curve type\<close>

text \<open>\<^verbatim>\<open>ReorderDirection(RNA_enum_get(op->ptr, "direction"))\<close>. For a value that is
  none of the four directions \<^verbatim>\<open>get_reordered_indices\<close> takes no branch and returns
  the array as it was allocated.\<close>

definition ReorderDirection_of_int :: "int \<Rightarrow> ReorderDirection option" where
  "ReorderDirection_of_int i =
     (if i = 0 then Some TOP else if i = 1 then Some UP else if i = 2 then Some DOWN
      else if i = 3 then Some BOTTOM else None)"

definition reorder_drawing ::
  "('f, 'w) gp_library \<Rightarrow> int \<Rightarrow> MutableDrawingInfo \<Rightarrow> bool \<times> ('f, 'w) bContext
     \<Rightarrow> (bool \<times> ('f, 'w) bContext) option" where
  "reorder_drawing lib direction info st =
     (case st of (changed, C) \<Rightarrow>
        let stroke_mask = retrieve_editable_and_selected_strokes lib C info in
        if stroke_mask = [] then Some st
        else
          let curves = strokes (drawing_of C info) in
          if length stroke_mask = curve_num curves then Some st
          else
            (case (case ReorderDirection_of_int direction of
                     None \<Rightarrow> Some (map (uninit_int lib) [0 ..< curve_num curves])
                   | Some d \<Rightarrow>
                       get_reordered_indices (uninit_int lib)
                         \<lparr>range_start = 0, range_size = curve_num curves\<rparr> stroke_mask d) of
               None \<Rightarrow> None
             | Some indices \<Rightarrow>
                 Some (True, tag_topology_changed info
                         (write_strokes info (StrokesChanged ''reorder_curves_geometry'')
                            (\<lambda>g. reorder_curves_geometry lib g indices) C))))"

definition grease_pencil_stroke_reorder_exec ::
  "('f, 'w) gp_library \<Rightarrow> ('f, 'w) bContext \<Rightarrow> 'f wmOperator
     \<Rightarrow> (wmOperatorStatus \<times> ('f, 'w) bContext) option" where
  "grease_pencil_stroke_reorder_exec lib C op =
     (let direction = int8_cast (RNA_enum_get op ''direction'')
      in case fold_option (reorder_drawing lib direction) (retrieve_editable_drawings lib C)
                (False, C) of
           None \<Rightarrow> None
         | Some (changed, C') \<Rightarrow>
             Some (OPERATOR_FINISHED,
                   notify_if_changed changed [NC_GEOM, ND_DATA] GreasePencilID C'))"

definition merge_by_distance_drawing ::
  "('f, 'w) gp_library \<Rightarrow> 'f \<Rightarrow> bool \<Rightarrow> MutableDrawingInfo \<Rightarrow> bool \<times> ('f, 'w) bContext
     \<Rightarrow> bool \<times> ('f, 'w) bContext" where
  "merge_by_distance_drawing lib threshold use_unselected info st =
     (case st of (changed, C) \<Rightarrow>
        let points = (if use_unselected then retrieve_editable_points lib C info
                      else retrieve_editable_and_selected_points lib C info) in
        if points = [] then st
        else (True, tag_topology_changed info
                      (write_strokes info (StrokesChanged ''curves_merge_by_distance'')
                         (\<lambda>g. curves_merge_by_distance lib g threshold points) C)))"

definition grease_pencil_stroke_merge_by_distance_exec ::
  "('f, 'w) gp_library \<Rightarrow> ('f, 'w) bContext \<Rightarrow> 'f wmOperator
     \<Rightarrow> wmOperatorStatus \<times> ('f, 'w) bContext" where
  "grease_pencil_stroke_merge_by_distance_exec lib C op =
     (let threshold = RNA_float_get op ''threshold'';
          use_unselected = RNA_boolean_get op ''use_unselected''
      in case fold (merge_by_distance_drawing lib threshold use_unselected)
                (retrieve_editable_drawings lib C) (False, C) of
           (changed, C') \<Rightarrow>
             (OPERATOR_FINISHED, notify_if_changed changed [NC_GEOM, ND_DATA] GreasePencilID C'))"

definition extrude_drawing ::
  "('f, 'w) gp_library \<Rightarrow> MutableDrawingInfo \<Rightarrow> bool \<times> ('f, 'w) bContext
     \<Rightarrow> (bool \<times> ('f, 'w) bContext) option" where
  "extrude_drawing lib info st =
     (case st of (changed, C) \<Rightarrow>
        let points_to_extrude = retrieve_editable_and_selected_points lib C info in
        if points_to_extrude = [] then Some st
        else
          (case extrude_grease_pencil_curves (uninit_value lib) (strokes (drawing_of C info))
                  points_to_extrude of
             None \<Rightarrow> None
           | Some dst \<Rightarrow>
               Some (True, tag_topology_changed info
                       (write_strokes info (StrokesChanged ''extrude_grease_pencil_curves'')
                          (\<lambda>g. dst) C))))"

definition grease_pencil_extrude_exec ::
  "('f, 'w) gp_library \<Rightarrow> ('f, 'w) bContext \<Rightarrow> 'f wmOperator
     \<Rightarrow> (wmOperatorStatus \<times> ('f, 'w) bContext) option" where
  "grease_pencil_extrude_exec lib C op =
     (case fold_option (extrude_drawing lib) (retrieve_editable_drawings lib C) (False, C) of
        None \<Rightarrow> None
      | Some (changed, C') \<Rightarrow>
          Some (OPERATOR_FINISHED,
                notify_if_changed changed [NC_GEOM, ND_DATA] GreasePencilID C'))"

definition set_curve_type_drawing ::
  "('f, 'w) gp_library \<Rightarrow> int \<Rightarrow> bool \<Rightarrow> MutableDrawingInfo \<Rightarrow> bool \<times> ('f, 'w) bContext
     \<Rightarrow> bool \<times> ('f, 'w) bContext" where
  "set_curve_type_drawing lib dst_type use_handles info st =
     (case st of (changed, C) \<Rightarrow>
        let stroke_mask = retrieve_editable_and_selected_strokes lib C info in
        if stroke_mask = [] then st
        else (True, tag_topology_changed info
                      (write_strokes info (StrokesChanged ''convert_curves'')
                         (\<lambda>g. convert_curves lib g stroke_mask dst_type use_handles) C)))"

definition grease_pencil_set_curve_type_exec ::
  "('f, 'w) gp_library \<Rightarrow> ('f, 'w) bContext \<Rightarrow> 'f wmOperator
     \<Rightarrow> wmOperatorStatus \<times> ('f, 'w) bContext" where
  "grease_pencil_set_curve_type_exec lib C op =
     (let dst_type = RNA_enum_get op ''type'';
          use_handles = RNA_boolean_get op ''use_handles''
      in case fold (set_curve_type_drawing lib dst_type use_handles)
                (retrieve_editable_drawings lib C) (False, C) of
           (changed, C') \<Rightarrow>
             (OPERATOR_FINISHED, notify_if_changed changed [NC_GEOM, ND_DATA] GreasePencilID C'))"

subsection \<open>Snapping\<close>

text \<open>
  Modelled from the spec: \<^verbatim>\<open>CurvesGeometry::positions_for_write()\<close> is declared in
  \<^verbatim>\<open>BKE_curves.hh\<close>. It gives the values of the point attribute "position" to write
  to, adding the attribute when it is not stored.
\<close>

definition positions_for_write ::
  "('f, 'w) gp_database \<Rightarrow> ('f attr_value list \<Rightarrow> 'f attr_value list) \<Rightarrow> 'f CurvesGeometry
     \<Rightarrow> 'f CurvesGeometry" where
  "positions_for_write db f g =
     lookup_or_add_for_write_span ''position'' Point CD_PROP_FLOAT3 (float3_zero db) f g"

definition snap_tags :: "('f, 'w) bContext \<Rightarrow> ('f, 'w) bContext" where
  "snap_tags C =
     WM_event_add_notifier [NC_GPENCIL, ND_DATA, NA_EDITED] NullRef
       (DEG_id_tag_update ObjectID [ID_RECALC_SYNC_TO_EVAL]
          (DEG_id_tag_update GreasePencilID [ID_RECALC_TRANSFORM, ID_RECALC_GEOMETRY] C))"

definition snap_to_grid_drawing ::
  "('f, 'w) gp_library \<Rightarrow> ('f, 'w) gp_database \<Rightarrow> 'f \<Rightarrow> MutableDrawingInfo
     \<Rightarrow> ('f, 'w) bContext \<Rightarrow> ('f, 'w) bContext" where
  "snap_to_grid_drawing lib db grid_size drawing_info C =
     (let curves = strokes (drawing_of C drawing_info) in
      if curve_num curves = 0 then C
      else if \<not> has_anything_selected lib curves then C
      else
        (let selected_points = retrieve_selected_points lib curves
         in snap_tags
              (write_strokes drawing_info (AttributeWritten ''position'' None)
                 (positions_for_write db
                    (\<lambda>point_positions.
                       fold (\<lambda>point_i ps.
                               ps[point_i :=
                                    transform_to_layer db (world C) (layer_index drawing_info)
                                      (snap_to_grid_size db grid_size
                                         (transform_to_world db (world C) (layer_index drawing_info)
                                            (ps ! point_i)))])
                         selected_points point_positions)) C)))"

definition grease_pencil_snap_to_grid_exec ::
  "('f, 'w) gp_library \<Rightarrow> ('f, 'w) gp_database \<Rightarrow> ('f, 'w) bContext \<Rightarrow> 'f wmOperator
     \<Rightarrow> wmOperatorStatus \<times> ('f, 'w) bContext" where
  "grease_pencil_snap_to_grid_exec lib db C op =
     (let grid_size = ED_view3d_grid_view_scale db (world C)
      in (OPERATOR_FINISHED,
          fold (snap_to_grid_drawing lib db grid_size) (retrieve_editable_drawings lib C) C))"

definition snap_curve_with_offset ::
  "('f, 'w) gp_database \<Rightarrow> 'f CurvesGeometry \<Rightarrow> IndexMask \<Rightarrow> 'f attr_value \<Rightarrow> nat
     \<Rightarrow> 'f attr_value list \<Rightarrow> 'f attr_value list" where
  "snap_curve_with_offset db curves selected_points cursor_layer curve_i ps =
     (let points = points_by_curve curves curve_i;
          offset = float3_sub db cursor_layer (ps ! nat (range_first points))
      in fold (\<lambda>point_i ps. ps[point_i := float3_add db (ps ! point_i) offset])
           (slice_content selected_points points) ps)"

definition snap_to_cursor_drawing ::
  "('f, 'w) gp_library \<Rightarrow> ('f, 'w) gp_database \<Rightarrow> bool \<Rightarrow> 'f attr_value \<Rightarrow> MutableDrawingInfo
     \<Rightarrow> ('f, 'w) bContext \<Rightarrow> ('f, 'w) bContext" where
  "snap_to_cursor_drawing lib db use_offset cursor_world drawing_info C =
     (let curves = strokes (drawing_of C drawing_info) in
      if curve_num curves = 0 then C
      else if \<not> has_anything_selected lib curves then C
      else
        (let selected_points = retrieve_selected_points lib curves;
             cursor_layer = transform_to_layer db (world C) (layer_index drawing_info) cursor_world
         in snap_tags
              (write_strokes drawing_info (AttributeWritten ''position'' None)
                 (positions_for_write db
                    (\<lambda>point_positions.
                       if use_offset
                       then fold (snap_curve_with_offset db curves selected_points cursor_layer)
                              (retrieve_selected_curves lib curves) point_positions
                       else masked_fill point_positions cursor_layer selected_points)) C)))"

definition grease_pencil_snap_to_cursor_exec ::
  "('f, 'w) gp_library \<Rightarrow> ('f, 'w) gp_database \<Rightarrow> ('f, 'w) bContext \<Rightarrow> 'f wmOperator
     \<Rightarrow> wmOperatorStatus \<times> ('f, 'w) bContext" where
  "grease_pencil_snap_to_cursor_exec lib db C op =
     (let use_offset = RNA_boolean_get op ''use_offset'';
          cursor_world = cursor_location db (world C)
      in (OPERATOR_FINISHED,
          fold (snap_to_cursor_drawing lib db use_offset cursor_world)
            (retrieve_editable_drawings lib C) C))"

subsection \<open>Snap the cursor to the selection\<close>

definition centroid_drawing ::
  "('f, 'w) gp_library \<Rightarrow> ('f, 'w) gp_database \<Rightarrow> ('f, 'w) bContext \<Rightarrow> MutableDrawingInfo
     \<Rightarrow> nat \<times> 'f attr_value \<times> 'f attr_value \<times> 'f attr_value
     \<Rightarrow> nat \<times> 'f attr_value \<times> 'f attr_value \<times> 'f attr_value" where
  "centroid_drawing lib db C drawing_info acc =
     (case acc of (num_selected, r_centroid, r_min_max) \<Rightarrow>
        let curves = strokes (drawing_of C drawing_info) in
        if curve_num curves = 0 then acc
        else if \<not> has_anything_selected lib curves then acc
        else
          (let selected_points = retrieve_selected_points lib curves;
               point_positions = positions curves
           in case fold (\<lambda>point_i (c, mm).
                           let pos_world = transform_to_world db (world C)
                                             (layer_index drawing_info) (point_positions ! point_i)
                           in (float3_add db c pos_world, float3_min_max db pos_world mm))
                     selected_points (r_centroid, r_min_max) of
                (c, mm) \<Rightarrow> (num_selected + length selected_points, c, mm)))"

definition grease_pencil_snap_compute_centroid ::
  "('f, 'w) gp_library \<Rightarrow> ('f, 'w) gp_database \<Rightarrow> ('f, 'w) bContext
     \<Rightarrow> bool \<times> 'f attr_value \<times> 'f attr_value \<times> 'f attr_value" where
  "grease_pencil_snap_compute_centroid lib db C =
     (case fold (centroid_drawing lib db C) (retrieve_visible_drawings db C)
             (0, float3_zero db, float3_max db, float3_lowest db) of
        (num_selected, r_centroid, r_min, r_max) \<Rightarrow>
          if num_selected = 0 then (False, r_centroid, float3_zero db, float3_zero db)
          else (True, float3_div db r_centroid num_selected, r_min, r_max))"

text \<open>The \<^verbatim>\<open>default\<close> case of the switch is \<^verbatim>\<open>BLI_assert_unreachable()\<close>: no
  result.\<close>

definition grease_pencil_snap_cursor_to_sel_exec ::
  "('f, 'w) gp_library \<Rightarrow> ('f, 'w) gp_database \<Rightarrow> ('f, 'w) bContext \<Rightarrow> 'f wmOperator
     \<Rightarrow> (wmOperatorStatus \<times> ('f, 'w) bContext) option" where
  "grease_pencil_snap_cursor_to_sel_exec lib db C op =
     (case grease_pencil_snap_compute_centroid lib db C of
        (found, centroid, points_min, points_max) \<Rightarrow>
          if \<not> found then Some (OPERATOR_FINISHED, C)
          else
            (case (case transform_pivot_point db (world C) of
                     V3D_AROUND_CENTER_BOUNDS \<Rightarrow> Some (float3_midpoint db points_min points_max)
                   | V3D_AROUND_OTHER \<Rightarrow> None
                   | _ \<Rightarrow> Some centroid) of
               None \<Rightarrow> None
             | Some cursor \<Rightarrow>
                 Some (OPERATOR_FINISHED,
                       WM_event_add_notifier [NC_SPACE, ND_SPACE_VIEW3D] NullRef
                         (DEG_id_tag_update SceneID [ID_RECALC_SYNC_TO_EVAL]
                            (C\<lparr>world := set_cursor_location db cursor (world C)\<rparr>)))))"

subsection \<open>Move to layer\<close>

text \<open>\<^verbatim>\<open>grease_pencil.insert_frame(layer, frame_number)\<close> adds a drawing to the grease
  pencil and a frame that refers to it to the layer.\<close>

definition insert_frame_drawing ::
  "('f, 'w) gp_database \<Rightarrow> nat \<Rightarrow> int \<Rightarrow> ('f, 'w) bContext \<Rightarrow> MutableDrawingInfo \<times> ('f, 'w) bContext" where
  "insert_frame_drawing db layer frame C =
     (\<lparr>drawing = length (drawings C), layer_index = int layer, frame_number = frame\<rparr>,
      C\<lparr>drawings := drawings C @ [\<lparr>strokes = empty_curves_geometry\<rparr>],
        world := insert_frame db layer frame (length (drawings C)) (world C)\<rparr>)"

definition move_to_layer_drawing ::
  "('f, 'w) gp_library \<Rightarrow> ('f, 'w) gp_database \<Rightarrow> nat \<Rightarrow> MutableDrawingInfo
     \<Rightarrow> bool \<times> ('f, 'w) bContext \<Rightarrow> bool \<times> ('f, 'w) bContext" where
  "move_to_layer_drawing lib db layer_dst info st =
     (case st of (changed, C) \<Rightarrow>
        let curves_src = strokes (drawing_of C info);
            selected_strokes = retrieve_selected_curves lib curves_src
        in if selected_strokes = [] then st
           else
             (let C1 =
                (if \<not> has_drawing_at db (world C) layer_dst (frame_number info)
                 then (case insert_frame_drawing db layer_dst (frame_number info) C of
                         (drawing_dst, C') \<Rightarrow>
                           tag_topology_changed drawing_dst
                             (write_strokes info (StrokesChanged ''remove_curves'')
                                (\<lambda>g. remove_curves lib g selected_strokes)
                                (write_strokes drawing_dst
                                   (StrokesChanged ''curves_copy_curve_selection'')
                                   (\<lambda>g. curves_copy_curve_selection lib curves_src selected_strokes)
                                   C')))
                 else
                   (case get_editable_drawing_at db (world C) layer_dst (frame_number info) of
                      None \<Rightarrow> C
                    | Some dst_index \<Rightarrow>
                        (let drawing_dst = \<lparr>drawing = dst_index, layer_index = int layer_dst,
                                             frame_number = frame_number info\<rparr>;
                             selected_elems =
                               curves_copy_curve_selection lib curves_src selected_strokes
                         in tag_topology_changed drawing_dst
                              (write_strokes info (StrokesChanged ''remove_curves'')
                                 (\<lambda>g. remove_curves lib g selected_strokes)
                                 (write_strokes drawing_dst (StrokesChanged ''join_geometries'')
                                    (\<lambda>g. join_geometries lib [selected_elems, g]) C)))))
              in (True, tag_topology_changed info C1)))"

definition grease_pencil_move_to_layer_exec ::
  "('f, 'w) gp_library \<Rightarrow> ('f, 'w) gp_database \<Rightarrow> ('f, 'w) bContext \<Rightarrow> 'f wmOperator
     \<Rightarrow> wmOperatorStatus \<times> ('f, 'w) bContext" where
  "grease_pencil_move_to_layer_exec lib db C op =
     (let target_layer_name = RNA_string_get op ''target_layer_name'';
          add_new_layer = RNA_boolean_get op ''add_new_layer'';
          C0 = (if add_new_layer then C\<lparr>world := add_layer db target_layer_name (world C)\<rparr> else C);
          target_node = (case find_node_by_name db (world C0) target_layer_name of
                           None \<Rightarrow> None
                         | Some node \<Rightarrow> if node_is_layer db (world C0) node then Some node else None)
      in case target_node of
           None \<Rightarrow> (OPERATOR_CANCELLED, BKE_report ''There is no layer'' C0)
         | Some layer_dst \<Rightarrow>
             if layer_is_locked db (world C0) layer_dst
             then (OPERATOR_CANCELLED, BKE_report ''Layer is locked'' C0)
             else
               (case fold (move_to_layer_drawing lib db layer_dst)
                       (retrieve_editable_drawings lib C0) (False, C0) of
                  (changed, C') \<Rightarrow>
                    (OPERATOR_FINISHED,
                     if changed
                     then WM_event_add_notifier [NC_GPENCIL, ND_DATA, NA_EDITED] NullRef
                            (DEG_id_tag_update GreasePencilID
                               [ID_RECALC_TRANSFORM, ID_RECALC_GEOMETRY] C')
                     else C')))"

subsection \<open>Separate\<close>

definition SeparateMode_SELECTED :: int where "SeparateMode_SELECTED = 0"
definition SeparateMode_MATERIAL :: int where "SeparateMode_MATERIAL = 1"
definition SeparateMode_LAYER :: int where "SeparateMode_LAYER = 2"

text \<open>\<^verbatim>\<open>remove_unused_materials\<close>: the \<^verbatim>\<open>for\<close> loop over the slots and the
  \<^verbatim>\<open>while\<close> loop inside it, as one loop on the slot, the saved active slot, the
  object and the world. The loop ends when removing a slot lowers \<^verbatim>\<open>totcol\<close>.\<close>

partial_function (option) remove_unused_materials_loop ::
  "('f, 'w) gp_database \<Rightarrow> object_ref \<Rightarrow> int \<Rightarrow> int \<Rightarrow> Object \<Rightarrow> 'w \<Rightarrow> (int \<times> Object \<times> 'w) option" where
  "remove_unused_materials_loop db ob slot saved_actcol object w =
     (if slot \<le> totcol object
      then (if \<not> BKE_object_material_slot_used db w ob object slot
            then (case BKE_object_material_slot_remove db ob (object\<lparr>actcol := slot\<rparr>) w of
                    (removed, object', w') \<Rightarrow>
                      if \<not> removed
                      then remove_unused_materials_loop db ob (slot + 1) saved_actcol object' w'
                      else remove_unused_materials_loop db ob slot
                             (if saved_actcol \<ge> slot then saved_actcol - 1 else saved_actcol)
                             object' w')
            else remove_unused_materials_loop db ob (slot + 1) saved_actcol object w)
      else Some (saved_actcol, object, w))"

definition remove_unused_materials ::
  "('f, 'w) gp_database \<Rightarrow> object_ref \<Rightarrow> ('f, 'w) bContext \<Rightarrow> ('f, 'w) bContext option" where
  "remove_unused_materials db ob C =
     (case remove_unused_materials_loop db ob 1 (actcol (objects C ob)) (objects C ob) (world C) of
        None \<Rightarrow> None
      | Some (saved_actcol, object, w) \<Rightarrow>
          Some (C\<lparr>objects := (objects C)(ob := object\<lparr>actcol := saved_actcol\<rparr>), world := w\<rparr>))"

text \<open>The duplicate of the active object and its new, empty grease pencil. The
  drawings of that grease pencil are not drawings of the active object: they are part
  of the world.\<close>

definition duplicate_grease_pencil_object ::
  "('f, 'w) gp_database \<Rightarrow> ('f, 'w) bContext \<Rightarrow> nat \<times> ('f, 'w) bContext" where
  "duplicate_grease_pencil_object db C =
     (case add_duplicate db (world C) of
        (object_dst, w) \<Rightarrow>
          (object_dst,
           C\<lparr>objects := (objects C)(DuplicateObject object_dst := objects C ActiveObject),
             world := BKE_grease_pencil_add db object_dst w\<rparr>))"

definition find_or_create_layer_in_dst_by_name ::
  "('f, 'w) gp_database \<Rightarrow> nat \<Rightarrow> nat \<Rightarrow> ('f, 'w) bContext \<Rightarrow> nat \<times> ('f, 'w) bContext" where
  "find_or_create_layer_in_dst_by_name db layer_i object_dst C =
     (case dst_find_node_by_name db (world C) object_dst (layer_name db (world C) layer_i) of
        Some node \<Rightarrow> (node, C)
      | None \<Rightarrow>
          (case dst_add_layer db object_dst (layer_name db (world C) layer_i) (world C) of
             (new_layer, w) \<Rightarrow>
               (new_layer, C\<lparr>world := dst_gather_layer_attributes db object_dst layer_i w\<rparr>)))"

definition material_array_assign ::
  "('f, 'w) gp_database \<Rightarrow> nat \<Rightarrow> ('f, 'w) bContext \<Rightarrow> ('f, 'w) bContext" where
  "material_array_assign db object_dst C =
     (case BKE_object_material_array_assign db (DuplicateObject object_dst)
             (objects C (DuplicateObject object_dst)) (world C) of
        (object, w) \<Rightarrow>
          C\<lparr>objects := (objects C)(DuplicateObject object_dst := object), world := w\<rparr>)"

text \<open>Insert a frame in the layer of the other grease pencil, store the copied strokes
  in its drawing and tag it.\<close>

definition dst_store_strokes ::
  "('f, 'w) gp_database \<Rightarrow> nat \<Rightarrow> nat \<Rightarrow> int \<Rightarrow> 'f CurvesGeometry \<Rightarrow> 'w \<Rightarrow> 'w" where
  "dst_store_strokes db object_dst layer_dst frame g w =
     dst_set_strokes db object_dst layer_dst frame g (dst_insert_frame db object_dst layer_dst frame w)"

definition separate_selected_drawing ::
  "('f, 'w) gp_library \<Rightarrow> ('f, 'w) gp_database \<Rightarrow> nat \<Rightarrow> MutableDrawingInfo
     \<Rightarrow> bool \<times> ('f, 'w) bContext \<Rightarrow> (bool \<times> ('f, 'w) bContext) option" where
  "separate_selected_drawing lib db object_dst info st =
     (case st of (changed, C) \<Rightarrow>
        let curves_src = strokes (drawing_of C info);
            selected_points = retrieve_selected_points lib curves_src
        in if selected_points = [] then Some st
           else
             (case find_or_create_layer_in_dst_by_name db (nat (layer_index info)) object_dst C of
                (layer_dst, C1) \<Rightarrow>
                  (case remove_points_and_split (uninit_index lib) (uninit_value lib)
                          (unneeded_attributes lib) curves_src selected_points of
                     None \<Rightarrow> None
                   | Some remaining \<Rightarrow>
                       (let C2 = C1\<lparr>world :=
                                   dst_store_strokes db object_dst layer_dst (frame_number info)
                                     (curves_copy_point_selection lib curves_src selected_points)
                                     (world C1)\<rparr>;
                            C3 = tag_topology_changed info
                                   (write_strokes info (StrokesChanged ''remove_points_and_split'')
                                      (\<lambda>g. remaining) C2)
                        in Some (True,
                                 C3\<lparr>world := dst_tag_topology_changed db object_dst layer_dst
                                               (frame_number info) (world C3)\<rparr>)))))"

definition grease_pencil_separate_selected ::
  "('f, 'w) gp_library \<Rightarrow> ('f, 'w) gp_database \<Rightarrow> ('f, 'w) bContext
     \<Rightarrow> (bool \<times> ('f, 'w) bContext) option" where
  "grease_pencil_separate_selected lib db C =
     (case duplicate_grease_pencil_object db C of
        (object_dst, C0) \<Rightarrow>
          (case fold_option (separate_selected_drawing lib db object_dst)
                  (retrieve_editable_drawings lib C0) (False, C0) of
             None \<Rightarrow> None
           | Some (changed, C1) \<Rightarrow>
               if changed
               then (case remove_unused_materials db (DuplicateObject object_dst)
                            (material_array_assign db object_dst
                               (C1\<lparr>world := dst_set_active_layer_none db object_dst (world C1)\<rparr>)) of
                       None \<Rightarrow> None
                     | Some C2 \<Rightarrow>
                         Some (changed,
                               WM_event_add_notifier [NC_OBJECT, ND_DRAW]
                                 (OtherGreasePencilID object_dst)
                                 (DEG_id_tag_update (OtherGreasePencilID object_dst)
                                    [ID_RECALC_GEOMETRY] C2)))
               else Some (changed, C1)))"

definition separate_layer_drawing ::
  "('f, 'w) gp_library \<Rightarrow> ('f, 'w) gp_database \<Rightarrow> nat \<Rightarrow> nat \<Rightarrow> MutableDrawingInfo
     \<Rightarrow> bool \<times> ('f, 'w) bContext \<Rightarrow> bool \<times> ('f, 'w) bContext" where
  "separate_layer_drawing lib db object_dst layer_dst info st =
     (case st of (changed, C) \<Rightarrow>
        let curves_src = strokes (drawing_of C info);
            stroke_mask = retrieve_editable_strokes lib C info
        in if stroke_mask = [] then st
           else
             (let C1 = material_array_assign db object_dst C;
                  C2 = C1\<lparr>world :=
                         dst_store_strokes db object_dst layer_dst (frame_number info)
                           (curves_copy_curve_selection lib curves_src stroke_mask) (world C1)\<rparr>;
                  C3 = tag_topology_changed info
                         (write_strokes info (StrokesChanged ''remove_curves'')
                            (\<lambda>g. remove_curves lib g stroke_mask) C2)
              in (True,
                  C3\<lparr>world := dst_tag_topology_changed db object_dst layer_dst
                                (frame_number info) (world C3)\<rparr>)))"

definition separate_layer ::
  "('f, 'w) gp_library \<Rightarrow> ('f, 'w) gp_database \<Rightarrow> nat \<Rightarrow> bool \<times> ('f, 'w) bContext
     \<Rightarrow> (bool \<times> ('f, 'w) bContext) option" where
  "separate_layer lib db layer_i st =
     (case st of (changed, C) \<Rightarrow>
        if layer_is_selected db (world C) layer_i \<or> layer_is_locked db (world C) layer_i
        then Some st
        else
          (case duplicate_grease_pencil_object db C of
             (object_dst, C0) \<Rightarrow>
               (case find_or_create_layer_in_dst_by_name db layer_i object_dst C0 of
                  (layer_dst, C1) \<Rightarrow>
                    (case fold (separate_layer_drawing lib db object_dst layer_dst)
                            (retrieve_editable_drawings_from_layer db C1 layer_i) (changed, C1) of
                       (changed', C2) \<Rightarrow>
                         (case remove_unused_materials db (DuplicateObject object_dst) C2 of
                            None \<Rightarrow> None
                          | Some C3 \<Rightarrow>
                              Some (changed',
                                    WM_event_add_notifier [NC_OBJECT, ND_DRAW]
                                      (OtherGreasePencilID object_dst)
                                      (DEG_id_tag_update (OtherGreasePencilID object_dst)
                                         [ID_RECALC_GEOMETRY] C3)))))))"

definition grease_pencil_separate_layer ::
  "('f, 'w) gp_library \<Rightarrow> ('f, 'w) gp_database \<Rightarrow> ('f, 'w) bContext
     \<Rightarrow> (bool \<times> ('f, 'w) bContext) option" where
  "grease_pencil_separate_layer lib db C =
     fold_option (separate_layer lib db) [0 ..< layers_size db (world C)] (False, C)"

definition separate_material_drawing ::
  "('f, 'w) gp_library \<Rightarrow> ('f, 'w) gp_database \<Rightarrow> nat \<Rightarrow> nat \<Rightarrow> MutableDrawingInfo
     \<Rightarrow> bool \<times> ('f, 'w) bContext \<Rightarrow> bool \<times> ('f, 'w) bContext" where
  "separate_material_drawing lib db object_dst mat_i info st =
     (case st of (changed, C) \<Rightarrow>
        let curves_src = strokes (drawing_of C info);
            stroke_mask = retrieve_editable_strokes_by_material lib C info (int mat_i)
        in if stroke_mask = [] then st
           else
             (case find_or_create_layer_in_dst_by_name db (nat (layer_index info)) object_dst C of
                (layer_dst, C1) \<Rightarrow>
                  (let C2 = C1\<lparr>world :=
                              dst_store_strokes db object_dst layer_dst (frame_number info)
                                (curves_copy_curve_selection lib curves_src stroke_mask)
                                (world C1)\<rparr>;
                       C3 = tag_topology_changed info
                              (write_strokes info (StrokesChanged ''remove_curves'')
                                 (\<lambda>g. remove_curves lib g stroke_mask) C2);
                       C4 = C3\<lparr>world := dst_tag_topology_changed db object_dst layer_dst
                                           (frame_number info) (world C3)\<rparr>
                   in (True,
                       WM_event_add_notifier [NC_OBJECT, ND_DRAW] (OtherGreasePencilID object_dst)
                         (DEG_id_tag_update (OtherGreasePencilID object_dst)
                            [ID_RECALC_GEOMETRY] C4)))))"

definition separate_material ::
  "('f, 'w) gp_library \<Rightarrow> ('f, 'w) gp_database \<Rightarrow> nat \<Rightarrow> bool \<times> ('f, 'w) bContext
     \<Rightarrow> (bool \<times> ('f, 'w) bContext) option" where
  "separate_material lib db mat_i st =
     (case st of (changed, C) \<Rightarrow>
        if \<not> BKE_object_material_slot_used db (world C) ActiveObject (objects C ActiveObject)
               (int mat_i + 1)
        then Some st
        else
          (case duplicate_grease_pencil_object db C of
             (object_dst, C0) \<Rightarrow>
               (case fold (separate_material_drawing lib db object_dst mat_i)
                       (retrieve_editable_drawings lib (material_array_assign db object_dst C0))
                       (changed, material_array_assign db object_dst C0) of
                  (changed', C1) \<Rightarrow>
                    (case remove_unused_materials db (DuplicateObject object_dst) C1 of
                       None \<Rightarrow> None
                     | Some C2 \<Rightarrow> Some (changed', C2)))))"

definition grease_pencil_separate_material ::
  "('f, 'w) gp_library \<Rightarrow> ('f, 'w) gp_database \<Rightarrow> ('f, 'w) bContext
     \<Rightarrow> (bool \<times> ('f, 'w) bContext) option" where
  "grease_pencil_separate_material lib db C =
     (case fold_option (separate_material lib db)
             [1 ..< nat (totcol (objects C ActiveObject))] (False, C) of
        None \<Rightarrow> None
      | Some (changed, C1) \<Rightarrow>
          if changed
          then (case remove_unused_materials db ActiveObject C1 of
                  None \<Rightarrow> None
                | Some C2 \<Rightarrow> Some (changed, C2))
          else Some (changed, C1))"

definition grease_pencil_separate_exec ::
  "('f, 'w) gp_library \<Rightarrow> ('f, 'w) gp_database \<Rightarrow> ('f, 'w) bContext \<Rightarrow> 'f wmOperator
     \<Rightarrow> (wmOperatorStatus \<times> ('f, 'w) bContext) option" where
  "grease_pencil_separate_exec lib db C op =
     (let mode = int8_cast (RNA_enum_get op ''mode'');
          finish = (\<lambda>result.
                      case result of
                        None \<Rightarrow> None
                      | Some (changed, C') \<Rightarrow>
                          Some (OPERATOR_FINISHED,
                                if changed
                                then WM_event_add_notifier [NC_GEOM, ND_DATA, NA_EDITED]
                                       GreasePencilID
                                       (DEG_id_tag_update GreasePencilID [ID_RECALC_GEOMETRY] C')
                                else C'))
      in if mode = SeparateMode_SELECTED
         then (if \<not> list_ex (\<lambda>info. has_anything_selected lib (strokes (drawing_of C info)))
                       (retrieve_editable_drawings lib C)
               then Some (OPERATOR_CANCELLED, BKE_report ''Nothing selected'' C)
               else finish (grease_pencil_separate_selected lib db C))
         else if mode = SeparateMode_MATERIAL
         then (if totcol (objects C ActiveObject) = 1
               then Some (OPERATOR_CANCELLED, BKE_report ''The object has only one material'' C)
               else finish (grease_pencil_separate_material lib db C))
         else if mode = SeparateMode_LAYER
         then (if layers_size db (world C) = 1
               then Some (OPERATOR_CANCELLED, BKE_report ''The object has only one layer'' C)
               else finish (grease_pencil_separate_layer lib db C))
         else finish (Some (False, C)))"

subsection \<open>Copy and paste\<close>

fun varray_contains :: "'a VArray \<Rightarrow> 'a \<Rightarrow> bool" where
  "varray_contains (VSingle v n) x = (0 < n \<and> v = x)"
| "varray_contains (VSpan xs) x = (x \<in> set xs)"

definition copy_drawing ::
  "('f, 'w) gp_library \<Rightarrow> ('f, 'w) bContext \<Rightarrow> MutableDrawingInfo
     \<Rightarrow> bool \<times> nat \<times> 'f CurvesGeometry list \<Rightarrow> bool \<times> nat \<times> 'f CurvesGeometry list" where
  "copy_drawing lib C drawing_info acc =
     (case acc of (anything_copied, num_copied, set_of_copied_curves) \<Rightarrow>
        let curves = strokes (drawing_of C drawing_info) in
        if curve_num curves = 0 then acc
        else if \<not> has_anything_selected lib curves then acc
        else if selection_domain C = Curve
        then (let copied_curves =
                    curves_copy_curve_selection lib curves (retrieve_selected_curves lib curves)
              in (True, num_copied + curve_num copied_curves,
                  set_of_copied_curves @ [copied_curves]))
        else if selection_domain C = Point
        then (let copied_curves =
                    curves_copy_point_selection lib curves (retrieve_selected_points lib curves)
              in (True, num_copied + point_num copied_curves,
                  set_of_copied_curves @ [copied_curves]))
        else (True, num_copied, set_of_copied_curves @ [empty_curves_geometry]))"

definition grease_pencil_copy_strokes_exec ::
  "('f, 'w) gp_library \<Rightarrow> ('f, 'w) gp_database \<Rightarrow> ('f, 'w) bContext \<Rightarrow> 'f wmOperator
     \<Rightarrow> wmOperatorStatus \<times> ('f, 'w) bContext" where
  "grease_pencil_copy_strokes_exec lib db C op =
     (case get_clipboard db (world C) of
        (clipboard_curves, clipboard_materials, materials_in_source_num) \<Rightarrow>
          (case fold (copy_drawing lib C) (retrieve_editable_drawings lib C) (False, 0, []) of
             (anything_copied, num_copied, set_of_copied_curves) \<Rightarrow>
               if \<not> anything_copied
               then (OPERATOR_CANCELLED,
                     C\<lparr>world := set_clipboard db
                                   (resize_geometry db clipboard_curves 0 0, clipboard_materials,
                                    materials_in_source_num) (world C)\<rparr>)
               else
                 (let joined = join_geometries lib set_of_copied_curves;
                      material_indices = lookup_or_default_int joined ''material_index'' Curve 0;
                      materials =
                        concat (map (\<lambda>material_index.
                                       if \<not> varray_contains material_indices
                                              (IntV (int material_index))
                                       then []
                                       else [(material_session_uid db (world C) material_index,
                                              int material_index)])
                                  [0 ..< material_array_num db (world C)]);
                      C1 = C\<lparr>world := set_clipboard db
                                         (joined, materials, int (material_array_num db (world C)))
                                         (world C)\<rparr>
                  in (OPERATOR_FINISHED,
                      if selection_domain C = Curve
                      then BKE_report ''Copied selected curve(s)'' C1
                      else if selection_domain C = Point
                      then BKE_report ''Copied selected point(s)'' C1
                      else C1))))"

text \<open>\<^verbatim>\<open>clipboard_materials_remap\<close>: the material slot of the active object for each
  material index of the clipboard. The state of the loop is the array, the object and
  the world.\<close>

definition clipboard_materials_remap_step ::
  "('f, 'w) gp_database \<Rightarrow> nat \<times> int \<Rightarrow> int list \<times> Object \<times> 'w \<Rightarrow> int list \<times> Object \<times> 'w" where
  "clipboard_materials_remap_step db entry st =
     (case st of (clipboard_material_remap, object, w) \<Rightarrow>
        (case scene_materials db w (fst entry) of
           None \<Rightarrow>
             (case BKE_grease_pencil_object_material_new db object w of
                (target_index, object', w') \<Rightarrow>
                  (clipboard_material_remap[nat (snd entry) := target_index], object', w'))
         | Some material \<Rightarrow>
             (case BKE_object_material_ensure db material object w of
                (target_index, object', w') \<Rightarrow>
                  (clipboard_material_remap[nat (snd entry) := target_index], object', w'))))"

definition clipboard_materials_remap ::
  "('f, 'w) gp_database \<Rightarrow> ('f, 'w) bContext \<Rightarrow> int list \<times> ('f, 'w) bContext" where
  "clipboard_materials_remap db C =
     (case get_clipboard db (world C) of
        (clipboard_curves, clipboard_materials, materials_in_source_num) \<Rightarrow>
          (case fold (clipboard_materials_remap_step db) clipboard_materials
                  (replicate (nat materials_in_source_num) 0, objects C ActiveObject, world C) of
             (clipboard_material_remap, object, w) \<Rightarrow>
               (clipboard_material_remap,
                C\<lparr>objects := (objects C)(ActiveObject := object), world := w\<rparr>)))"

definition remap_material_index :: "int list \<Rightarrow> 'f attr_value \<Rightarrow> 'f attr_value" where
  "remap_material_index clipboard_material_remap v =
     (case v of IntV m \<Rightarrow> IntV (clipboard_material_remap ! nat m) | _ \<Rightarrow> v)"

definition clipboard_paste_strokes ::
  "('f, 'w) gp_library \<Rightarrow> ('f, 'w) gp_database \<Rightarrow> MutableDrawingInfo \<Rightarrow> bool
     \<Rightarrow> ('f, 'w) bContext \<Rightarrow> IndexRange \<times> ('f, 'w) bContext" where
  "clipboard_paste_strokes lib db target paste_back C =
     (let clipboard_curves = fst (get_clipboard db (world C))
      in case clipboard_materials_remap db C of
           (clipboard_material_remap, C1) \<Rightarrow>
             (let pasted_curves_range =
                    (if paste_back
                     then \<lparr>range_start = 0, range_size = curve_num clipboard_curves\<rparr>
                     else \<lparr>range_start = curve_num (strokes (drawing_of C1 target)),
                           range_size = curve_num clipboard_curves\<rparr>);
                  C2 = write_strokes target (StrokesChanged ''join_geometries'')
                         (\<lambda>g. join_geometries lib
                                 (if paste_back then [clipboard_curves, g]
                                  else [g, clipboard_curves])) C1;
                  C3 = write_strokes target (AttributeWritten ''material_index'' (Some Curve))
                         (lookup_or_add_for_write_span ''material_index'' Curve CD_PROP_INT32
                            (IntV 0)
                            (\<lambda>material_indices.
                               fold (\<lambda>i ms. ms[i := remap_material_index
                                                       clipboard_material_remap (ms ! i)])
                                 (range_indices pasted_curves_range) material_indices)) C2
              in (pasted_curves_range, tag_topology_changed target C3)))"

text \<open>
  Modelled from the spec: \<^verbatim>\<open>ed::curves::ensure_selection_attribute(curves,
  selection_domain, create_type)\<close> and \<^verbatim>\<open>fill_selection_false\<close> are declared in
  \<^verbatim>\<open>ED_curves.hh\<close>. The first gives the attribute ".selection" to write to when it
  is stored on the domain asked for; otherwise it removes it and adds it on that domain,
  selected everywhere. The second deselects every element.
\<close>

definition ensure_selection_attribute ::
  "AttrDomain \<Rightarrow> eCustomDataType \<Rightarrow> 'f CurvesGeometry \<Rightarrow> 'f CurvesGeometry" where
  "ensure_selection_attribute domain create_type g =
     (let fresh = \<lparr>attr_domain = domain, attr_type = create_type,
                   attr_data = replicate (domain_size g domain) (BoolV True)\<rparr>
      in case map_of (attributes g) ''.selection'' of
           None \<Rightarrow> g\<lparr>attributes := AList.update ''.selection'' fresh (attributes g)\<rparr>
         | Some a \<Rightarrow>
             if attr_domain a = domain then g
             else g\<lparr>attributes := AList.update ''.selection'' fresh (attributes g)\<rparr>)"

definition fill_selection_false :: "'f CurvesGeometry \<Rightarrow> 'f CurvesGeometry" where
  "fill_selection_false g = update_attribute_data ''.selection'' (map (\<lambda>v. BoolV False)) g"

definition paste_deselect_drawing ::
  "AttrDomain \<Rightarrow> MutableDrawingInfo \<Rightarrow> ('f, 'w) bContext \<Rightarrow> ('f, 'w) bContext" where
  "paste_deselect_drawing domain info C =
     write_strokes info (AttributeWritten ''.selection'' (Some domain))
       (\<lambda>g. fill_selection_false (ensure_selection_attribute domain CD_PROP_BOOL g)) C"

definition grease_pencil_paste_strokes_exec ::
  "('f, 'w) gp_library \<Rightarrow> ('f, 'w) gp_database \<Rightarrow> ('f, 'w) bContext \<Rightarrow> 'f wmOperator
     \<Rightarrow> wmOperatorStatus \<times> ('f, 'w) bContext" where
  "grease_pencil_paste_strokes_exec lib db C op =
     (let paste_on_back = RNA_boolean_get op ''paste_back''
      in if \<not> has_active_layer db (world C)
         then (OPERATOR_CANCELLED, BKE_report ''No active Grease Pencil layer'' C)
         else
           (let active_layer = get_active_layer db (world C)
            in if \<not> layer_is_editable db (world C) active_layer
               then (OPERATOR_CANCELLED, BKE_report ''Active layer is locked or hidden'' C)
               else
                 (case ensure_active_keyframe db C of
                    (ensured, inserted_keyframe, new_drawing, w) \<Rightarrow>
                      (let C1 = C\<lparr>drawings := (case new_drawing of
                                                  None \<Rightarrow> drawings C
                                                | Some d \<Rightarrow> drawings C @ [d]),
                                  world := w\<rparr>
                       in if \<not> ensured
                          then (OPERATOR_CANCELLED,
                                BKE_report ''No Grease Pencil frame to draw on'' C1)
                          else
                            (case get_editable_drawing_at db (world C1) active_layer (cfra C1) of
                               None \<Rightarrow> (OPERATOR_CANCELLED, C1)
                             | Some target_index \<Rightarrow>
                                 (let target_drawing =
                                        \<lparr>drawing = target_index, layer_index = int active_layer,
                                         frame_number = cfra C1\<rparr>;
                                      C2 = fold (paste_deselect_drawing (selection_domain C1))
                                             (retrieve_editable_drawings lib C1) C1;
                                      C3 = snd (clipboard_paste_strokes lib db target_drawing
                                                  paste_on_back C2);
                                      C4 = WM_event_add_notifier [NC_GEOM, ND_DATA] GreasePencilID
                                             (DEG_id_tag_update GreasePencilID
                                                [ID_RECALC_GEOMETRY] C3)
                                  in (OPERATOR_FINISHED,
                                      if inserted_keyframe
                                      then WM_event_add_notifier [NC_GPENCIL, NA_EDITED] NullRef C4
                                      else C4)))))))"

section \<open>Grease pencil editing: registration of the operator types\<close>

text \<open>
  A \<^verbatim>\<open>wmOperatorType\<close> as the functions \<^verbatim>\<open>GREASE_PENCIL_OT_*\<close> fill it: the
  identifiers, the callbacks by name, and the flags. The RNA properties that the
  functions define are left out. \<^verbatim>\<open>WM_operatortype_append\<close> (declared in
  \<^verbatim>\<open>WM_api.hh\<close>) runs the function on a fresh operator type and adds the result to
  the registry of the window manager.
\<close>

datatype operator_flag = OPTYPE_REGISTER | OPTYPE_UNDO

record wmOperatorType =
  ot_name :: string
  idname :: string
  description :: string
  exec :: "string option"
  invoke :: "string option"
  poll :: "string option"
  flag :: "operator_flag list"

definition blank_operator_type :: wmOperatorType where
  "blank_operator_type =
     \<lparr>ot_name = [], idname = [], description = [], exec = None, invoke = None, poll = None,
      flag = []\<rparr>"

definition WM_operatortype_append ::
  "(wmOperatorType \<Rightarrow> wmOperatorType) \<Rightarrow> wmOperatorType list \<Rightarrow> wmOperatorType list" where
  "WM_operatortype_append opfunc registry = registry @ [opfunc blank_operator_type]"

definition GREASE_PENCIL_OT_stroke_smooth :: "wmOperatorType \<Rightarrow> wmOperatorType" where
  "GREASE_PENCIL_OT_stroke_smooth ot =
     ot\<lparr>ot_name := ''Smooth Stroke'',
        idname := ''GREASE_PENCIL_OT_stroke_smooth'',
        description := ''Smooth selected strokes'',
        exec := Some ''grease_pencil_stroke_smooth_exec'',
        poll := Some ''editable_grease_pencil_poll'',
        flag := [OPTYPE_REGISTER, OPTYPE_UNDO]\<rparr>"

definition GREASE_PENCIL_OT_stroke_simplify :: "wmOperatorType \<Rightarrow> wmOperatorType" where
  "GREASE_PENCIL_OT_stroke_simplify ot =
     ot\<lparr>ot_name := ''Simplify Stroke'',
        idname := ''GREASE_PENCIL_OT_stroke_simplify'',
        description := ''Simplify selected strokes'',
        exec := Some ''grease_pencil_stroke_simplify_exec'',
        poll := Some ''editable_grease_pencil_point_selection_poll'',
        flag := [OPTYPE_REGISTER, OPTYPE_UNDO]\<rparr>"

definition GREASE_PENCIL_OT_delete :: "wmOperatorType \<Rightarrow> wmOperatorType" where
  "GREASE_PENCIL_OT_delete ot =
     ot\<lparr>ot_name := ''Delete'',
        idname := ''GREASE_PENCIL_OT_delete'',
        description := ''Delete selected strokes or points'',
        exec := Some ''grease_pencil_delete_exec'',
        poll := Some ''editable_grease_pencil_poll'',
        flag := [OPTYPE_REGISTER, OPTYPE_UNDO]\<rparr>"

definition GREASE_PENCIL_OT_dissolve :: "wmOperatorType \<Rightarrow> wmOperatorType" where
  "GREASE_PENCIL_OT_dissolve ot =
     ot\<lparr>ot_name := ''Dissolve'',
        idname := ''GREASE_PENCIL_OT_dissolve'',
        description := ''Delete selected points without splitting strokes'',
        invoke := Some ''WM_menu_invoke'',
        exec := Some ''grease_pencil_dissolve_exec'',
        poll := Some ''editable_grease_pencil_point_selection_poll'',
        flag := [OPTYPE_REGISTER, OPTYPE_UNDO]\<rparr>"

definition GREASE_PENCIL_OT_delete_frame :: "wmOperatorType \<Rightarrow> wmOperatorType" where
  "GREASE_PENCIL_OT_delete_frame ot =
     ot\<lparr>ot_name := ''Delete Frame'',
        idname := ''GREASE_PENCIL_OT_delete_frame'',
        description := ''Delete Grease Pencil Frame(s)'',
        invoke := Some ''WM_menu_invoke'',
        exec := Some ''grease_pencil_delete_frame_exec'',
        poll := Some ''editable_grease_pencil_poll'',
        flag := [OPTYPE_REGISTER, OPTYPE_UNDO]\<rparr>"

definition GREASE_PENCIL_OT_stroke_material_set :: "wmOperatorType \<Rightarrow> wmOperatorType" where
  "GREASE_PENCIL_OT_stroke_material_set ot =
     ot\<lparr>ot_name := ''Assign Material'',
        idname := ''GREASE_PENCIL_OT_stroke_material_set'',
        description := ''Assign the active material slot to the selected strokes'',
        exec := Some ''grease_pencil_stroke_material_set_exec'',
        poll := Some ''editable_grease_pencil_poll'',
        flag := [OPTYPE_REGISTER, OPTYPE_UNDO]\<rparr>"

definition GREASE_PENCIL_OT_cyclical_set :: "wmOperatorType \<Rightarrow> wmOperatorType" where
  "GREASE_PENCIL_OT_cyclical_set ot =
     ot\<lparr>ot_name := ''Set Cyclical State'',
        idname := ''GREASE_PENCIL_OT_cyclical_set'',
        description := ''Close or open the selected stroke adding a segment from last to first point'',
        invoke := Some ''WM_menu_invoke'',
        exec := Some ''grease_pencil_cyclical_set_exec'',
        poll := Some ''editable_grease_pencil_poll'',
        flag := [OPTYPE_REGISTER, OPTYPE_UNDO]\<rparr>"

definition GREASE_PENCIL_OT_set_active_material :: "wmOperatorType \<Rightarrow> wmOperatorType" where
  "GREASE_PENCIL_OT_set_active_material ot =
     ot\<lparr>ot_name := ''Set Active Material'',
        idname := ''GREASE_PENCIL_OT_set_active_material'',
        description := ''Set the selected stroke material as the active material'',
        exec := Some ''grease_pencil_set_active_material_exec'',
        poll := Some ''editable_grease_pencil_poll'',
        flag := [OPTYPE_REGISTER, OPTYPE_UNDO]\<rparr>"

definition GREASE_PENCIL_OT_set_uniform_thickness :: "wmOperatorType \<Rightarrow> wmOperatorType" where
  "GREASE_PENCIL_OT_set_uniform_thickness ot =
     ot\<lparr>ot_name := ''Set Uniform Thickness'',
        idname := ''GREASE_PENCIL_OT_set_uniform_thickness'',
        description := ''Set all stroke points to same thickness'',
        exec := Some ''grease_pencil_set_uniform_thickness_exec'',
        poll := Some ''editable_grease_pencil_poll'',
        flag := [OPTYPE_REGISTER, OPTYPE_UNDO]\<rparr>"

definition GREASE_PENCIL_OT_set_uniform_opacity :: "wmOperatorType \<Rightarrow> wmOperatorType" where
  "GREASE_PENCIL_OT_set_uniform_opacity ot =
     ot\<lparr>ot_name := ''Set Uniform Opacity'',
        idname := ''GREASE_PENCIL_OT_set_uniform_opacity'',
        description := ''Set all stroke points to same opacity'',
        exec := Some ''grease_pencil_set_uniform_opacity_exec'',
        poll := Some ''editable_grease_pencil_poll'',
        flag := [OPTYPE_REGISTER, OPTYPE_UNDO]\<rparr>"

definition GREASE_PENCIL_OT_stroke_switch_direction :: "wmOperatorType \<Rightarrow> wmOperatorType" where
  "GREASE_PENCIL_OT_stroke_switch_direction ot =
     ot\<lparr>ot_name := ''Switch Direction'',
        idname := ''GREASE_PENCIL_OT_stroke_switch_direction'',
        description := ''Change direction of the points of the selected strokes'',
        exec := Some ''grease_pencil_stroke_switch_direction_exec'',
        poll := Some ''editable_grease_pencil_poll'',
        flag := [OPTYPE_REGISTER, OPTYPE_UNDO]\<rparr>"

definition GREASE_PENCIL_OT_caps_set :: "wmOperatorType \<Rightarrow> wmOperatorType" where
  "GREASE_PENCIL_OT_caps_set ot =
     ot\<lparr>ot_name := ''Set Curve Caps'',
        idname := ''GREASE_PENCIL_OT_caps_set'',
        description := ''Change curve caps mode (rounded or flat)'',
        invoke := Some ''WM_menu_invoke'',
        exec := Some ''grease_pencil_caps_set_exec'',
        poll := Some ''editable_grease_pencil_poll'',
        flag := [OPTYPE_REGISTER, OPTYPE_UNDO]\<rparr>"

definition GREASE_PENCIL_OT_set_material :: "wmOperatorType \<Rightarrow> wmOperatorType" where
  "GREASE_PENCIL_OT_set_material ot =
     ot\<lparr>ot_name := ''Set Active Material'',
        idname := ''GREASE_PENCIL_OT_set_material'',
        description := ''Set active material'',
        exec := Some ''grease_pencil_set_material_exec'',
        poll := Some ''active_grease_pencil_poll'',
        flag := [OPTYPE_REGISTER, OPTYPE_UNDO]\<rparr>"

definition GREASE_PENCIL_OT_duplicate :: "wmOperatorType \<Rightarrow> wmOperatorType" where
  "GREASE_PENCIL_OT_duplicate ot =
     ot\<lparr>ot_name := ''Duplicate'',
        idname := ''GREASE_PENCIL_OT_duplicate'',
        description := ''Duplicate the selected points'',
        exec := Some ''grease_pencil_duplicate_exec'',
        poll := Some ''editable_grease_pencil_poll'',
        flag := [OPTYPE_REGISTER, OPTYPE_UNDO]\<rparr>"

definition GREASE_PENCIL_OT_clean_loose :: "wmOperatorType \<Rightarrow> wmOperatorType" where
  "GREASE_PENCIL_OT_clean_loose ot =
     ot\<lparr>ot_name := ''Clean Loose Points'',
        idname := ''GREASE_PENCIL_OT_clean_loose'',
        description := ''Remove loose points'',
        invoke := Some ''grease_pencil_clean_loose_invoke'',
        exec := Some ''grease_pencil_clean_loose_exec'',
        poll := Some ''active_grease_pencil_layer_poll'',
        flag := [OPTYPE_REGISTER, OPTYPE_UNDO]\<rparr>"

definition GREASE_PENCIL_OT_stroke_subdivide :: "wmOperatorType \<Rightarrow> wmOperatorType" where
  "GREASE_PENCIL_OT_stroke_subdivide ot =
     ot\<lparr>ot_name := ''Subdivide Stroke'',
        idname := ''GREASE_PENCIL_OT_stroke_subdivide'',
        description := ''Subdivide between continuous selected points of the stroke adding a point half way between them'',
        exec := Some ''gpencil_stroke_subdivide_exec'',
        poll := Some ''editable_grease_pencil_poll'',
        flag := [OPTYPE_REGISTER, OPTYPE_UNDO]\<rparr>"

definition GREASE_PENCIL_OT_stroke_reorder :: "wmOperatorType \<Rightarrow> wmOperatorType" where
  "GREASE_PENCIL_OT_stroke_reorder ot =
     ot\<lparr>ot_name := ''Reorder'',
        idname := ''GREASE_PENCIL_OT_reorder'',
        description := ''Change the display order of the selected strokes'',
        exec := Some ''grease_pencil_stroke_reorder_exec'',
        poll := Some ''editable_grease_pencil_poll'',
        flag := [OPTYPE_REGISTER, OPTYPE_UNDO]\<rparr>"

definition GREASE_PENCIL_OT_move_to_layer :: "wmOperatorType \<Rightarrow> wmOperatorType" where
  "GREASE_PENCIL_OT_move_to_layer ot =
     ot\<lparr>ot_name := ''Move to Layer'',
        idname := ''GREASE_PENCIL_OT_move_to_layer'',
        description := ''Move selected strokes to another layer'',
        invoke := Some ''grease_pencil_move_to_layer_invoke'',
        exec := Some ''grease_pencil_move_to_layer_exec'',
        poll := Some ''editable_grease_pencil_poll'',
        flag := [OPTYPE_REGISTER, OPTYPE_UNDO]\<rparr>"

definition GREASE_PENCIL_OT_separate :: "wmOperatorType \<Rightarrow> wmOperatorType" where
  "GREASE_PENCIL_OT_separate ot =
     ot\<lparr>ot_name := ''Separate'',
        idname := ''GREASE_PENCIL_OT_separate'',
        description := ''Separate the selected geometry into a new grease pencil object'',
        invoke := Some ''WM_menu_invoke'',
        exec := Some ''grease_pencil_separate_exec'',
        poll := Some ''editable_grease_pencil_poll'',
        flag := [OPTYPE_REGISTER, OPTYPE_UNDO]\<rparr>"

definition GREASE_PENCIL_OT_paste :: "wmOperatorType \<Rightarrow> wmOperatorType" where
  "GREASE_PENCIL_OT_paste ot =
     ot\<lparr>ot_name := ''Paste Strokes'',
        idname := ''GREASE_PENCIL_OT_paste'',
        description := ''Paste Grease Pencil points or strokes from the internal clipboard to the active layer'',
        exec := Some ''grease_pencil_paste_strokes_exec'',
        poll := Some ''grease_pencil_paste_strokes_poll'',
        flag := [OPTYPE_REGISTER, OPTYPE_UNDO]\<rparr>"

definition GREASE_PENCIL_OT_copy :: "wmOperatorType \<Rightarrow> wmOperatorType" where
  "GREASE_PENCIL_OT_copy ot =
     ot\<lparr>ot_name := ''Copy Strokes'',
        idname := ''GREASE_PENCIL_OT_copy'',
        description := ''Copy the selected Grease Pencil points or strokes to the internal clipboard'',
        exec := Some ''grease_pencil_copy_strokes_exec'',
        poll := Some ''editable_grease_pencil_poll'',
        flag := [OPTYPE_REGISTER]\<rparr>"

definition GREASE_PENCIL_OT_stroke_merge_by_distance :: "wmOperatorType \<Rightarrow> wmOperatorType" where
  "GREASE_PENCIL_OT_stroke_merge_by_distance ot =
     ot\<lparr>ot_name := ''Merge by Distance'',
        idname := ''GREASE_PENCIL_OT_stroke_merge_by_distance'',
        description := ''Merge points by distance'',
        exec := Some ''grease_pencil_stroke_merge_by_distance_exec'',
        poll := Some ''editable_grease_pencil_poll'',
        flag := [OPTYPE_REGISTER, OPTYPE_UNDO]\<rparr>"

definition GREASE_PENCIL_OT_extrude :: "wmOperatorType \<Rightarrow> wmOperatorType" where
  "GREASE_PENCIL_OT_extrude ot =
     ot\<lparr>ot_name := ''Extrude Stroke Points'',
        idname := ''GREASE_PENCIL_OT_extrude'',
        description := ''Extrude the selected points'',
        exec := Some ''grease_pencil_extrude_exec'',
        poll := Some ''editable_grease_pencil_poll'',
        flag := [OPTYPE_REGISTER, OPTYPE_UNDO]\<rparr>"

definition GREASE_PENCIL_OT_snap_to_grid :: "wmOperatorType \<Rightarrow> wmOperatorType" where
  "GREASE_PENCIL_OT_snap_to_grid ot =
     ot\<lparr>ot_name := ''Snap Selection to Grid'',
        idname := ''GREASE_PENCIL_OT_snap_to_grid'',
        description := ''Snap selected points to the nearest grid points'',
        exec := Some ''grease_pencil_snap_to_grid_exec'',
        poll := Some ''grease_pencil_snap_poll'',
        flag := [OPTYPE_REGISTER, OPTYPE_UNDO]\<rparr>"

definition GREASE_PENCIL_OT_snap_to_cursor :: "wmOperatorType \<Rightarrow> wmOperatorType" where
  "GREASE_PENCIL_OT_snap_to_cursor ot =
     ot\<lparr>ot_name := ''Snap Selection to Cursor'',
        idname := ''GREASE_PENCIL_OT_snap_to_cursor'',
        description := ''Snap selected points/strokes to the cursor'',
        exec := Some ''grease_pencil_snap_to_cursor_exec'',
        poll := Some ''grease_pencil_snap_poll'',
        flag := [OPTYPE_REGISTER, OPTYPE_UNDO]\<rparr>"

definition GREASE_PENCIL_OT_snap_cursor_to_selected :: "wmOperatorType \<Rightarrow> wmOperatorType" where
  "GREASE_PENCIL_OT_snap_cursor_to_selected ot =
     ot\<lparr>ot_name := ''Snap Cursor to Selected Points'',
        idname := ''GREASE_PENCIL_OT_snap_cursor_to_selected'',
        description := ''Snap cursor to center of selected points'',
        exec := Some ''grease_pencil_snap_cursor_to_sel_exec'',
        poll := Some ''grease_pencil_snap_poll'',
        flag := [OPTYPE_REGISTER, OPTYPE_UNDO]\<rparr>"

definition GREASE_PENCIL_OT_set_curve_type :: "wmOperatorType \<Rightarrow> wmOperatorType" where
  "GREASE_PENCIL_OT_set_curve_type ot =
     ot\<lparr>ot_name := ''Set Curve Type'',
        idname := ''GREASE_PENCIL_OT_set_curve_type'',
        description := ''Set type of selected curves'',
        invoke := Some ''WM_menu_invoke'',
        exec := Some ''grease_pencil_set_curve_type_exec'',
        poll := Some ''editable_grease_pencil_poll'',
        flag := [OPTYPE_REGISTER, OPTYPE_UNDO]\<rparr>"

text \<open>\<^verbatim>\<open>GREASE_PENCIL_OT_stroke_cutter\<close> is defined in another file of the editor; it
  is the parameter \<open>stroke_cutter\<close>.\<close>

definition ED_operatortypes_grease_pencil_edit ::
  "(wmOperatorType \<Rightarrow> wmOperatorType) \<Rightarrow> wmOperatorType list \<Rightarrow> wmOperatorType list" where
  "ED_operatortypes_grease_pencil_edit stroke_cutter registry =
     fold WM_operatortype_append
       [GREASE_PENCIL_OT_stroke_smooth,
        GREASE_PENCIL_OT_stroke_simplify,
        GREASE_PENCIL_OT_delete,
        GREASE_PENCIL_OT_dissolve,
        GREASE_PENCIL_OT_delete_frame,
        GREASE_PENCIL_OT_stroke_material_set,
        GREASE_PENCIL_OT_cyclical_set,
        GREASE_PENCIL_OT_set_active_material,
        GREASE_PENCIL_OT_stroke_switch_direction,
        GREASE_PENCIL_OT_set_uniform_thickness,
        GREASE_PENCIL_OT_set_uniform_opacity,
        GREASE_PENCIL_OT_caps_set,
        GREASE_PENCIL_OT_duplicate,
        GREASE_PENCIL_OT_set_material,
        GREASE_PENCIL_OT_clean_loose,
        GREASE_PENCIL_OT_separate,
        GREASE_PENCIL_OT_stroke_subdivide,
        GREASE_PENCIL_OT_stroke_reorder,
        GREASE_PENCIL_OT_move_to_layer,
        GREASE_PENCIL_OT_copy,
        GREASE_PENCIL_OT_paste,
        GREASE_PENCIL_OT_stroke_merge_by_distance,
        stroke_cutter,
        GREASE_PENCIL_OT_extrude,
        GREASE_PENCIL_OT_snap_to_grid,
        GREASE_PENCIL_OT_snap_to_cursor,
        GREASE_PENCIL_OT_snap_cursor_to_selected,
        GREASE_PENCIL_OT_set_curve_type] registry"

text \<open>An operator type with the given identifier and exec callback is in the
  registry.\<close>

definition registered :: "wmOperatorType list \<Rightarrow> string \<Rightarrow> string \<Rightarrow> bool" where
  "registered registry name callback =
     list_ex (\<lambda>ot. idname ot = name \<and> exec ot = Some callback) registry"

section \<open>Theorems\<close>

text \<open>
  C1. For every create-info whose buffer and image are registered with the tracker,
  \<open>build_links\<close> adds exactly one input link and one output link: the source buffer
  with its current stamp as a transfer read, and the destination image with its stamp
  as a transfer write in layout \<open>TRANSFER_DST_OPTIMAL\<close> with the aspect mask of
  \<open>region.imageSubresource\<close>. The image's stored stamp goes up by one; the buffer's
  and every other resource's stamp stay as they were.
\<close>

theorem build_links_declares_read_and_write:
  assumes "buffer_resources tracker (src_buffer ci) = Some hb"
    and "image_resources tracker (dst_image ci) = Some hi"
    and "resources tracker hb = Some sb"
    and "resources tracker hi = Some si"
    and "hb \<noteq> hi"
  shows "\<exists>tracker' links'.
      build_links tracker links ci = Some (tracker', links')
    \<and> inputs links' = inputs links @
         [\<lparr>resource = \<lparr>handle = hb, stamp = sb\<rparr>,
           vk_access_flags = VK_ACCESS_TRANSFER_READ_BIT,
           vk_image_layout = VK_IMAGE_LAYOUT_UNDEFINED,
           vk_image_aspect = VK_IMAGE_ASPECT_NONE\<rparr>]
    \<and> outputs links' = outputs links @
         [\<lparr>resource = \<lparr>handle = hi, stamp = si\<rparr>,
           vk_access_flags = VK_ACCESS_TRANSFER_WRITE_BIT,
           vk_image_layout = VK_IMAGE_LAYOUT_TRANSFER_DST_OPTIMAL,
           vk_image_aspect = aspectMask (imageSubresource (region ci))\<rparr>]
    \<and> length (inputs links') + length (outputs links')
        = length (inputs links) + length (outputs links) + 2
    \<and> resources tracker' hi = Some (si + 1)
    \<and> resources tracker' hb = Some sb
    \<and> (\<forall>h. h \<noteq> hi \<longrightarrow> resources tracker' h = resources tracker h)
    \<and> buffer_resources tracker' = buffer_resources tracker
    \<and> image_resources tracker' = image_resources tracker"
  using assms
  by (simp add: build_links_def get_buffer_def get_image_and_increase_stamp_def get_stamp_def)

theorem build_links_declares_read_and_write_witness:
  "\<exists>tracker' links'.
      build_links
        \<lparr>buffer_resources = [7 \<mapsto> 0], image_resources = [9 \<mapsto> 1],
         resources = [0 \<mapsto> 4, 1 \<mapsto> 5]\<rparr>
        \<lparr>inputs = [], outputs = []\<rparr>
        \<lparr>src_buffer = 7, dst_image = 9,
         region = \<lparr>bufferOffset = 0, bufferRowLength = 0, bufferImageHeight = 0,
           imageSubresource = \<lparr>aspectMask = 1, mipLevel = 0, baseArrayLayer = 0, layerCount = 1\<rparr>,
           imageOffset = (0, 0, 0), imageExtent = (16, 16, 1)\<rparr>\<rparr>
      = Some (tracker', links')
    \<and> inputs links' =
         [\<lparr>resource = \<lparr>handle = 0, stamp = 4\<rparr>,
           vk_access_flags = VK_ACCESS_TRANSFER_READ_BIT,
           vk_image_layout = VK_IMAGE_LAYOUT_UNDEFINED,
           vk_image_aspect = VK_IMAGE_ASPECT_NONE\<rparr>]
    \<and> outputs links' =
         [\<lparr>resource = \<lparr>handle = 1, stamp = 5\<rparr>,
           vk_access_flags = VK_ACCESS_TRANSFER_WRITE_BIT,
           vk_image_layout = VK_IMAGE_LAYOUT_TRANSFER_DST_OPTIMAL,
           vk_image_aspect = 1\<rparr>]
    \<and> resources tracker' 1 = Some 6
    \<and> resources tracker' 0 = Some 4"
  using build_links_declares_read_and_write
    [of "\<lparr>buffer_resources = [7 \<mapsto> 0], image_resources = [9 \<mapsto> 1],
          resources = [0 \<mapsto> 4, 1 \<mapsto> 5]\<rparr>"
        "\<lparr>src_buffer = 7, dst_image = 9,
          region = \<lparr>bufferOffset = 0, bufferRowLength = 0, bufferImageHeight = 0,
            imageSubresource = \<lparr>aspectMask = 1, mipLevel = 0, baseArrayLayer = 0, layerCount = 1\<rparr>,
            imageOffset = (0, 0, 0), imageExtent = (16, 16, 1)\<rparr>\<rparr>"
        0 1 4 5 "\<lparr>inputs = [], outputs = []\<rparr>"]
  by auto

text \<open>
  C2. The layout of the output link that \<open>build_links\<close> declares for the destination
  image is the layout \<open>build_commands\<close> passes to \<open>copy_buffer_to_image\<close>, namely
  \<open>TRANSFER_DST_OPTIMAL\<close>, whatever the node data; and \<open>build_commands\<close> appends
  exactly one command to the command buffer, a copy with region count one whose only
  region is the node's region.
\<close>

theorem build_commands_layout_matches_links:
  assumes "build_links tracker links ci = Some (tracker', links')"
  shows "\<exists>cmd.
      build_commands cb (set_node_data ci) = cb @ [cmd]
    \<and> cmd = CopyBufferToImage (src_buffer ci) (dst_image ci)
              VK_IMAGE_LAYOUT_TRANSFER_DST_OPTIMAL 1 [region ci]
    \<and> command_layout cmd = vk_image_layout (last (outputs links'))
    \<and> command_region_count cmd = 1
    \<and> command_regions cmd = [region ci]"
  using assms
  by (auto simp: build_links_def build_commands_def copy_buffer_to_image_def set_node_data_def
      split: option.splits)

theorem build_commands_layout_matches_links_witness:
  "\<exists>cmd.
      build_commands []
        (set_node_data
          \<lparr>src_buffer = 7, dst_image = 9,
           region = \<lparr>bufferOffset = 0, bufferRowLength = 0, bufferImageHeight = 0,
             imageSubresource = \<lparr>aspectMask = 1, mipLevel = 0, baseArrayLayer = 0, layerCount = 1\<rparr>,
             imageOffset = (0, 0, 0), imageExtent = (16, 16, 1)\<rparr>\<rparr>) = [cmd]
    \<and> command_layout cmd = VK_IMAGE_LAYOUT_TRANSFER_DST_OPTIMAL
    \<and> command_region_count cmd = 1"
proof -
  let ?tracker = "\<lparr>buffer_resources = [7 \<mapsto> 0], image_resources = [9 \<mapsto> 1],
          resources = [0 \<mapsto> 4, 1 \<mapsto> 5]\<rparr>"
  let ?ci = "\<lparr>src_buffer = 7, dst_image = 9,
           region = \<lparr>bufferOffset = 0, bufferRowLength = 0, bufferImageHeight = 0,
             imageSubresource = \<lparr>aspectMask = 1, mipLevel = 0, baseArrayLayer = 0, layerCount = 1\<rparr>,
             imageOffset = (0, 0, 0), imageExtent = (16, 16, 1)\<rparr>\<rparr>"
  have "\<exists>t l. build_links ?tracker \<lparr>inputs = [], outputs = []\<rparr> ?ci = Some (t, l)"
    by (simp add: build_links_def get_buffer_def get_image_and_increase_stamp_def get_stamp_def)
  then obtain t l where h: "build_links ?tracker \<lparr>inputs = [], outputs = []\<rparr> ?ci = Some (t, l)"
    by blast
  from build_commands_layout_matches_links [OF h, of "[]"] show ?thesis
    by auto
qed

text \<open>
  C3. \<open>exporter_main\<close> creates an ASCII file buffer when \<open>ascii_format\<close> is set and a
  binary one otherwise, for the path of the parameters, and the buffer receives, in
  this order, the header, the vertices, the faces, the edges and the closing of the
  file, all for the mesh data that \<open>load_plydata\<close> returned.
\<close>

theorem exporter_main_buffer_and_order:
  "buffer_class (exporter_main load_plydata depsgraph export_params)
     = (if ascii_format export_params then FileBufferAscii else FileBufferBinary)
   \<and> buffer_path (exporter_main load_plydata depsgraph export_params) = filepath export_params
   \<and> written (exporter_main load_plydata depsgraph export_params)
     = [WriteHeader (load_plydata depsgraph export_params) (ascii_format export_params),
        WriteVertices (load_plydata depsgraph export_params),
        WriteFaces (load_plydata depsgraph export_params),
        WriteEdges (load_plydata depsgraph export_params),
        CloseFile]"
  by (simp add: exporter_main_def make_buffer_def write_header_def write_vertices_def
      write_faces_def write_edges_def close_file_def Let_def)

subsection \<open>Reordering\<close>

lemma swap_at_perm:
  assumes "swap_at xs i j = Some ys"
  shows "mset ys = mset xs \<and> length ys = length xs"
proof -
  from assms have b: "nat i < length xs" "nat j < length xs"
    and ys: "ys = xs[nat i := xs ! nat j, nat j := xs ! nat i]"
    by (auto simp: swap_at_def split: if_splits)
  from b show ?thesis unfolding ys by (simp add: mset_swap)
qed

lemma swap_at_in_range:
  "0 \<le> i \<Longrightarrow> i < int (length xs) \<Longrightarrow> 0 \<le> j \<Longrightarrow> j < int (length xs) \<Longrightarrow>
   \<exists>ys. swap_at xs i j = Some ys"
  by (simp add: swap_at_def)

lemma reorder_down_perm:
  assumes "\<forall>(c, p) \<in> set ps. p \<le> c \<and> c < length indices"
  shows "\<exists>r. reorder_down ps indices = Some r \<and> mset r = mset indices \<and> length r = length indices"
  using assms
proof (induction ps arbitrary: indices)
  case Nil
  then show ?case by simp
next
  case (Cons cp ps)
  obtain c p where cp: "cp = (c, p)" by (cases cp)
  from Cons.prems cp have pc: "p \<le> c" "c < length indices"
    and rest: "\<forall>(c, p) \<in> set ps. p \<le> c \<and> c < length indices" by auto
  show ?case
  proof (cases "c = p")
    case True
    with Cons.IH [OF rest] cp show ?thesis by simp
  next
    case False
    with pc have "0 < c" by simp
    with pc obtain ys where ys: "swap_at indices (int c) (int c - 1) = Some ys"
      using swap_at_in_range [of "int c" indices "int c - 1"] by auto
    from swap_at_perm [OF ys] have e: "mset ys = mset indices" "length ys = length indices"
      by simp_all
    from rest e have "\<forall>(c, p) \<in> set ps. p \<le> c \<and> c < length ys" by simp
    from Cons.IH [OF this] e ys cp False show ?thesis by simp
  qed
qed

lemma strict_sorted_nth_diff:
  "sorted_wrt (<) (m :: nat list) \<Longrightarrow> a \<le> b \<Longrightarrow> b < length m \<Longrightarrow> m ! a + (b - a) \<le> m ! b"
proof (induction b)
  case 0
  then show ?case by simp
next
  case (Suc b)
  show ?case
  proof (cases "a = Suc b")
    case True
    then show ?thesis by simp
  next
    case False
    with Suc.prems have ab: "a \<le> b" by simp
    from Suc.prems have "m ! b < m ! Suc b"
      by (simp add: sorted_wrt_nth_less)
    moreover from Suc.IH [OF Suc.prems(1) ab] Suc.prems have "m ! a + (b - a) \<le> m ! b" by simp
    ultimately show ?thesis using ab by simp
  qed
qed

lemma strict_sorted_nth_ge:
  "sorted_wrt (<) (m :: nat list) \<Longrightarrow> p < length m \<Longrightarrow> p \<le> m ! p"
  using strict_sorted_nth_diff [of m 0 p] by simp

lemma mask_with_positions_le:
  assumes "sorted_wrt (<) m" "\<forall>i \<in> set m. i < n"
  shows "\<forall>(c, p) \<in> set (mask_with_positions m). p \<le> c \<and> c < n"
proof -
  { fix c p assume "(c, p) \<in> set (zip m [0 ..< length m])"
    then obtain k where k: "k < length m" "c = m ! k" "p = k"
      by (auto simp: set_zip)
    with assms strict_sorted_nth_ge [of m k] have "p \<le> c \<and> c < n" by auto }
  then show ?thesis by (auto simp: mask_with_positions_def)
qed

lemma reorder_up_perm:
  assumes "sorted_wrt (<) m" "\<forall>i \<in> set m. i < n" "length indices = n"
    and "\<forall>i \<in> set is. i < length m"
  shows "\<exists>r. reorder_up \<lparr>range_start = 0, range_size = n\<rparr> (map int m) is indices = Some r
            \<and> mset r = mset indices \<and> length r = length indices"
  using assms(3,4)
proof (induction "is" arbitrary: indices)
  case Nil
  then show ?case by simp
next
  case (Cons i rest)
  let ?k = "length m"
  let ?pos = "?k - 1 - i"
  from Cons.prems have ik: "i < ?k" by simp
  then have pos: "?pos < ?k" by simp
  from strict_sorted_nth_diff [OF assms(1), of ?pos "?k - 1"] ik
  have "m ! ?pos + i \<le> m ! (?k - 1)" by simp
  moreover from assms(2) ik have "m ! (?k - 1) < n" by simp
  ultimately have bound: "m ! ?pos + i < n" by simp
  have sel: "map int m ! ?pos = int (m ! ?pos)" using pos by simp
  have last: "range_last \<lparr>range_start = 0, range_size = n\<rparr> i = int n - 1 - int i"
    by (simp add: range_last_def)
  from Cons.prems have rest: "\<forall>i \<in> set rest. i < length m" by simp
  show ?case
  proof (cases "int (m ! ?pos) = int n - 1 - int i")
    case True
    with Cons.IH [OF Cons.prems(1) rest] sel last show ?thesis by (simp add: Let_def)
  next
    case False
    with bound have "m ! ?pos + 1 < n" by linarith
    with Cons.prems(1) obtain ys where ys: "swap_at indices (int (m ! ?pos)) (int (m ! ?pos) + 1) = Some ys"
      using swap_at_in_range [of "int (m ! ?pos)" indices "int (m ! ?pos) + 1"] by auto
    from swap_at_perm [OF ys] have e: "mset ys = mset indices" "length ys = length indices"
      by simp_all
    with Cons.prems(1) have "length ys = n" by simp
    from Cons.IH [OF this rest] e ys sel last False show ?thesis by (simp add: Let_def)
  qed
qed

lemma mset_filter_partition:
  "mset (filter P xs) + mset (filter (\<lambda>x. \<not> P x) xs) = mset xs"
  by (induction xs) auto

lemma mask_complement_mset:
  assumes "sorted_wrt (<) m" "\<forall>i \<in> set m. i < n"
  shows "mset m + mset (mask_complement m \<lparr>range_start = 0, range_size = n\<rparr>) = mset [0 ..< n]"
proof -
  have d: "distinct m" using assms(1) strict_sorted_iff by blast
  have e: "set m = set (filter (\<lambda>i. i \<in> set m) [0 ..< n])" using assms(2) by auto
  have d': "distinct (filter (\<lambda>i. i \<in> set m) [0 ..< n])" by simp
  from d d' e have "mset m = mset (filter (\<lambda>i. i \<in> set m) [0 ..< n])"
    using set_eq_iff_mset_eq_distinct by blast
  moreover have "mask_complement m \<lparr>range_start = 0, range_size = n\<rparr>
      = filter (\<lambda>i. \<not> i \<in> set m) [0 ..< n]"
    by (simp add: mask_complement_def range_indices_def)
  ultimately show ?thesis
    by (simp only: mset_filter_partition)
qed

text \<open>
  C8. For the universe \<open>[0, n)\<close>, every index mask inside the universe and each of the
  four directions, \<open>get_reordered_indices\<close> returns an array of length \<open>n\<close> that holds
  every index \<open>0, \<dots>, n - 1\<close> exactly once, whatever the array held when it was
  allocated.
\<close>

theorem get_reordered_indices_perm:
  assumes "is_index_mask selected" "\<forall>i \<in> set selected. i < n"
  shows "\<exists>r. get_reordered_indices garbage \<lparr>range_start = 0, range_size = n\<rparr> selected direction = Some r
           \<and> length r = n \<and> mset r = mset (map int [0 ..< n])"
proof -
  let ?U = "\<lparr>range_start = 0, range_size = n\<rparr>"
  let ?c = "mask_complement selected ?U"
  from assms have s: "sorted_wrt (<) selected" by (simp add: is_index_mask_def)
  have ms: "mset selected + mset ?c = mset [0 ..< n]"
    by (rule mask_complement_mset [OF s assms(2)])
  then have "size (mset selected + mset ?c) = n" by simp
  then have len: "length selected + length ?c = n" by simp
  have msi: "mset (map int selected) + mset (map int ?c) = mset (map int [0 ..< n])"
    using ms by (metis image_mset_union mset_map)
  show ?thesis
  proof (cases direction)
    case TOP
    with len msi show ?thesis
      by (simp add: get_reordered_indices_def to_indices_def take_front_def take_back_def
          Let_def add.commute)
  next
    case BOTTOM
    with len msi show ?thesis
      by (simp add: get_reordered_indices_def to_indices_def take_front_def take_back_def
          Let_def add.commute)
  next
    case DOWN
    have "\<forall>(c, p) \<in> set (mask_with_positions selected).
            p \<le> c \<and> c < length (map int [0 ..< n])"
      using mask_with_positions_le [OF s assms(2)] by simp
    from reorder_down_perm [OF this] DOWN show ?thesis
      by (auto simp: get_reordered_indices_def fill_index_range_def Let_def)
  next
    case UP
    from reorder_up_perm [OF s assms(2), of "map int [0 ..< n]" "[0 ..< length selected]"] UP
    show ?thesis
      by (auto simp: get_reordered_indices_def fill_index_range_def Let_def)
  qed
qed

theorem get_reordered_indices_perm_witness:
  "\<exists>r. get_reordered_indices (\<lambda>_. - 7) \<lparr>range_start = 0, range_size = 10\<rparr> [2, 4, 5] UP = Some r
       \<and> length r = 10 \<and> mset r = mset (map int [0 ..< 10])"
  using get_reordered_indices_perm [of "[2, 4, 5]" 10 "\<lambda>_. - 7" UP]
  by (simp add: is_index_mask_def)

subsection \<open>Gathering attributes\<close>

lemma gather_attributes_map_of:
  assumes "distinct (map fst src)" "gather_attributes src dmn skip idx dst = Some r"
  shows "map_of r name =
     (case map_of src name of
        Some a \<Rightarrow> if attr_domain a = dmn \<and> name \<notin> set skip
                  then Some (a\<lparr>attr_data := map (\<lambda>i. attr_data a ! i) idx\<rparr>)
                  else map_of dst name
      | None \<Rightarrow> map_of dst name)"
  using assms
proof (induction src arbitrary: dst)
  case Nil
  then show ?case by simp
next
  case (Cons na src)
  obtain n a where na: "na = (n, a)" by (cases na)
  from Cons.prems na have d: "distinct (map fst src)" and nn: "n \<notin> fst ` set src" by auto
  from nn have none: "map_of src n = None" by (simp add: map_of_eq_None_iff)
  show ?case
  proof (cases "attr_domain a = dmn \<and> n \<notin> set skip")
    case True
    with Cons.prems na obtain vs where vs: "gather_values (attr_data a) idx = Some vs"
      and r: "gather_attributes src dmn skip idx (AList.update n (a\<lparr>attr_data := vs\<rparr>) dst) = Some r"
      by (auto split: option.splits)
    from vs have vs': "vs = map (\<lambda>i. attr_data a ! i) idx"
      by (auto simp: gather_values_def split: if_splits)
    from Cons.IH [OF d r] none True na vs' show ?thesis
      by (auto simp: update_conv' split: option.splits)
  next
    case False
    with Cons.prems na have r: "gather_attributes src dmn skip idx dst = Some r"
      by (auto split: option.splits)
    from Cons.IH [OF d r] none False na show ?thesis
      by (auto split: option.splits)
  qed
qed

lemma gather_attributes_Some:
  assumes "\<forall>(n, a) \<in> set src. attr_domain a = dmn \<longrightarrow> (\<forall>i \<in> set idx. i < length (attr_data a))"
  shows "\<exists>r. gather_attributes src dmn skip idx dst = Some r"
  using assms
proof (induction src arbitrary: dst)
  case Nil
  then show ?case by simp
next
  case (Cons na src)
  obtain n a where na: "na = (n, a)" by (cases na)
  from Cons.prems have rest:
    "\<forall>(n, a) \<in> set src. attr_domain a = dmn \<longrightarrow> (\<forall>i \<in> set idx. i < length (attr_data a))"
    by simp
  from Cons.prems na have "attr_domain a = dmn \<Longrightarrow> gather_values (attr_data a) idx
      = Some (map (\<lambda>i. attr_data a ! i) idx)"
    by (auto simp: gather_values_def list_all_iff)
  with Cons.IH [OF rest] na show ?case by auto
qed

subsection \<open>Extrude\<close>






lemma wf_attr_length:
  assumes "curves_wf g" "map_of (attributes g) name = Some a"
  shows "length (attr_data a) = domain_size g (attr_domain a)"
    and "attr_domain a = Point \<or> attr_domain a = Curve"
proof -
  from assms(2) have "(name, a) \<in> set (attributes g)" by (rule map_of_SomeD)
  with assms(1) show "length (attr_data a) = domain_size g (attr_domain a)"
    and "attr_domain a = Point \<or> attr_domain a = Curve"
    by (auto simp: curves_wf_def list_all_iff)
qed

lemma wf_attr_length_set:
  assumes "curves_wf g" "(name, a) \<in> set (attributes g)"
  shows "length (attr_data a) = domain_size g (attr_domain a)"
  using assms by (auto simp: curves_wf_def list_all_iff)

lemma wf_offsets_le:
  assumes "curves_wf g" "i \<le> j" "j \<le> curve_num g" "0 < curve_num g"
  shows "curve_offsets g ! i \<le> curve_offsets g ! j"
proof -
  from assms(1,4) have s: "sorted (curve_offsets g)"
    and l: "length (curve_offsets g) = curve_num g + 1"
    by (simp_all add: curves_wf_def)
  from s assms(2,3) l show ?thesis by (simp add: sorted_iff_nth_mono)
qed


lemma wf_cyclic_size:
  assumes "curves_wf g"
  shows "varray_size (cyclic g) = curve_num g"
proof (cases "map_of (attributes g) ''cyclic''")
  case None
  then show ?thesis by (simp add: cyclic_def lookup_or_default_bool_def domain_size_def)
next
  case (Some a)
  from wf_attr_length(1) [OF assms Some] Some show ?thesis
    by (simp add: cyclic_def lookup_or_default_bool_def domain_size_def)
qed

lemma varray_get_Some: "i < varray_size v \<Longrightarrow> \<exists>b. varray_get v i = Some b"
  by (cases v) simp_all






subsection \<open>Delete: removing points and splitting curves\<close>

lemma find_ranges_from_concat:
  assumes "case run of None \<Rightarrow> True | Some s \<Rightarrow> s \<le> i"
  shows "concat (map range_indices (find_ranges_from xs v i run)) =
           (case run of None \<Rightarrow> [] | Some s \<Rightarrow> [s ..< i]) @ positions_from xs v i"
  using assms
proof (induction xs arbitrary: i run)
  case Nil
  then show ?case by (cases run) (simp_all add: range_indices_def)
next
  case (Cons x xs)
  show ?case
  proof (cases run)
    case None
    show ?thesis
    proof (cases "x = v")
      case True
      have "case Some i of None \<Rightarrow> True | Some s \<Rightarrow> s \<le> i + 1" by simp
      from Cons.IH [OF this] None True show ?thesis by simp
    next
      case False
      have "case None :: nat option of None \<Rightarrow> True | Some s \<Rightarrow> s \<le> i + 1" by simp
      from Cons.IH [OF this] None False show ?thesis by simp
    qed
  next
    case (Some s)
    with Cons.prems have si: "s \<le> i" by simp
    show ?thesis
    proof (cases "x = v")
      case True
      from si have "case Some s of None \<Rightarrow> True | Some s \<Rightarrow> s \<le> i + 1" by simp
      from Cons.IH [OF this] Some True si show ?thesis by simp
    next
      case False
      have "case None :: nat option of None \<Rightarrow> True | Some s \<Rightarrow> s \<le> i + 1" by simp
      from Cons.IH [OF this] Some False si show ?thesis by (simp add: range_indices_def)
    qed
  qed
qed

lemma find_all_ranges_concat:
  "concat (map range_indices (find_all_ranges xs v)) = positions_from xs v 0"
  using find_ranges_from_concat [where run = None and i = 0 and xs = xs and v = v]
  by (simp add: find_all_ranges_def)

lemma positions_from_shift:
  "map (\<lambda>k. k + n) (positions_from xs v i) = positions_from xs v (i + n)"
  by (induction xs arbitrary: i) simp_all

lemma positions_from_append:
  "positions_from (xs @ ys) v i = positions_from xs v i @ positions_from ys v (i + length xs)"
  by (induction xs arbitrary: i) simp_all

lemma positions_from_bound:
  "k \<in> set (positions_from xs v i) \<Longrightarrow> i \<le> k \<and> k < i + length xs"
proof (induction xs arbitrary: i)
  case Nil
  then show ?case by simp
next
  case (Cons x xs)
  then show ?case by (fastforce split: if_splits)
qed

lemma positions_from_map_upt:
  "positions_from (map f [i ..< i + n]) False i = filter (\<lambda>k. \<not> f k) [i ..< i + n]"
proof (induction n arbitrary: i)
  case 0
  then show ?case by simp
next
  case (Suc n)
  have "[i ..< i + Suc n] = i # [Suc i ..< Suc i + n]"
    using upt_conv_Cons [of i "i + Suc n"] by simp
  with Suc [of "Suc i"] show ?case by simp
qed

lemma write_points_written:
  assumes "written_prefix st W" "length W + length ps \<le> length (dst_to_src_point st)"
  shows "\<exists>st'. write_points ps st = Some st' \<and> written_prefix st' (W @ ps)
           \<and> length (dst_to_src_point st') = length (dst_to_src_point st)
           \<and> dst_counts st' = dst_counts st
           \<and> dst_to_src_curve st' = dst_to_src_curve st
           \<and> dst_cyclic st' = dst_cyclic st"
  using assms
proof (induction ps arbitrary: st W)
  case Nil
  then show ?case by simp
next
  case (Cons p ps)
  let ?arr = "dst_to_src_point st"
  from Cons.prems have c: "curr_dst_point_id st = length W" and lt: "length W < length ?arr"
    and tk: "take (length W) ?arr = W"
    by (simp_all add: written_prefix_def)
  let ?st1 = "st\<lparr>dst_to_src_point := ?arr[curr_dst_point_id st := p],
                 curr_dst_point_id := curr_dst_point_id st + 1\<rparr>"
  have "take (Suc (length W)) (?arr[length W := p]) = take (length W) (?arr[length W := p]) @ [p]"
    using lt by (simp add: take_Suc_conv_app_nth)
  with tk have "take (Suc (length W)) (?arr[length W := p]) = W @ [p]" by simp
  with c lt have w1: "written_prefix ?st1 (W @ [p])" by (simp add: written_prefix_def)
  from Cons.prems(2) have l1: "length (W @ [p]) + length ps \<le> length (dst_to_src_point ?st1)"
    by simp
  from Cons.IH [OF w1 l1] c lt show ?case by simp
qed

lemma map_add_upt': "map (\<lambda>k. k + s) [a ..< b] = [a + s ..< b + s]"
  by (induction b) simp_all

lemma range_indices_shift:
  "range_indices (range_shift r s) = map (\<lambda>k. k + s) (range_indices r)"
  by (simp add: range_indices_def range_shift_def map_add_upt' add.commute add.left_commute)

lemma split_ranges_written:
  assumes "written_prefix st W"
    and "length W + length (concat (map (\<lambda>i.
            range_indices (range_shift (ranges ! i) (range_start points))
            @ (if sj \<and> i + 1 = length ranges
               then range_indices (range_shift (ranges ! 0) (range_start points)) else [])) js))
         \<le> length (dst_to_src_point st)"
  shows "\<exists>st'. split_ranges points ranges sj cyc c js st = Some st'
           \<and> written_prefix st' (W @ concat (map (\<lambda>i.
                 range_indices (range_shift (ranges ! i) (range_start points))
                 @ (if sj \<and> i + 1 = length ranges
                    then range_indices (range_shift (ranges ! 0) (range_start points)) else [])) js))
           \<and> length (dst_to_src_point st') = length (dst_to_src_point st)
           \<and> dst_to_src_curve st' = dst_to_src_curve st @ replicate (length js) c
           \<and> length (dst_counts st') = length (dst_counts st) + length js
           \<and> length (dst_cyclic st') = length (dst_cyclic st) + length js"
  using assms
proof (induction js arbitrary: st W)
  case Nil
  then show ?case by simp
next
  case (Cons j js)
  let ?R = "\<lambda>i. range_indices (range_shift (ranges ! i) (range_start points))"
  let ?joined = "sj \<and> int j = int (length ranges) - 1"
  have jn: "?joined = (sj \<and> j + 1 = length ranges)" by auto
  let ?X = "if sj \<and> j + 1 = length ranges then ?R 0 else []"
  from Cons.prems(2) have b1: "length W + length (?R j) \<le> length (dst_to_src_point st)" by simp
  from write_points_written [OF Cons.prems(1) b1]
  obtain st1 where s1: "write_points (?R j) st = Some st1" and w1: "written_prefix st1 (W @ ?R j)"
    and l1: "length (dst_to_src_point st1) = length (dst_to_src_point st)"
    and k1: "dst_counts st1 = dst_counts st" "dst_to_src_curve st1 = dst_to_src_curve st"
      "dst_cyclic st1 = dst_cyclic st" by blast
  from Cons.prems(2) l1 have b2: "length (W @ ?R j) + length ?X \<le> length (dst_to_src_point st1)"
    by simp
  from write_points_written [OF w1 b2]
  obtain st2 where s2: "write_points ?X st1 = Some st2" and w2: "written_prefix st2 ((W @ ?R j) @ ?X)"
    and l2: "length (dst_to_src_point st2) = length (dst_to_src_point st1)"
    and k2: "dst_counts st2 = dst_counts st1" "dst_to_src_curve st2 = dst_to_src_curve st1"
      "dst_cyclic st2 = dst_cyclic st1" by blast
  have s2': "(if ?joined then write_points (?R 0) st1 else Some st1) = Some st2"
    using s2 by (simp only: jn split: if_splits) (auto split: if_splits)
  let ?st3 = "st2\<lparr>dst_counts := dst_counts st2 @
                     [if ?joined then range_size (ranges ! j) + range_size (ranges ! 0)
                      else range_size (ranges ! j)],
                 dst_to_src_curve := dst_to_src_curve st2 @ [c],
                 dst_cyclic := dst_cyclic st2 @ [cyc]\<rparr>"
  from w2 have w3: "written_prefix ?st3 ((W @ ?R j) @ ?X)" by (simp add: written_prefix_def)
  from Cons.prems(2) l1 l2 have b3:
    "length ((W @ ?R j) @ ?X) + length (concat (map (\<lambda>i. ?R i
        @ (if sj \<and> i + 1 = length ranges then ?R 0 else [])) js))
       \<le> length (dst_to_src_point ?st3)" by simp
  from Cons.IH [OF w3 b3]
  obtain st' where r: "split_ranges points ranges sj cyc c js ?st3 = Some st'"
    and w: "written_prefix st' (((W @ ?R j) @ ?X) @ concat (map (\<lambda>i. ?R i
        @ (if sj \<and> i + 1 = length ranges then ?R 0 else [])) js))"
    and l: "length (dst_to_src_point st') = length (dst_to_src_point ?st3)"
    and k: "dst_to_src_curve st' = dst_to_src_curve ?st3 @ replicate (length js) c"
      "length (dst_counts st') = length (dst_counts ?st3) + length js"
      "length (dst_cyclic st') = length (dst_cyclic ?st3) + length js" by blast
  have res: "split_ranges points ranges sj cyc c (j # js) st = Some st'"
    using s1 s2' r by (simp add: Let_def)
  from w have w': "written_prefix st' (W @ concat (map (\<lambda>i. ?R i
        @ (if sj \<and> i + 1 = length ranges then ?R 0 else [])) (j # js)))" by simp
  from k k1 k2 have k': "dst_to_src_curve st' = dst_to_src_curve st @ replicate (length (j # js)) c"
      "length (dst_counts st') = length (dst_counts st) + length (j # js)"
      "length (dst_cyclic st') = length (dst_cyclic st) + length (j # js)"
    by (simp_all add: replicate_app_Cons_same)
  from l l1 l2 have l': "length (dst_to_src_point st') = length (dst_to_src_point st)" by simp
  from res w' l' k' show ?case by blast
qed

lemma concat_joined:
  assumes "a < n"
  shows "concat (map (\<lambda>i. R i @ (if sj \<and> i + 1 = n then X else [])) [a ..< n])
           = concat (map R [a ..< n]) @ (if sj then X else [])"
proof -
  from assms obtain m where n: "n = Suc m" and am: "a \<le> m" by (cases n) auto
  have "map (\<lambda>i. R i @ (if sj \<and> i + 1 = n then X else [])) [a ..< m] = map R [a ..< m]"
    by (rule map_cong [OF refl]) (simp add: n)
  then have "concat (map (\<lambda>i. R i @ (if sj \<and> i + 1 = n then X else [])) [a ..< m])
      = concat (map R [a ..< m])" by (rule arg_cong)
  moreover have "[a ..< n] = [a ..< m] @ [m]" using am n by simp
  ultimately show ?thesis by (simp add: n)
qed

lemma map_nth_fun: "map (\<lambda>i. f (xs ! i)) [0 ..< length xs] = map f xs"
proof -
  have "map f (map (\<lambda>i. xs ! i) [0 ..< length xs]) = map f xs" by (simp only: map_nth)
  then show ?thesis by (simp add: comp_def)
qed

lemma split_curve_written:
  assumes "written_prefix st W" "varray_get cycv c = Some b"
    and "length W + length (positions_from (slice_span ptd (points_by_curve g c)) False 0)
           \<le> length (dst_to_src_point st)"
  shows "\<exists>st' P k. split_curve g ptd cycv c st = Some st' \<and> written_prefix st' (W @ P)
           \<and> mset P = mset (positions_from (slice_span ptd (points_by_curve g c)) False
                              (range_start (points_by_curve g c)))
           \<and> length (dst_to_src_point st') = length (dst_to_src_point st)
           \<and> dst_to_src_curve st' = dst_to_src_curve st @ replicate k c
           \<and> length (dst_counts st') = length (dst_counts st) + k
           \<and> length (dst_cyclic st') = length (dst_cyclic st) + k
           \<and> (k = 0 \<longrightarrow> P = [])"
proof -
  let ?points = "points_by_curve g c"
  let ?bs = "slice_span ptd ?points"
  let ?ranges = "find_all_ranges ?bs False"
  let ?n = "length ?ranges"
  let ?s = "range_start ?points"
  let ?R = "\<lambda>i. range_indices (range_shift (?ranges ! i) ?s)"
  let ?all = "concat (map ?R [0 ..< ?n])"
  have "?all = concat (map (\<lambda>r. range_indices (range_shift r ?s)) ?ranges)"
    by (rule arg_cong [where f = concat]) (rule map_nth_fun)
  also have "\<dots> = concat (map (\<lambda>r. map (\<lambda>k. k + ?s) (range_indices r)) ?ranges)"
    by (simp only: range_indices_shift)
  also have "\<dots> = map (\<lambda>k. k + ?s) (concat (map range_indices ?ranges))"
    by (simp add: map_concat comp_def)
  also have "\<dots> = positions_from ?bs False ?s"
    by (simp only: find_all_ranges_concat positions_from_shift) simp
  finally have all: "?all = positions_from ?bs False ?s" .
  have len_all: "length ?all = length (positions_from ?bs False 0)"
  proof -
    have "positions_from ?bs False ?s = map (\<lambda>k. k + ?s) (positions_from ?bs False 0)"
      by (simp only: positions_from_shift) simp
    then have "length (positions_from ?bs False ?s) = length (positions_from ?bs False 0)"
      by simp
    with all show ?thesis by simp
  qed
  show ?thesis
  proof (cases "?ranges = []")
    case True
    then have "?all = []" by simp
    with all have e: "positions_from ?bs False ?s = []" by simp
    from True assms(2) have "split_curve g ptd cycv c st = Some st"
      by (simp add: split_curve_def Let_def)
    with assms(1) e show ?thesis
      by (intro exI [of _ st] exI [of _ "[]"] exI [of _ 0]) simp
  next
    case False
    then have n1: "1 \<le> ?n" by (cases ?ranges) simp_all
    define lss where "lss = (b \<and> range_first (hd ?ranges) = 0
                           \<and> range_last (last ?ranges) 0 = int (range_size ?points) - 1)"
    define sj where "sj = (lss \<and> ?n \<noteq> 1)"
    define cyc where "cyc = (?n = 1 \<and> lss)"
    define js where "js = drop (if sj then 1 else 0) [0 ..< ?n]"
    have sc: "split_curve g ptd cycv c st = split_ranges ?points ?ranges sj cyc c js st"
      using False assms(2) by (simp add: split_curve_def Let_def lss_def sj_def cyc_def js_def)
    define R where "R = ?R"
    define E where "E = concat (map (\<lambda>i. R i @ (if sj \<and> i + 1 = ?n then R 0 else [])) js)"
    let ?E = "concat (map (\<lambda>i. ?R i @ (if sj \<and> i + 1 = ?n then ?R 0 else [])) js)"
    have EE: "?E = E" by (simp only: E_def R_def)
    have aa: "?all = concat (map R [0 ..< ?n])" by (simp only: R_def)
    have E': "mset E = mset (concat (map R [0 ..< ?n])) \<and> 1 \<le> length js"
    proof (cases sj)
      case True
      then have n2: "1 < ?n" using n1 by (simp add: sj_def)
      from True have js: "js = [1 ..< ?n]" by (simp add: js_def)
      have "E = concat (map R [1 ..< ?n]) @ (if sj then R 0 else [])"
        unfolding E_def js by (rule concat_joined [OF n2])
      with True have e: "E = concat (map R [1 ..< ?n]) @ R 0" by simp
      from n2 have "0 < ?n" by linarith
      then have "[0 ..< ?n] = 0 # [Suc 0 ..< ?n]" by (rule upt_conv_Cons)
      then have "concat (map R [0 ..< ?n]) = R 0 @ concat (map R [Suc 0 ..< ?n])" by simp
      then have a: "mset (concat (map R [0 ..< ?n])) = mset (concat (map R [1 ..< ?n]) @ R 0)"
        by simp
      from n2 js have "1 \<le> length js" by simp
      with e a show ?thesis by simp
    next
      case False
      then have js: "js = [0 ..< ?n]" by (simp add: js_def)
      from n1 have n0: "0 < ?n" by linarith
      have "E = concat (map R [0 ..< ?n]) @ (if sj then R 0 else [])"
        unfolding E_def js by (rule concat_joined [OF n0])
      with False have "E = concat (map R [0 ..< ?n])" by simp
      moreover from js n1 have "1 \<le> length js" by simp
      ultimately show ?thesis by simp
    qed
    from E' have "size (mset E) = size (mset (concat (map R [0 ..< ?n])))" by simp
    then have "length E = length (concat (map R [0 ..< ?n]))" by (simp only: size_mset)
    also have "\<dots> = length ?all" by (simp only: aa)
    finally have lenE: "length E = length (positions_from ?bs False 0)" by (simp only: len_all)
    have b: "length W + length ?E \<le> length (dst_to_src_point st)"
      unfolding EE using lenE assms(3) by simp
    note sr = split_ranges_written [OF assms(1) b, of cyc c, unfolded EE]
    from sr obtain st' where r: "split_ranges ?points ?ranges sj cyc c js st = Some st'"
      and w: "written_prefix st' (W @ E)"
      and l: "length (dst_to_src_point st') = length (dst_to_src_point st)"
      and k: "dst_to_src_curve st' = dst_to_src_curve st @ replicate (length js) c"
        "length (dst_counts st') = length (dst_counts st) + length js"
        "length (dst_cyclic st') = length (dst_cyclic st) + length js" by blast
    from E' have "mset E = mset ?all" by (simp only: aa)
    then have m: "mset E = mset (positions_from ?bs False ?s)" by (simp only: all)
    from E' have "1 \<le> length js" by (rule conjunct2)
    then have "length js \<noteq> 0" by linarith
    with r w l k m sc show ?thesis
      by (intro exI [of _ st'] exI [of _ E] exI [of _ "length js"]) simp
  qed
qed

lemma length_positions_from:
  "length (positions_from xs v i) = length (filter (\<lambda>b. b = v) xs)"
  by (induction xs arbitrary: i) simp_all

lemma length_kept_points:
  "length (kept_points g ptd c)
     = length (positions_from (slice_span ptd (points_by_curve g c)) False 0)"
  by (simp only: kept_points_def length_positions_from)

lemma split_curves_written:
  assumes "written_prefix st W"
    and "\<forall>c \<in> set cs. c < n \<and> (\<exists>b. varray_get cycv c = Some b)"
    and "length W + length (concat (map (kept_points g ptd) cs)) \<le> length (dst_to_src_point st)"
    and "\<forall>c \<in> set (dst_to_src_curve st). c < n"
    and "length (dst_counts st) = length (dst_to_src_curve st)"
    and "length (dst_cyclic st) = length (dst_to_src_curve st)"
    and "dst_to_src_curve st = [] \<longrightarrow> W = []"
  shows "\<exists>st' P. split_curves g ptd cycv cs st = Some st' \<and> written_prefix st' (W @ P)
           \<and> mset P = mset (concat (map (kept_points g ptd) cs))
           \<and> length (dst_to_src_point st') = length (dst_to_src_point st)
           \<and> (\<forall>c \<in> set (dst_to_src_curve st'). c < n)
           \<and> length (dst_counts st') = length (dst_to_src_curve st')
           \<and> length (dst_cyclic st') = length (dst_to_src_curve st')
           \<and> (dst_to_src_curve st' = [] \<longrightarrow> W @ P = [])"
  using assms
proof (induction cs arbitrary: st W)
  case Nil
  then show ?case by simp
next
  case (Cons c cs)
  from Cons.prems(2) obtain b where cn: "c < n" and b: "varray_get cycv c = Some b" by auto
  from Cons.prems(3) have b1:
    "length W + length (positions_from (slice_span ptd (points_by_curve g c)) False 0)
       \<le> length (dst_to_src_point st)"
    by (simp add: length_kept_points)
  from split_curve_written [OF Cons.prems(1) b b1]
  obtain st1 P1 k where s1: "split_curve g ptd cycv c st = Some st1"
    and w1: "written_prefix st1 (W @ P1)"
    and m1: "mset P1 = mset (kept_points g ptd c)"
    and l1: "length (dst_to_src_point st1) = length (dst_to_src_point st)"
    and c1: "dst_to_src_curve st1 = dst_to_src_curve st @ replicate k c"
    and n1: "length (dst_counts st1) = length (dst_counts st) + k"
      "length (dst_cyclic st1) = length (dst_cyclic st) + k"
    and k0: "k = 0 \<longrightarrow> P1 = []"
    unfolding kept_points_def by blast
  from m1 have "size (mset P1) = size (mset (kept_points g ptd c))" by simp
  then have lp: "length P1 = length (kept_points g ptd c)" by (simp only: size_mset)
  from Cons.prems(3) l1 lp have b2:
    "length (W @ P1) + length (concat (map (kept_points g ptd) cs)) \<le> length (dst_to_src_point st1)"
    by simp
  from Cons.prems(2) have p2: "\<forall>c \<in> set cs. c < n \<and> (\<exists>b. varray_get cycv c = Some b)" by simp
  from Cons.prems(4) c1 cn have p4: "\<forall>c \<in> set (dst_to_src_curve st1). c < n" by auto
  from Cons.prems(5,6) c1 n1 have p5: "length (dst_counts st1) = length (dst_to_src_curve st1)"
    and p6: "length (dst_cyclic st1) = length (dst_to_src_curve st1)" by simp_all
  from Cons.prems(7) c1 k0 have p7: "dst_to_src_curve st1 = [] \<longrightarrow> W @ P1 = []" by simp
  from Cons.IH [OF w1 p2 b2 p4 p5 p6 p7]
  obtain st' P where r: "split_curves g ptd cycv cs st1 = Some st'"
    and w: "written_prefix st' ((W @ P1) @ P)"
    and m: "mset P = mset (concat (map (kept_points g ptd) cs))"
    and l: "length (dst_to_src_point st') = length (dst_to_src_point st1)"
    and rest: "\<forall>c \<in> set (dst_to_src_curve st'). c < n"
      "length (dst_counts st') = length (dst_to_src_curve st')"
      "length (dst_cyclic st') = length (dst_to_src_curve st')"
      "dst_to_src_curve st' = [] \<longrightarrow> (W @ P1) @ P = []" by blast
  from s1 r have res: "split_curves g ptd cycv (c # cs) st = Some st'" by simp
  from w have w': "written_prefix st' (W @ (P1 @ P))" by simp
  from m m1 have m': "mset (P1 @ P) = mset (concat (map (kept_points g ptd) (c # cs)))" by simp
  from l l1 have l': "length (dst_to_src_point st') = length (dst_to_src_point st)" by simp
  from rest(4) have e': "dst_to_src_curve st' = [] \<longrightarrow> W @ (P1 @ P) = []" by simp
  from res w' m' l' rest(1-3) e' show ?case by blast
qed

lemma kept_points_all_upto:
  assumes "curves_wf g" "0 < curve_num g" "length ptd = point_num g" "k \<le> curve_num g"
  shows "concat (map (kept_points g ptd) [0 ..< k])
           = positions_from (take (curve_offsets g ! k) ptd) False 0"
  using assms(4)
proof (induction k)
  case 0
  from assms(1,2) have "curve_offsets g ! 0 = 0" by (simp add: curves_wf_def)
  then show ?case by simp
next
  case (Suc k)
  let ?a = "curve_offsets g ! k" and ?b = "curve_offsets g ! Suc k"
  from Suc.prems have kk: "k \<le> curve_num g" by simp
  from wf_offsets_le [OF assms(1) _ _ assms(2), of k "Suc k"] Suc.prems have ab: "?a \<le> ?b" by simp
  from wf_offsets_le [OF assms(1) _ _ assms(2), of k "curve_num g"] kk assms(1,2,3)
  have al: "?a \<le> length ptd" by (simp add: curves_wf_def)
  have "take ?b ptd = take (?a + (?b - ?a)) ptd" using ab by simp
  also have "\<dots> = take ?a ptd @ take (?b - ?a) (drop ?a ptd)" by (rule take_add)
  finally have tk: "take ?b ptd = take ?a ptd @ take (?b - ?a) (drop ?a ptd)" .
  have kp: "kept_points g ptd k = positions_from (take (?b - ?a) (drop ?a ptd)) False ?a"
    by (simp add: kept_points_def slice_span_def points_by_curve_def)
  have "concat (map (kept_points g ptd) [0 ..< Suc k])
      = concat (map (kept_points g ptd) [0 ..< k]) @ kept_points g ptd k" by simp
  also have "\<dots> = positions_from (take ?a ptd) False 0
      @ positions_from (take (?b - ?a) (drop ?a ptd)) False ?a"
    by (simp only: Suc.IH [OF kk] kp)
  also have "\<dots> = positions_from (take ?b ptd) False 0"
    using al by (simp only: tk positions_from_append) simp
  finally show ?case .
qed

lemma kept_points_all:
  assumes "curves_wf g" "0 < curve_num g" "length ptd = point_num g"
  shows "concat (map (kept_points g ptd) [0 ..< curve_num g]) = positions_from ptd False 0"
proof -
  from assms(1,2) have "curve_offsets g ! curve_num g = point_num g" by (simp add: curves_wf_def)
  with kept_points_all_upto [OF assms, of "curve_num g"] assms(3) show ?thesis by simp
qed

lemma map_of_filter_key:
  "map_of (filter (\<lambda>(k, v). P k) xs) k = (if P k then map_of xs k else None)"
  by (induction xs) auto

lemma written_full:
  assumes "written_prefix st P" "length P = length (dst_to_src_point st)"
  shows "dst_to_src_point st = P"
  using assms by (simp add: written_prefix_def)

lemma remove_points_and_split_unfold:
  assumes "to_bools point_mask (point_num curves) = Some ptd"
    and "tot = length (filter (\<lambda>b. b = False) ptd)"
  shows "remove_points_and_split garbage uninit unneeded curves point_mask =
     (if tot = 0 then Some empty_curves_geometry
      else do {
          st \<leftarrow> split_curves curves ptd (cyclic curves) [0 ..< curve_num curves]
                 \<lparr>curr_dst_point_id = 0, dst_to_src_point = map garbage [0 ..< tot],
                  dst_counts = [], dst_to_src_curve = [], dst_cyclic = []\<rparr>;
          dst_curves \<leftarrow> write_offsets
             ((new_curves_geometry uninit tot (length (dst_to_src_curve st)))
                \<lparr>vertex_group_names := vertex_group_names curves\<rparr>) (dst_counts st);
          attrs \<leftarrow> gather_attributes (attributes curves) Curve [''cyclic'']
                     (dst_to_src_curve st) (attributes dst_curves);
          dst_curves \<leftarrow> (if length (dst_cyclic st)
                               = length (cyclic_for_write (dst_curves\<lparr>attributes := attrs\<rparr>))
                          then Some (set_cyclic (dst_curves\<lparr>attributes := attrs\<rparr>) (dst_cyclic st))
                          else None);
          attrs \<leftarrow> gather_attributes (attributes curves) Point []
                     (dst_to_src_point st) (attributes dst_curves);
          Some (remove_attributes_based_on_types unneeded (dst_curves\<lparr>attributes := attrs\<rparr>))
        })"
  using assms by (simp add: remove_points_and_split_def Let_def curves_range_def)

text \<open>
  C9. For a well-formed curves geometry and a mask of its points,
  \<open>remove_points_and_split\<close> returns a geometry whose point count is the number of
  source points outside the mask. When the mask holds every point the result is the
  default-constructed geometry. Otherwise the destination points correspond one to one
  to the kept source points (\<open>dst_to_src\<close> lists every kept point once), and every
  point attribute that the final type-dependent clean-up leaves in place holds, for each
  destination point, the value of its source point.
\<close>

theorem remove_points_and_split_kept_points:
  assumes wf: "curves_wf curves"
    and mk: "is_index_mask point_mask" "\<forall>i \<in> set point_mask. i < point_num curves"
  shows "\<exists>dst pre dst_to_src.
      remove_points_and_split garbage uninit unneeded curves point_mask = Some dst
    \<and> point_num dst = length (filter (\<lambda>i. i \<notin> set point_mask) [0 ..< point_num curves])
    \<and> point_num dst = point_num curves - length point_mask
    \<and> (length point_mask = point_num curves \<longrightarrow> dst = empty_curves_geometry)
    \<and> mset dst_to_src = mset (filter (\<lambda>i. i \<notin> set point_mask) [0 ..< point_num curves])
    \<and> (0 < point_num dst \<longrightarrow>
          dst = remove_attributes_based_on_types unneeded pre
          \<and> (\<forall>name a. map_of (attributes curves) name = Some a \<and> attr_domain a = Point
                \<and> name \<notin> set (unneeded pre) \<longrightarrow>
                map_of (attributes dst) name
                  = Some (a\<lparr>attr_data := map (\<lambda>i. attr_data a ! i) dst_to_src\<rparr>)))"
proof -
  let ?n = "point_num curves"
  let ?cn = "curve_num curves"
  let ?ptd = "map (\<lambda>i. i \<in> set point_mask) [0 ..< ?n]"
  let ?kept = "filter (\<lambda>i. i \<notin> set point_mask) [0 ..< ?n]"
  from mk(2) have tb: "to_bools point_mask ?n = Some ?ptd"
    by (simp add: to_bools_def list_all_iff)
  have pk: "positions_from ?ptd False 0 = ?kept"
    using positions_from_map_upt [of "\<lambda>i. i \<in> set point_mask" 0 ?n] by simp
  define tot where "tot = length (filter (\<lambda>b. b = False) ?ptd)"
  note unf = remove_points_and_split_unfold [OF tb tot_def, of garbage uninit unneeded]
  have tot: "tot = length ?kept"
    using length_positions_from [of ?ptd False 0] pk by (simp only: tot_def)
  from mk have s: "sorted_wrt (<) point_mask" by (simp add: is_index_mask_def)
  from mask_complement_mset [OF s mk(2)]
  have "mset point_mask + mset ?kept = mset [0 ..< ?n]"
    by (simp add: mask_complement_def range_indices_def)
  then have "size (mset point_mask + mset ?kept) = size (mset [0 ..< ?n])" by (rule arg_cong)
  then have "length point_mask + length ?kept = length [0 ..< ?n]"
    by (simp only: size_union size_mset)
  then have sz: "length point_mask + length ?kept = ?n" by (simp only: length_upt diff_zero)
  show ?thesis
  proof (cases "tot = 0")
    case True
    with unf have r: "remove_points_and_split garbage uninit unneeded curves point_mask
        = Some empty_curves_geometry"
      by simp
    from True tot have k0: "?kept = []" by simp
    with sz have "?n - length point_mask = 0" by simp
    with r k0 show ?thesis
      by (intro exI [of _ empty_curves_geometry] exI [of _ empty_curves_geometry] exI [of _ "[]"])
        (simp add: empty_curves_geometry_def)
  next
    case False
    then have tpos: "0 < tot" by simp
    with tot sz have npos: "0 < ?n" by (cases "?n") auto
    with wf have cpos: "0 < ?cn" by (auto simp: curves_wf_def split: if_splits)
    let ?st0 = "\<lparr>curr_dst_point_id = 0, dst_to_src_point = map garbage [0 ..< tot],
                  dst_counts = [], dst_to_src_curve = [], dst_cyclic = []\<rparr>"
    have w0: "written_prefix ?st0 []" by (simp add: written_prefix_def)
    have cy: "\<forall>c \<in> set [0 ..< ?cn]. c < ?cn \<and> (\<exists>b. varray_get (cyclic curves) c = Some b)"
      using varray_get_Some [of _ "cyclic curves"] wf_cyclic_size [OF wf] by simp
    have lptd: "length ?ptd = ?n" by simp
    from kept_points_all [OF wf cpos lptd] pk
    have ka: "concat (map (kept_points curves ?ptd) [0 ..< ?cn]) = ?kept" by simp
    have b0: "length ([] :: nat list) + length (concat (map (kept_points curves ?ptd) [0 ..< ?cn]))
        \<le> length (dst_to_src_point ?st0)"
      by (simp only: ka) (simp add: tot)
    from split_curves_written [OF w0 cy b0]
    obtain st P where st: "split_curves curves ?ptd (cyclic curves) [0 ..< ?cn] ?st0 = Some st"
      and w: "written_prefix st ([] @ P)"
      and m: "mset P = mset (concat (map (kept_points curves ?ptd) [0 ..< ?cn]))"
      and l: "length (dst_to_src_point st) = length (dst_to_src_point ?st0)"
      and cs: "\<forall>c \<in> set (dst_to_src_curve st). c < ?cn"
      and lc: "length (dst_counts st) = length (dst_to_src_curve st)"
      and ly: "length (dst_cyclic st) = length (dst_to_src_curve st)"
      and ne: "dst_to_src_curve st = [] \<longrightarrow> [] @ P = []"
      by auto
    from m ka have mP: "mset P = mset ?kept" by simp
    then have "size (mset P) = size (mset ?kept)" by (rule arg_cong)
    then have "length P = length ?kept" by (simp only: size_mset)
    then have lP: "length P = tot" by (simp only: tot)
    with l have "length P = length (dst_to_src_point st)" by simp
    with w have arr: "dst_to_src_point st = P" using written_full [of st P] by simp
    from lP tpos have "P \<noteq> []" by auto
    with ne have tc: "0 < length (dst_to_src_curve st)" by auto
    let ?tc = "length (dst_to_src_curve st)"
    let ?d0 = "(new_curves_geometry uninit tot ?tc)\<lparr>vertex_group_names := vertex_group_names curves\<rparr>"
    from tc lc obtain offsets where
      wo: "write_offsets ?d0 (dst_counts st) = Some (?d0\<lparr>curve_offsets := offsets\<rparr>)"
      by (simp add: write_offsets_def new_curves_geometry_def accumulate_counts_to_offsets_def Let_def)
    let ?a0 = "[(''position'',
         \<lparr>attr_domain = Point, attr_type = CD_PROP_FLOAT3, attr_data = replicate tot uninit\<rparr>)]"
    have a0: "attributes (?d0\<lparr>curve_offsets := offsets\<rparr>) = ?a0"
      by (simp add: new_curves_geometry_def)
    have "\<forall>(n, a) \<in> set (attributes curves). attr_domain a = Curve \<longrightarrow>
            (\<forall>i \<in> set (dst_to_src_curve st). i < length (attr_data a))"
      using wf_attr_length_set [OF wf] cs by (auto simp: domain_size_def)
    from gather_attributes_Some [OF this, of "[''cyclic'']" ?a0]
    obtain attrs1 where g1: "gather_attributes (attributes curves) Curve [''cyclic'']
        (dst_to_src_curve st) ?a0 = Some attrs1" by blast
    from wf have dist: "distinct (map fst (attributes curves))" by (simp add: curves_wf_def)
    have c1: "map_of attrs1 ''cyclic'' = None"
      using gather_attributes_map_of [OF dist g1, of "''cyclic''"]
      by (simp split: option.splits)
    let ?d1 = "?d0\<lparr>curve_offsets := offsets, attributes := attrs1\<rparr>"
    from c1 have cw: "length (cyclic_for_write ?d1) = ?tc"
      by (simp add: cyclic_for_write_def cyclic_def lookup_or_default_bool_def domain_size_def
          new_curves_geometry_def)
    let ?d2 = "set_cyclic ?d1 (dst_cyclic st)"
    from mP have "set P = set ?kept" by (rule mset_eq_setD)
    then have Pn: "\<forall>i \<in> set P. i < ?n" by auto
    have "\<forall>(n, a) \<in> set (attributes curves). attr_domain a = Point \<longrightarrow>
            (\<forall>i \<in> set P. i < length (attr_data a))"
      using wf_attr_length_set [OF wf] Pn by (auto simp: domain_size_def)
    from gather_attributes_Some [OF this, of "[]" "attributes ?d2"]
    obtain attrs2 where g2: "gather_attributes (attributes curves) Point [] P (attributes ?d2)
        = Some attrs2" by blast
    let ?pre = "?d2\<lparr>attributes := attrs2\<rparr>"
    let ?dst = "remove_attributes_based_on_types unneeded ?pre"
    have res: "remove_points_and_split garbage uninit unneeded curves point_mask = Some ?dst"
      using False by (simp add: unf st wo a0 g1 cw ly arr g2)
    have pn: "point_num ?dst = tot"
      by (simp add: remove_attributes_based_on_types_def set_cyclic_def new_curves_geometry_def)
    have at: "map_of (attributes ?dst) name = Some (a\<lparr>attr_data := map (\<lambda>i. attr_data a ! i) P\<rparr>)"
      if "map_of (attributes curves) name = Some a" "attr_domain a = Point"
        "name \<notin> set (unneeded ?pre)" for name a
    proof -
      from gather_attributes_map_of [OF dist g2, of name] that(1,2)
      have "map_of attrs2 name = Some (a\<lparr>attr_data := map (\<lambda>i. attr_data a ! i) P\<rparr>)" by simp
      with that(3) show ?thesis
        by (simp add: remove_attributes_based_on_types_def map_of_filter_key)
    qed
    from tpos tot sz have ne2: "length point_mask \<noteq> ?n" by linarith
    from tot sz have pm: "tot = ?n - length point_mask" by linarith
    have f1: "point_num ?dst = length ?kept" using pn tot by simp
    have f2: "point_num ?dst = ?n - length point_mask" using pn pm by simp
    have f3: "length point_mask = ?n \<longrightarrow> ?dst = empty_curves_geometry" using ne2 by simp
    have f5: "0 < point_num ?dst \<longrightarrow>
          ?dst = remove_attributes_based_on_types unneeded ?pre
          \<and> (\<forall>name a. map_of (attributes curves) name = Some a \<and> attr_domain a = Point
                \<and> name \<notin> set (unneeded ?pre) \<longrightarrow>
                map_of (attributes ?dst) name
                  = Some (a\<lparr>attr_data := map (\<lambda>i. attr_data a ! i) P\<rparr>))"
      using at by blast
    show ?thesis
      by (rule exI [of _ ?dst], rule exI [of _ ?pre], rule exI [of _ P])
        (intro conjI res f1 f2 f3 mP f5)
  qed
qed

theorem remove_points_and_split_kept_points_witness:
  "\<exists>dst. remove_points_and_split (\<lambda>_. 99) (FloatV (0 :: int)) (\<lambda>_. [])
       \<lparr>point_num = 9, curve_num = 2, curve_offsets = [0, 3, 9],
        attributes =
          [(''position'', \<lparr>attr_domain = Point, attr_type = CD_PROP_FLOAT3,
              attr_data = map FloatV [10, 11, 12, 13, 14, 15, 16, 17, 18]\<rparr>),
           (''cyclic'', \<lparr>attr_domain = Curve, attr_type = CD_PROP_BOOL,
              attr_data = [BoolV False, BoolV True]\<rparr>)],
        vertex_group_names = []\<rparr> [1, 5, 7] = Some dst
     \<and> point_num dst = 6"
proof -
  let ?g = "\<lparr>point_num = 9, curve_num = 2, curve_offsets = [0, 3, 9],
        attributes =
          [(''position'', \<lparr>attr_domain = Point, attr_type = CD_PROP_FLOAT3,
              attr_data = map FloatV [10, 11, 12, 13, 14, 15, 16, 17, 18 :: int]\<rparr>),
           (''cyclic'', \<lparr>attr_domain = Curve, attr_type = CD_PROP_BOOL,
              attr_data = [BoolV False, BoolV True]\<rparr>)],
        vertex_group_names = []\<rparr>"
  have wf: "curves_wf ?g" by (simp add: curves_wf_def domain_size_def)
  have mk: "is_index_mask [1, 5, 7]" "\<forall>i \<in> set [1, 5, 7 :: nat]. i < point_num ?g"
    by (simp_all add: is_index_mask_def)
  from remove_points_and_split_kept_points [OF wf mk, of "\<lambda>_. 99" "FloatV 0" "\<lambda>_. []"]
  obtain dst where "remove_points_and_split (\<lambda>_. 99) (FloatV 0) (\<lambda>_. []) ?g [1, 5, 7] = Some dst"
    and "point_num dst = point_num ?g - length [1, 5, 7 :: nat]" by blast
  then show ?thesis by (intro exI [of _ dst]) simp
qed

subsection \<open>Registration\<close>

lemma registered_append:
  "registered (WM_operatortype_append f registry) name callback =
     (registered registry name callback
      \<or> (idname (f blank_operator_type) = name \<and> exec (f blank_operator_type) = Some callback))"
  by (simp add: registered_def WM_operatortype_append_def)

text \<open>
  C7. \<^verbatim>\<open>ED_operatortypes_grease_pencil_edit\<close> registers an operator type for each of
  the stroke-editing operations that the specification enumerates: smooth, simplify,
  delete, dissolve, reorder, separate, the three snap operators (selection to grid,
  selection to cursor, cursor to selected), extrude and merge by distance. Each is in
  the registry afterwards, under its identifier and with its exec callback, whatever
  the registry held before and whatever the stroke cutter of the other file registers.
\<close>

theorem ED_operatortypes_grease_pencil_edit_registers:
  "registered (ED_operatortypes_grease_pencil_edit stroke_cutter registry)
     ''GREASE_PENCIL_OT_stroke_smooth'' ''grease_pencil_stroke_smooth_exec''
   \<and> registered (ED_operatortypes_grease_pencil_edit stroke_cutter registry)
     ''GREASE_PENCIL_OT_stroke_simplify'' ''grease_pencil_stroke_simplify_exec''
   \<and> registered (ED_operatortypes_grease_pencil_edit stroke_cutter registry)
     ''GREASE_PENCIL_OT_delete'' ''grease_pencil_delete_exec''
   \<and> registered (ED_operatortypes_grease_pencil_edit stroke_cutter registry)
     ''GREASE_PENCIL_OT_dissolve'' ''grease_pencil_dissolve_exec''
   \<and> registered (ED_operatortypes_grease_pencil_edit stroke_cutter registry)
     ''GREASE_PENCIL_OT_reorder'' ''grease_pencil_stroke_reorder_exec''
   \<and> registered (ED_operatortypes_grease_pencil_edit stroke_cutter registry)
     ''GREASE_PENCIL_OT_separate'' ''grease_pencil_separate_exec''
   \<and> registered (ED_operatortypes_grease_pencil_edit stroke_cutter registry)
     ''GREASE_PENCIL_OT_snap_to_grid'' ''grease_pencil_snap_to_grid_exec''
   \<and> registered (ED_operatortypes_grease_pencil_edit stroke_cutter registry)
     ''GREASE_PENCIL_OT_snap_to_cursor'' ''grease_pencil_snap_to_cursor_exec''
   \<and> registered (ED_operatortypes_grease_pencil_edit stroke_cutter registry)
     ''GREASE_PENCIL_OT_snap_cursor_to_selected'' ''grease_pencil_snap_cursor_to_sel_exec''
   \<and> registered (ED_operatortypes_grease_pencil_edit stroke_cutter registry)
     ''GREASE_PENCIL_OT_extrude'' ''grease_pencil_extrude_exec''
   \<and> registered (ED_operatortypes_grease_pencil_edit stroke_cutter registry)
     ''GREASE_PENCIL_OT_stroke_merge_by_distance'' ''grease_pencil_stroke_merge_by_distance_exec''"
proof -
  let ?R = "ED_operatortypes_grease_pencil_edit stroke_cutter registry"
  have smooth: "registered ?R ''GREASE_PENCIL_OT_stroke_smooth'' ''grease_pencil_stroke_smooth_exec''"
    by (simp add: ED_operatortypes_grease_pencil_edit_def registered_append
          GREASE_PENCIL_OT_stroke_smooth_def)
  have simplify: "registered ?R ''GREASE_PENCIL_OT_stroke_simplify''
      ''grease_pencil_stroke_simplify_exec''"
    by (simp add: ED_operatortypes_grease_pencil_edit_def registered_append
          GREASE_PENCIL_OT_stroke_simplify_def)
  have delete: "registered ?R ''GREASE_PENCIL_OT_delete'' ''grease_pencil_delete_exec''"
    by (simp add: ED_operatortypes_grease_pencil_edit_def registered_append
          GREASE_PENCIL_OT_delete_def)
  have dissolve: "registered ?R ''GREASE_PENCIL_OT_dissolve'' ''grease_pencil_dissolve_exec''"
    by (simp add: ED_operatortypes_grease_pencil_edit_def registered_append
          GREASE_PENCIL_OT_dissolve_def)
  have reorder: "registered ?R ''GREASE_PENCIL_OT_reorder'' ''grease_pencil_stroke_reorder_exec''"
    by (simp add: ED_operatortypes_grease_pencil_edit_def registered_append
          GREASE_PENCIL_OT_stroke_reorder_def)
  have separate: "registered ?R ''GREASE_PENCIL_OT_separate'' ''grease_pencil_separate_exec''"
    by (simp add: ED_operatortypes_grease_pencil_edit_def registered_append
          GREASE_PENCIL_OT_separate_def)
  have grid: "registered ?R ''GREASE_PENCIL_OT_snap_to_grid'' ''grease_pencil_snap_to_grid_exec''"
    by (simp add: ED_operatortypes_grease_pencil_edit_def registered_append
          GREASE_PENCIL_OT_snap_to_grid_def)
  have cursor: "registered ?R ''GREASE_PENCIL_OT_snap_to_cursor''
      ''grease_pencil_snap_to_cursor_exec''"
    by (simp add: ED_operatortypes_grease_pencil_edit_def registered_append
          GREASE_PENCIL_OT_snap_to_cursor_def)
  have selected: "registered ?R ''GREASE_PENCIL_OT_snap_cursor_to_selected''
      ''grease_pencil_snap_cursor_to_sel_exec''"
    by (simp add: ED_operatortypes_grease_pencil_edit_def registered_append
          GREASE_PENCIL_OT_snap_cursor_to_selected_def)
  have extrude: "registered ?R ''GREASE_PENCIL_OT_extrude'' ''grease_pencil_extrude_exec''"
    by (simp add: ED_operatortypes_grease_pencil_edit_def registered_append
          GREASE_PENCIL_OT_extrude_def)
  have merge: "registered ?R ''GREASE_PENCIL_OT_stroke_merge_by_distance''
      ''grease_pencil_stroke_merge_by_distance_exec''"
    by (simp add: ED_operatortypes_grease_pencil_edit_def registered_append
          GREASE_PENCIL_OT_stroke_merge_by_distance_def)
  from smooth simplify delete dissolve reorder separate grid cursor selected extrude merge
  show ?thesis by (intro conjI)
qed

end
